theory Spec2Isabelle
  imports Main "HOL-Library.AList"
begin

section \<open>Python classes of the dataset layer\<close>

text \<open>
  The dataset classes that \<^verbatim>\<open>gpu_dataset.py\<close> declares or imports, and the ones
  \<^verbatim>\<open>validation/utils.py\<close> names.  \<open>OtherDataset\<close> stands for any further subclass of
  \<^verbatim>\<open>LAMLDataset\<close> that a caller may define.
\<close>

datatype py_class =
    LAMLDataset
  | NumpyDataset
  | CSRSparseDataset
  | PandasDataset
  | CupyDataset
  | CupySparseDataset
  | CudfDataset
  | SeqCudfDataset
  | DaskCudfDataset
  | SeqDaskCudfDataset
  | OtherDataset string

text \<open>
  The class statements of \<^verbatim>\<open>gpu_dataset.py\<close>:
  \<^verbatim>\<open>class CupyDataset(NumpyDataset)\<close>, \<^verbatim>\<open>class CupySparseDataset(CupyDataset)\<close>,
  \<^verbatim>\<open>class CudfDataset(PandasDataset)\<close>, \<^verbatim>\<open>class SeqCudfDataset(CudfDataset)\<close>,
  \<^verbatim>\<open>class DaskCudfDataset(CudfDataset)\<close>, \<^verbatim>\<open>class SeqDaskCudfDataset(DaskCudfDataset)\<close>.
  The list is the chain of classes an instance belongs to, most derived first, as far as
  the class statements of this file give it.
\<close>

fun mro :: "py_class \<Rightarrow> py_class list" where
  "mro CupyDataset = [CupyDataset, NumpyDataset]"
| "mro CupySparseDataset = [CupySparseDataset, CupyDataset, NumpyDataset]"
| "mro CudfDataset = [CudfDataset, PandasDataset]"
| "mro SeqCudfDataset = [SeqCudfDataset, CudfDataset, PandasDataset]"
| "mro DaskCudfDataset = [DaskCudfDataset, CudfDataset, PandasDataset]"
| "mro SeqDaskCudfDataset = [SeqDaskCudfDataset, DaskCudfDataset, CudfDataset, PandasDataset]"
| "mro c = [c]"


text \<open>Exceptions of the modelled code.\<close>

datatype py_error =
    NameError
  | AssertionError
  | AttributeError
  | TypeError
  | KeyError
  | IndexError
  | ValueError

section \<open>Validation iterator selection (\<^verbatim>\<open>validation/utils.py\<close>)\<close>






section \<open>Identity conversions\<close>

text \<open>
  Objects live in a store; a method receives the address of \<^verbatim>\<open>self\<close> and returns an
  address.  Returning the same instance is returning the address it was called on and
  leaving the store as it was (no object is allocated).
\<close>

type_synonym addr = nat

type_synonym 'o store = "addr \<Rightarrow> 'o option"

text \<open>\<^verbatim>\<open>CupyDataset.to_cupy\<close>: \<^verbatim>\<open>return self\<close>.\<close>

definition CupyDataset_to_cupy :: "'o store \<Rightarrow> addr \<Rightarrow> 'o store \<times> addr" where
  "CupyDataset_to_cupy s self = (s, self)"

text \<open>\<^verbatim>\<open>CudfDataset.to_cudf\<close>: \<^verbatim>\<open>return self\<close>.\<close>

definition CudfDataset_to_cudf :: "'o store \<Rightarrow> addr \<Rightarrow> 'o store \<times> addr" where
  "CudfDataset_to_cudf s self = (s, self)"

text \<open>
  \<^verbatim>\<open>DaskCudfDataset.to_daskcudf(self, npartitions=1, index_ok=True)\<close>: \<^verbatim>\<open>return self\<close>;
  both arguments are ignored.
\<close>

definition DaskCudfDataset_to_daskcudf ::
  "'o store \<Rightarrow> addr \<Rightarrow> nat \<Rightarrow> bool \<Rightarrow> 'o store \<times> addr" where
  "DaskCudfDataset_to_daskcudf s self npartitions index_ok = (s, self)"

text \<open>
  Which class body holds the method that runs for an instance of a class: the first
  class of its chain that defines the name.  The three conversions are defined in
  these classes of \<^verbatim>\<open>gpu_dataset.py\<close>:
  \<^verbatim>\<open>to_cupy\<close> in CupyDataset, CupySparseDataset, CudfDataset, DaskCudfDataset;
  \<^verbatim>\<open>to_cudf\<close> in CupyDataset, CudfDataset, SeqCudfDataset, DaskCudfDataset;
  \<^verbatim>\<open>to_daskcudf\<close> in CupyDataset, CudfDataset, DaskCudfDataset, SeqDaskCudfDataset.
\<close>

fun class_defines :: "py_class \<Rightarrow> string \<Rightarrow> bool" where
  "class_defines CupyDataset m = (m \<in> set [''to_cupy'', ''to_cudf'', ''to_daskcudf''])"
| "class_defines CupySparseDataset m = (m \<in> set [''to_cupy''])"
| "class_defines CudfDataset m = (m \<in> set [''to_cupy'', ''to_cudf'', ''to_daskcudf''])"
| "class_defines SeqCudfDataset m = (m \<in> set [''to_cudf''])"
| "class_defines DaskCudfDataset m = (m \<in> set [''to_cupy'', ''to_cudf'', ''to_daskcudf''])"
| "class_defines SeqDaskCudfDataset m = (m \<in> set [''to_daskcudf''])"
| "class_defines c m = False"

definition resolve :: "py_class \<Rightarrow> string \<Rightarrow> py_class option" where
  "resolve c m = find (\<lambda>d. class_defines d m) (mro c)"

section \<open>Dtypes and the numpy routines the dense backend calls\<close>

text \<open>
  The dtypes a role or a device array can carry.  \<^verbatim>\<open>cp.find_common_type\<close>,
  \<^verbatim>\<open>cp.issubdtype\<close> and \<^verbatim>\<open>cp.number\<close> are numpy's own objects re-exported by cupy;
  they are library code, modelled here from numpy's definitions.
\<close>

datatype dtype =
    Bool
  | Int8 | UInt8 | Int16 | UInt16 | Int32 | UInt32 | Int64 | UInt64
  | Float16 | Float32 | Float64
  | Complex64 | Complex128
  | Object
  | Str
  | Datetime64

text \<open>Width of a signed integer dtype, of an unsigned one, of a float and of a complex
  dtype's component; 0 when the dtype is of another kind.\<close>

fun sbits :: "dtype \<Rightarrow> nat" where
  "sbits Int8 = 8" | "sbits Int16 = 16" | "sbits Int32 = 32" | "sbits Int64 = 64"
| "sbits _ = 0"

fun ubits :: "dtype \<Rightarrow> nat" where
  "ubits UInt8 = 8" | "ubits UInt16 = 16" | "ubits UInt32 = 32" | "ubits UInt64 = 64"
| "ubits _ = 0"

fun fbits :: "dtype \<Rightarrow> nat" where
  "fbits Float16 = 16" | "fbits Float32 = 32" | "fbits Float64 = 64"
| "fbits _ = 0"

fun cbits :: "dtype \<Rightarrow> nat" where
  "cbits Complex64 = 32" | "cbits Complex128 = 64"
| "cbits _ = 0"

text \<open>
  The widest integer a float of the given width takes under numpy's safe casting:
  8-bit integers fit float16, 16-bit fit float32, every integer is accepted by float64.
\<close>

fun int_cap :: "nat \<Rightarrow> nat" where
  "int_cap w = (if w = 16 then 8 else if w = 32 then 16 else if w = 64 then 64 else 0)"

text \<open>
  \<^verbatim>\<open>np.can_cast(from, to, casting='safe')\<close>, for the targets that
  \<^verbatim>\<open>find_common_type\<close> tries (bool, the integers, the floats, the complex types and
  object).  Str and Datetime64 are never targets there; as sources they cast safely
  only to object (and to themselves).
\<close>

definition can_cast :: "dtype \<Rightarrow> dtype \<Rightarrow> bool" where
  "can_cast a b =
     (if a = b \<or> b = Object then True
      else if b = Str \<or> b = Datetime64 \<or> b = Bool then False
      else if a = Bool then True
      else if sbits a > 0 then
        (sbits b > 0 \<and> sbits a \<le> sbits b)
        \<or> (fbits b > 0 \<and> sbits a \<le> int_cap (fbits b))
        \<or> (cbits b > 0 \<and> sbits a \<le> int_cap (cbits b))
      else if ubits a > 0 then
        (ubits b > 0 \<and> ubits a \<le> ubits b)
        \<or> (sbits b > 0 \<and> ubits a < sbits b)
        \<or> (fbits b > 0 \<and> ubits a \<le> int_cap (fbits b))
        \<or> (cbits b > 0 \<and> ubits a \<le> int_cap (cbits b))
      else if fbits a > 0 then
        (fbits b > 0 \<and> fbits a \<le> fbits b) \<or> (cbits b > 0 \<and> fbits a \<le> cbits b)
      else if cbits a > 0 then
        (cbits b > 0 \<and> cbits a \<le> cbits b)
      else False)"

text \<open>
  numpy's list of candidate result types, in the order it tries them
  (\<^verbatim>\<open>'?' + typecodes['AllInteger'][:-2] + typecodes['AllFloat'] + 'O'\<close>); the
  extended-precision types are left out, they are never the first fit for the
  dtypes above.
\<close>

definition test_types :: "dtype list" where
  "test_types = [Bool, Int8, UInt8, Int16, UInt16, Int32, UInt32, Int64, UInt64,
                 Float16, Float32, Float64, Complex64, Complex128, Object]"

text \<open>
  \<^verbatim>\<open>
  def _can_coerce_all(dtypelist, start=0):
      N = len(dtypelist)
      if N == 0: return None
      if N == 1: return dtypelist[0]
      thisind = start
      while thisind < __len_test_types:
          newdtype = dtype(__test_types[thisind])
          numcoerce = len([x for x in dtypelist if newdtype >= x])
          if numcoerce == N: return newdtype
          thisind += 1
      return None
  \<close>
\<close>

fun can_coerce_all :: "dtype list \<Rightarrow> dtype option" where
  "can_coerce_all [] = None"
| "can_coerce_all [d] = Some d"
| "can_coerce_all ds = find (\<lambda>t. list_all (\<lambda>x. can_cast x t) ds) test_types"

text \<open>
  \<^verbatim>\<open>find_common_type(array_types, scalar_types)\<close>; the dataset always passes
  \<^verbatim>\<open>[]\<close> for the scalar types, for which numpy returns the coercion of the array types.
\<close>

definition find_common_type :: "dtype list \<Rightarrow> dtype option" where
  "find_common_type array_types = can_coerce_all array_types"

text \<open>
  \<^verbatim>\<open>issubdtype(d, number)\<close>: the integer, unsigned, float and complex dtypes.  Python's
  \<^verbatim>\<open>None\<close> is read by numpy as its default dtype, float64.
\<close>

definition is_number :: "dtype \<Rightarrow> bool" where
  "is_number d = (sbits d > 0 \<or> ubits d > 0 \<or> fbits d > 0 \<or> cbits d > 0)"

fun issubdtype_number :: "dtype option \<Rightarrow> bool" where
  "issubdtype_number None = True"
| "issubdtype_number (Some d) = is_number d"

section \<open>Column roles\<close>

text \<open>
  A role as this code reads it: \<^verbatim>\<open>.name\<close> and \<^verbatim>\<open>.dtype\<close>.  The role classes are
  imported from \<^verbatim>\<open>dataset/roles.py\<close>.
\<close>

record role =
  role_name :: string
  role_dtype :: dtype

text \<open>\<^verbatim>\<open>NumericRole(np.float32)\<close>, the default role of the setters.\<close>

definition NumericRole_float32 :: role where
  "NumericRole_float32 = \<lparr>role_name = ''Numeric'', role_dtype = Float32\<rparr>"

text \<open>
  \<^verbatim>\<open>DropRole()\<close>.  Modelled from the spec: the role named \<open>Drop\<close>; its dtype is the
  default of the role base class (object) and no theorem below depends on it.
\<close>

definition DropRole :: role where
  "DropRole = \<lparr>role_name = ''Drop'', role_dtype = Object\<rparr>"

text \<open>
  A Python dict: an association list in insertion order with distinct keys.  Assigning
  to an existing key keeps its position, a new key goes last; this is
  \<^const>\<open>AList.update\<close>.  \<open>dict_of\<close> is \<^verbatim>\<open>dict(pairs)\<close>: a later pair with the same key
  overwrites the value of an earlier one.
\<close>

type_synonym 'v pydict = "(string \<times> 'v) list"

definition dict_of :: "('k \<times> 'v) list \<Rightarrow> ('k \<times> 'v) list" where
  "dict_of ps = fold (\<lambda>(k, v) d. AList.update k v d) ps []"

section \<open>The dense backend: CupyDataset\<close>

text \<open>A device array: its dtype, its number of columns and its values.  Values are kept
  abstract; \<open>astype\<close> below is the conversion of the values that
  \<^verbatim>\<open>ndarray.astype\<close> performs.\<close>

record 'v ndarray =
  nd_dtype :: dtype
  nd_ncols :: nat
  nd_vals :: 'v

text \<open>What a caller can pass as \<open>data\<close>: \<^verbatim>\<open>None\<close>, a \<^verbatim>\<open>cp.ndarray\<close>, or an object of
  another type.\<close>

datatype 'v data_arg = DataNone | DataCupy "'v ndarray" | DataOther

text \<open>The forms of the \<open>features\<close> and \<open>roles\<close> arguments that the docstring of
  \<^verbatim>\<open>set_data\<close> lists.\<close>

datatype features_arg = FeatList "string list" | FeatNone | FeatPrefix string

datatype roles_arg = RolesDict "role pydict" | RolesList "role list" | RolesNone
  | RolesSingle role

record 'v cupy_dataset =
  cd_data :: "'v ndarray option"
  cd_features :: "string list"
  cd_roles :: "role pydict"
  cd_dtype :: "dtype option"

text \<open>Decimal digits of a number, for the generated feature names.\<close>

fun digits_of :: "nat \<Rightarrow> nat \<Rightarrow> string" where
  "digits_of 0 n = ''''"
| "digits_of (Suc fuel) n =
     (if n < 10 then [char_of (48 + n)]
      else digits_of fuel (n div 10) @ [char_of (48 + n mod 10)])"

definition str_of_nat :: "nat \<Rightarrow> string" where
  "str_of_nat n = digits_of (Suc n) n"

text \<open>
  Modelled from the spec: the \<open>features\<close> setter of the dense base class (NumpyDataset,
  not in this file), as the docstring of \<^verbatim>\<open>CupyDataset.set_data\<close> states it: a list is
  stored as given; \<^verbatim>\<open>None\<close> gives \<open>feat_0, feat_1, ...\<close>; a prefix gives
  \<open>Prefix_0, Prefix_1, ...\<close>, one name per column of the data.  Generating names needs
  the data's shape and fails on \<^verbatim>\<open>None\<close> data.
\<close>

definition set_features ::
  "'v cupy_dataset \<Rightarrow> features_arg \<Rightarrow> (py_error \<times> 'v cupy_dataset) + 'v cupy_dataset" where
  "set_features ds val =
     (case val of
        FeatList fs \<Rightarrow> Inr (ds\<lparr>cd_features := fs\<rparr>)
      | _ \<Rightarrow>
        (case cd_data ds of
           None \<Rightarrow> Inl (AttributeError, ds)
         | Some a \<Rightarrow>
             let prefix = (case val of FeatPrefix p \<Rightarrow> p | _ \<Rightarrow> ''feat'')
             in Inr (ds\<lparr>cd_features :=
                   map (\<lambda>x. prefix @ ''_'' @ str_of_nat x) [0..<nd_ncols a]\<rparr>)))"

text \<open>
  The \<open>roles\<close> setter, as \<^verbatim>\<open>CudfDataset\<close> defines it in this file:
  \<^verbatim>\<open>
  if type(val) is dict:
      self._roles = dict(((x, val[x]) for x in self.features))
  elif type(val) is list:
      self._roles = dict(zip(self.features, val))
  else:
      role = NumericRole(np.float32) if val is None else val
      self._roles = dict(((x, role) for x in self.features))
  \<close>
  Modelled from the spec: the setter of the dense base class (NumpyDataset, not in this
  file) is taken to be the same, as the docstring of \<^verbatim>\<open>CupyDataset.set_data\<close> lists the
  same four cases.
\<close>

definition roles_for :: "string list \<Rightarrow> roles_arg \<Rightarrow> py_error + role pydict" where
  "roles_for features val =
     (case val of
        RolesDict d \<Rightarrow>
          (if list_all (\<lambda>x. map_of d x \<noteq> None) features
           then Inr (dict_of (map (\<lambda>x. (x, the (map_of d x))) features))
           else Inl KeyError)
      | RolesList rs \<Rightarrow> Inr (dict_of (zip features rs))
      | RolesNone \<Rightarrow> Inr (dict_of (map (\<lambda>x. (x, NumericRole_float32)) features))
      | RolesSingle r \<Rightarrow> Inr (dict_of (map (\<lambda>x. (x, r)) features)))"

text \<open>
  Modelled from the spec: \<^verbatim>\<open>LAMLDataset.set_data\<close> (the base class is not in this
  file), which \<^verbatim>\<open>CupyDataset.set_data\<close> reaches through
  \<^verbatim>\<open>super(CupyDataset.__bases__[0], self).set_data(data, features, roles)\<close>: it
  replaces the backing store in place, assigning \<open>data\<close>, then \<open>features\<close>, then
  \<open>roles\<close> through their setters.
\<close>

definition LAMLDataset_set_data ::
  "'v cupy_dataset \<Rightarrow> 'v ndarray option \<Rightarrow> features_arg \<Rightarrow> roles_arg
     \<Rightarrow> (py_error \<times> 'v cupy_dataset) + 'v cupy_dataset" where
  "LAMLDataset_set_data ds data features roles =
     (case set_features (ds\<lparr>cd_data := data\<rparr>) features of
        Inl e \<Rightarrow> Inl e
      | Inr ds1 \<Rightarrow>
          (case roles_for (cd_features ds1) roles of
             Inl e \<Rightarrow> Inl (e, ds1)
           | Inr rs \<Rightarrow> Inr (ds1\<lparr>cd_roles := rs\<rparr>)))"

text \<open>The dtypes of a role table, as \<^verbatim>\<open>_check_dtype\<close> collects them.\<close>

definition role_dtypes :: "role pydict \<Rightarrow> dtype list" where
  "role_dtypes rs = remdups (map (\<lambda>(f, r). role_dtype r) rs)"

text \<open>The \<open>data\<close> argument as the base class receives it.\<close>

fun data_of :: "'v data_arg \<Rightarrow> 'v ndarray option" where
  "data_of (DataCupy a) = Some a"
| "data_of _ = None"

text \<open>
  \<^verbatim>\<open>
  def _check_dtype(self):
      dtypes = list(set([i.dtype for i in self.roles.values()]))
      self.dtype = cp.find_common_type(dtypes, [])
      for f in self.roles:
          self._roles[f].dtype = self.dtype
      assert cp.issubdtype(self.dtype, cp.number), "Support only numeric types in Cupy dataset."
      if self.data.dtype != self.dtype:
          self.data = self.data.astype(self.dtype)
  \<close>
  The common type is \<^verbatim>\<open>None\<close> only for an empty role table; then there is no role to
  overwrite, the assertion reads \<^verbatim>\<open>None\<close> as float64 and the array is cast to float64.
  An exception leaves the object as the statements before it made it, so the error
  carries the dataset at the point of failure.
\<close>

definition set_role_dtypes :: "dtype option \<Rightarrow> role pydict \<Rightarrow> role pydict" where
  "set_role_dtypes dt rs =
     (case dt of None \<Rightarrow> rs
      | Some d \<Rightarrow> map (\<lambda>(f, r). (f, r\<lparr>role_dtype := d\<rparr>)) rs)"

definition CupyDataset_check_dtype ::
  "(dtype \<Rightarrow> 'v \<Rightarrow> 'v) \<Rightarrow> 'v cupy_dataset \<Rightarrow> (py_error \<times> 'v cupy_dataset) + 'v cupy_dataset" where
  "CupyDataset_check_dtype astype ds =
     (let dtypes = role_dtypes (cd_roles ds);
          dt = find_common_type dtypes;
          ds1 = ds\<lparr>cd_dtype := dt, cd_roles := set_role_dtypes dt (cd_roles ds)\<rparr>
      in if \<not> issubdtype_number dt then Inl (AssertionError, ds1)
         else (case cd_data ds1 of
                 None \<Rightarrow> Inl (AttributeError, ds1)
               | Some a \<Rightarrow>
                   let target = (case dt of None \<Rightarrow> Float64 | Some d \<Rightarrow> d)
                   in if nd_dtype a \<noteq> target
                      then Inr (ds1\<lparr>cd_data :=
                             Some (a\<lparr>nd_dtype := target, nd_vals := astype target (nd_vals a)\<rparr>)\<rparr>)
                      else Inr ds1))"

text \<open>
  \<^verbatim>\<open>
  def set_data(self, data, features=(), roles=None):
      assert data is None or type(data) is cp.ndarray, "Cupy dataset support only cp.ndarray features"
      super(CupyDataset.__bases__[0], self).set_data(data, features, roles)
      self._check_dtype()
  \<close>
\<close>

definition CupyDataset_set_data ::
  "(dtype \<Rightarrow> 'v \<Rightarrow> 'v) \<Rightarrow> 'v cupy_dataset \<Rightarrow> 'v data_arg \<Rightarrow> features_arg \<Rightarrow> roles_arg
     \<Rightarrow> (py_error \<times> 'v cupy_dataset) + 'v cupy_dataset" where
  "CupyDataset_set_data astype ds data features roles =
     (case data of
        DataOther \<Rightarrow> Inl (AssertionError, ds)
      | _ \<Rightarrow>
        (case LAMLDataset_set_data ds (data_of data) features roles of
           Inl e \<Rightarrow> Inl e
         | Inr ds1 \<Rightarrow> CupyDataset_check_dtype astype ds1))"

text \<open>
  What "the narrowest common type" of a list of dtypes means for a candidate \<open>d\<close>:
  every dtype of the list casts safely to \<open>d\<close>, and no candidate that numpy tries
  before \<open>d\<close> takes all of them.
\<close>

definition narrowest_common :: "dtype list \<Rightarrow> dtype \<Rightarrow> bool" where
  "narrowest_common ds d =
     (list_all (\<lambda>x. can_cast x d) ds
      \<and> list_all (\<lambda>t. \<not> list_all (\<lambda>x. can_cast x t) ds)
           (takeWhile (\<lambda>t. t \<noteq> d) test_types))"

section \<open>Tables: columns, series and frames\<close>

text \<open>
  A row label of a table index.  \<open>NullLab\<close> is the missing value that
  \<^verbatim>\<open>Series.map(dict)\<close> produces for a key that the dict does not have.
\<close>

datatype label = Lab int | NullLab

record 'v column =
  col_dtype :: dtype
  col_vals :: "'v list"

text \<open>A series: a named column with its row index.\<close>

record 'v series =
  sr_name :: string
  sr_index :: "label list"
  sr_dtype :: dtype
  sr_vals :: "'v list"

text \<open>
  A frame: a row index and named columns in order.  A partitioned (dask) frame is
  modelled by the frame it computes; \<^verbatim>\<open>persist\<close> and \<^verbatim>\<open>compute\<close> are the identity on it.
\<close>

record 'v frame =
  fr_index :: "label list"
  fr_cols :: "'v column pydict"

text \<open>\<^verbatim>\<open>data[f]\<close>: the column \<open>f\<close> as a series that carries the frame's index;
  fails with \<^verbatim>\<open>KeyError\<close> when there is no such column.\<close>

definition get_col :: "'v frame \<Rightarrow> string \<Rightarrow> 'v series option" where
  "get_col fr f =
     (case map_of (fr_cols fr) f of
        None \<Rightarrow> None
      | Some c \<Rightarrow> Some \<lparr>sr_name = f, sr_index = fr_index fr,
                       sr_dtype = col_dtype c, sr_vals = col_vals c\<rparr>)"

text \<open>\<^verbatim>\<open>s.reset_index(drop=True)\<close>: the same values under the labels 0, 1, ...\<close>

definition reset_index_drop :: "'v series \<Rightarrow> 'v series" where
  "reset_index_drop s = s\<lparr>sr_index := map (\<lambda>i. Lab (int i)) [0..<length (sr_index s)]\<rparr>"

section \<open>The table backends: CudfDataset and DaskCudfDataset\<close>

record 'v table_dataset =
  td_task :: "string option"
  td_attrs :: "'v series pydict"
  td_data :: "'v frame option"
  td_roles :: "role pydict"
  td_dtypes :: "dtype pydict"

text \<open>
  Modelled from the spec: the \<open>features\<close> property of the table base class
  (PandasDataset, not in this file): the ordered column names of \<open>data\<close>
  (\<open>len(features) == number_of_columns(data)\<close>), empty without data; assigning to it
  has no effect (\<^verbatim>\<open>CudfDataset.__init__\<close> passes \<^verbatim>\<open>None\<close>).
\<close>

definition table_features :: "'v table_dataset \<Rightarrow> string list" where
  "table_features ds = (case td_data ds of None \<Rightarrow> [] | Some fr \<Rightarrow> map fst (fr_cols fr))"

text \<open>
  Modelled from the spec: \<^verbatim>\<open>LAMLDataset._initialize(task, **kwargs)\<close> (the base class
  is not in this file): an empty dataset that carries the task and stores every keyword
  argument as an auxiliary attribute.
\<close>

definition initialize :: "string option \<Rightarrow> 'v series pydict \<Rightarrow> 'v table_dataset" where
  "initialize task kwargs =
     \<lparr>td_task = task, td_attrs = kwargs, td_data = None, td_roles = [], td_dtypes = []\<rparr>"

text \<open>
  The pairs \<^verbatim>\<open>zip(valid_array_attributes, array_attr_roles)\<close>.  Both tuples are imported
  from \<^verbatim>\<open>dataset/base.py\<close>; the functions below take the list of pairs
  (attribute name, role name) as the parameter \<open>pairs\<close>.

  The inner loop of the constructor for one key \<open>f\<close> of \<open>roles\<close>:
  \<^verbatim>\<open>
  for k, r in zip(valid_array_attributes, array_attr_roles):
      if roles[f].name == r:
          kwargs[k] = data[f].reset_index(drop=True)     # CudfDataset
          kwargs[k] = data[f]                            # DaskCudfDataset
          roles[f] = DropRole()
  \<close>
  \<open>post\<close> is what is applied to \<^verbatim>\<open>data[f]\<close>.  \<^verbatim>\<open>data[f]\<close> raises \<^verbatim>\<open>TypeError\<close> on
  \<^verbatim>\<open>None\<close> and \<^verbatim>\<open>KeyError\<close> on a missing column; an error carries the \<open>roles\<close> dict as
  the statements before it left it.
\<close>

fun extract_inner ::
  "('v series \<Rightarrow> 'v series) \<Rightarrow> 'v frame option \<Rightarrow> string \<Rightarrow> (string \<times> string) list
     \<Rightarrow> 'v series pydict \<times> role pydict
     \<Rightarrow> (py_error \<times> role pydict) + ('v series pydict \<times> role pydict)" where
  "extract_inner post data f [] st = Inr st"
| "extract_inner post data f ((k, r) # ps) (kwargs, roles) =
     (case map_of roles f of
        None \<Rightarrow> Inl (KeyError, roles)
      | Some rl \<Rightarrow>
          if role_name rl = r then
            (case data of
               None \<Rightarrow> Inl (TypeError, roles)
             | Some fr \<Rightarrow>
                 (case get_col fr f of
                    None \<Rightarrow> Inl (KeyError, roles)
                  | Some s \<Rightarrow>
                      extract_inner post data f ps
                        (AList.update k (post s) kwargs, AList.update f DropRole roles)))
          else extract_inner post data f ps (kwargs, roles))"

text \<open>The outer loop \<^verbatim>\<open>for f in roles\<close>, over the keys the dict has when the loop
  starts (the loop assigns only to existing keys).\<close>

fun extract_outer ::
  "('v series \<Rightarrow> 'v series) \<Rightarrow> 'v frame option \<Rightarrow> (string \<times> string) list \<Rightarrow> string list
     \<Rightarrow> 'v series pydict \<times> role pydict
     \<Rightarrow> (py_error \<times> role pydict) + ('v series pydict \<times> role pydict)" where
  "extract_outer post data pairs [] st = Inr st"
| "extract_outer post data pairs (f # fs) st =
     (case extract_inner post data f pairs st of
        Inl e \<Rightarrow> Inl e
      | Inr st' \<Rightarrow> extract_outer post data pairs fs st')"

definition extract_attrs ::
  "('v series \<Rightarrow> 'v series) \<Rightarrow> 'v frame option \<Rightarrow> (string \<times> string) list
     \<Rightarrow> 'v series pydict \<Rightarrow> role pydict
     \<Rightarrow> (py_error \<times> role pydict) + ('v series pydict \<times> role pydict)" where
  "extract_attrs post data pairs kwargs roles =
     extract_outer post data pairs (map fst roles) (kwargs, roles)"

subsection \<open>Dtype coercion of a table\<close>

text \<open>
  \<^verbatim>\<open>DataFrame.astype(dtypes)\<close> with a dict: every column named in the dict is cast to
  its dtype, the others are kept; the result is a new frame.  It raises when a key of
  the dict is not a column or when the cast of one column raises.  \<open>cast\<close> is the
  library's cast of one column (\<open>None\<close>: it raises); it is a parameter.
\<close>

fun astype_cols ::
  "(dtype \<Rightarrow> 'v column \<Rightarrow> 'v column option) \<Rightarrow> dtype pydict \<Rightarrow> 'v column pydict
     \<Rightarrow> 'v column pydict option" where
  "astype_cols cast dtypes [] = Some []"
| "astype_cols cast dtypes ((n, c) # cs) =
     (case map_of dtypes n of
        None \<Rightarrow> map_option (\<lambda>r. (n, c) # r) (astype_cols cast dtypes cs)
      | Some d \<Rightarrow>
          (case cast d c of
             None \<Rightarrow> None
           | Some c' \<Rightarrow> map_option (\<lambda>r. (n, c') # r) (astype_cols cast dtypes cs)))"

definition astype_frame ::
  "(dtype \<Rightarrow> 'v column \<Rightarrow> 'v column option) \<Rightarrow> dtype pydict \<Rightarrow> 'v frame \<Rightarrow> 'v frame option" where
  "astype_frame cast dtypes fr =
     (if list_all (\<lambda>k. k \<in> set (map fst (fr_cols fr))) (map fst dtypes)
      then map_option (\<lambda>cs. fr\<lparr>fr_cols := cs\<rparr>) (astype_cols cast dtypes (fr_cols fr))
      else None)"

text \<open>
  \<^verbatim>\<open>
  try:
      self.data = self.data.astype(self.dtypes)
  except:
      pass
  \<close>
  Any exception of the one call (also the \<^verbatim>\<open>AttributeError\<close> of \<^verbatim>\<open>None.astype\<close>) is
  swallowed and \<^verbatim>\<open>self.data\<close> keeps the object it had.
\<close>

definition cast_step ::
  "(dtype \<Rightarrow> 'v column \<Rightarrow> 'v column option) \<Rightarrow> dtype pydict \<Rightarrow> 'v frame option
     \<Rightarrow> 'v frame option" where
  "cast_step cast dtypes data =
     (case data of
        None \<Rightarrow> None
      | Some fr \<Rightarrow> (case astype_frame cast dtypes fr of None \<Rightarrow> Some fr | Some fr' \<Rightarrow> Some fr'))"

text \<open>
  \<^verbatim>\<open>
  for f in self.roles:
      if self.roles[f].name == "Datetime":
          date_columns.append(f)
      else:
          self.dtypes[f] = self.roles[f].dtype
  \<close>
\<close>

definition date_columns :: "role pydict \<Rightarrow> string list" where
  "date_columns roles = map fst (filter (\<lambda>(f, r). role_name r = ''Datetime'') roles)"

definition cast_dtypes :: "role pydict \<Rightarrow> dtype pydict" where
  "cast_dtypes roles =
     map (\<lambda>(f, r). (f, role_dtype r)) (filter (\<lambda>(f, r). role_name r \<noteq> ''Datetime'') roles)"

text \<open>
  \<^verbatim>\<open>_convert_datetime(data, date_cols)\<close>: each listed column is replaced, in place, by
  \<^verbatim>\<open>cudf.to_datetime\<close> of it with the parameters of its role.  \<open>to_datetime\<close> is that
  library call for the column of a given name (\<open>None\<close>: it raises); it is a parameter.
  The call is outside the \<^verbatim>\<open>try\<close>.
\<close>

fun convert_datetime ::
  "(string \<Rightarrow> 'v column \<Rightarrow> 'v column option) \<Rightarrow> 'v frame option \<Rightarrow> string list
     \<Rightarrow> (py_error \<times> 'v frame option) + 'v frame option" where
  "convert_datetime to_datetime data [] = Inr data"
| "convert_datetime to_datetime data (i # cols) =
     (case data of
        None \<Rightarrow> Inl (AttributeError, data)
      | Some fr \<Rightarrow>
          (case map_of (fr_cols fr) i of
             None \<Rightarrow> Inl (KeyError, data)
           | Some c \<Rightarrow>
               (case to_datetime i c of
                  None \<Rightarrow> Inl (ValueError, data)
                | Some c' \<Rightarrow>
                    convert_datetime to_datetime
                      (Some (fr\<lparr>fr_cols := AList.update i c' (fr_cols fr)\<rparr>)) cols)))"

text \<open>
  \<^verbatim>\<open>CudfDataset._check_dtype\<close>:
  \<^verbatim>\<open>
  date_columns = []
  self.dtypes = {}
  for f in self.roles: ...
  try:
      self.data = self.data.astype(self.dtypes)
  except:
      pass
  self.data = self._convert_datetime(self.data, date_columns)
  for i in date_columns:
      self.dtypes[i] = np.datetime64
  \<close>
\<close>

definition CudfDataset_check_dtype ::
  "(dtype \<Rightarrow> 'v column \<Rightarrow> 'v column option) \<Rightarrow> (string \<Rightarrow> 'v column \<Rightarrow> 'v column option)
     \<Rightarrow> 'v table_dataset \<Rightarrow> (py_error \<times> 'v table_dataset) + 'v table_dataset" where
  "CudfDataset_check_dtype cast to_datetime ds =
     (let dates = date_columns (td_roles ds);
          dtypes = cast_dtypes (td_roles ds);
          data1 = cast_step cast dtypes (td_data ds)
      in case convert_datetime to_datetime data1 dates of
           Inl (e, data2) \<Rightarrow> Inl (e, ds\<lparr>td_dtypes := dtypes, td_data := data2\<rparr>)
         | Inr data2 \<Rightarrow>
             Inr (ds\<lparr>td_data := data2,
                     td_dtypes := fold (\<lambda>i d. AList.update i Datetime64 d) dates dtypes\<rparr>))"

text \<open>
  \<^verbatim>\<open>DaskCudfDataset._check_dtype\<close>:
  \<^verbatim>\<open>
  date_columns = []
  self.dtypes = {}
  for f in self.roles: ...
  try:
      self.data = self.data.astype(self.dtypes).persist()
  except:
      pass
  self.data = self.data.map_partitions(
      self._convert_datetime, date_columns, meta=self.data
  ).persist()
  for i in date_columns:
      self.dtypes[i] = np.datetime64
  \<close>
  The call of \<^verbatim>\<open>map_partitions\<close> is outside the \<^verbatim>\<open>try\<close> and is made whatever the date
  columns are: on \<^verbatim>\<open>None\<close> data it raises \<^verbatim>\<open>AttributeError\<close>.  The conversion runs on
  the partitions; when it fails nothing is assigned to \<^verbatim>\<open>self.data\<close>.
\<close>

definition DaskCudfDataset_check_dtype ::
  "(dtype \<Rightarrow> 'v column \<Rightarrow> 'v column option) \<Rightarrow> (string \<Rightarrow> 'v column \<Rightarrow> 'v column option)
     \<Rightarrow> 'v table_dataset \<Rightarrow> (py_error \<times> 'v table_dataset) + 'v table_dataset" where
  "DaskCudfDataset_check_dtype cast to_datetime ds =
     (let dates = date_columns (td_roles ds);
          dtypes = cast_dtypes (td_roles ds);
          data1 = cast_step cast dtypes (td_data ds)
      in case data1 of
           None \<Rightarrow> Inl (AttributeError, ds\<lparr>td_dtypes := dtypes, td_data := data1\<rparr>)
         | Some fr \<Rightarrow>
             (case convert_datetime to_datetime data1 dates of
                Inl (e, data2) \<Rightarrow> Inl (e, ds\<lparr>td_dtypes := dtypes, td_data := data1\<rparr>)
              | Inr data2 \<Rightarrow>
                  Inr (ds\<lparr>td_data := data2,
                          td_dtypes := fold (\<lambda>i d. AList.update i Datetime64 d) dates dtypes\<rparr>)))"

text \<open>
  \<^verbatim>\<open>set_data(data, features, roles)\<close> of the table backends: the base class stores
  \<open>data\<close> (Modelled from the spec: \<^verbatim>\<open>LAMLDataset.set_data\<close> replaces the backing store;
  the features follow from the data), the \<open>roles\<close> setter of this file builds the role
  table over the features, then \<^verbatim>\<open>_check_dtype\<close> runs.  \<open>check\<close> is the
  \<^verbatim>\<open>_check_dtype\<close> of the class.
\<close>

definition table_set_data ::
  "('v table_dataset \<Rightarrow> (py_error \<times> 'v table_dataset) + 'v table_dataset)
     \<Rightarrow> 'v table_dataset \<Rightarrow> 'v frame option \<Rightarrow> roles_arg
     \<Rightarrow> (py_error \<times> 'v table_dataset) + 'v table_dataset" where
  "table_set_data check ds data roles =
     (let ds1 = ds\<lparr>td_data := data\<rparr>
      in case roles_for (table_features ds1) roles of
           Inl e \<Rightarrow> Inl (e, ds1)
         | Inr rs \<Rightarrow> check (ds1\<lparr>td_roles := rs\<rparr>))"

subsection \<open>Constructors\<close>

text \<open>
  The caller's \<open>roles\<close> dict is an object of its own: the constructor receives its
  address (or \<^verbatim>\<open>None\<close>) and the heap of dicts, and returns the heap as it leaves it.
  \<^verbatim>\<open>
  def __init__(self, data=None, roles=None, task=None, **kwargs):
      if roles is None:
          roles = {}
      for f in roles:
          for k, r in zip(valid_array_attributes, array_attr_roles):
              if roles[f].name == r:
                  kwargs[k] = data[f].reset_index(drop=True)
                  roles[f] = DropRole()
      self._initialize(task, **kwargs)
      if data is not None:
          self.set_data(data, None, roles)
  \<close>
  The result is the heap and either the error raised or the constructed dataset.
\<close>

type_synonym heap = "addr \<Rightarrow> role pydict option"

definition read_roles :: "heap \<Rightarrow> addr option \<Rightarrow> role pydict" where
  "read_roles h r = (case r of None \<Rightarrow> [] | Some a \<Rightarrow> (case h a of None \<Rightarrow> [] | Some d \<Rightarrow> d))"

definition write_roles :: "heap \<Rightarrow> addr option \<Rightarrow> role pydict \<Rightarrow> heap" where
  "write_roles h r d = (case r of None \<Rightarrow> h | Some a \<Rightarrow> h(a \<mapsto> d))"

definition CudfDataset_init ::
  "(string \<times> string) list \<Rightarrow> (dtype \<Rightarrow> 'v column \<Rightarrow> 'v column option)
     \<Rightarrow> (string \<Rightarrow> 'v column \<Rightarrow> 'v column option)
     \<Rightarrow> heap \<Rightarrow> 'v frame option \<Rightarrow> addr option \<Rightarrow> string option \<Rightarrow> 'v series pydict
     \<Rightarrow> heap \<times> (py_error + 'v table_dataset)" where
  "CudfDataset_init pairs cast to_datetime h data roles task kwargs =
     (case extract_attrs reset_index_drop data pairs kwargs (read_roles h roles) of
        Inl (e, rs) \<Rightarrow> (write_roles h roles rs, Inl e)
      | Inr (kwargs', rs) \<Rightarrow>
          (write_roles h roles rs,
           (case data of
              None \<Rightarrow> Inr (initialize task kwargs')
            | Some fr \<Rightarrow>
                (case table_set_data (CudfDataset_check_dtype cast to_datetime)
                        (initialize task kwargs') data (RolesDict rs) of
                   Inl (e, s) \<Rightarrow> Inl e
                 | Inr ds \<Rightarrow> Inr ds))))"

text \<open>
  The re-keying of \<^verbatim>\<open>DaskCudfDataset.__init__\<close>:
  \<^verbatim>\<open>
  size = len(data.index)
  data["index"] = data.index
  mapping = dict(zip(data.index.compute().values_host, np.arange(size)))
  data["index"] = data["index"].map(mapping).persist()
  data = data.set_index("index", drop=True, sorted=True)
  if 'index' in data.columns.to_list():
      data = data.drop(['index'], axis=1)
  \<close>
  \<^verbatim>\<open>set_index(..., sorted=True)\<close> declares the column sorted and makes it the index; it
  does not reorder rows.
\<close>

definition index_mapping :: "label list \<Rightarrow> (label \<times> nat) list" where
  "index_mapping idx = dict_of (zip idx [0..<length idx])"

definition map_label :: "(label \<times> nat) list \<Rightarrow> label \<Rightarrow> label" where
  "map_label m l = (case map_of m l of None \<Rightarrow> NullLab | Some n \<Rightarrow> Lab (int n))"

definition remap_frame :: "(label \<times> nat) list \<Rightarrow> 'v frame \<Rightarrow> 'v frame" where
  "remap_frame m fr =
     fr\<lparr>fr_index := map (map_label m) (fr_index fr),
        fr_cols := filter (\<lambda>(n, c). n \<noteq> ''index'') (fr_cols fr)\<rparr>"

text \<open>
  \<^verbatim>\<open>
  for val in kwargs:
      col_name = kwargs[val].name if isinstance(kwargs[val], dask_cudf.Series) else list(kwargs[val].columns)
      kwargs[val] = kwargs[val].reset_index(drop=False)
      kwargs[val]["index"] = kwargs[val]["index"].map(mapping).persist()
      kwargs[val] = kwargs[val].set_index("index", drop=True, sorted=True)[col_name]
  \<close>
  An auxiliary attribute is modelled as a series.  For a series that is itself named
  \<open>index\<close> the selection by name after \<^verbatim>\<open>set_index\<close> finds no column.
\<close>

definition remap_series :: "(label \<times> nat) list \<Rightarrow> 'v series \<Rightarrow> 'v series option" where
  "remap_series m s =
     (if sr_name s = ''index'' then None
      else Some (s\<lparr>sr_index := map (map_label m) (sr_index s)\<rparr>))"

fun remap_kwargs ::
  "(label \<times> nat) list \<Rightarrow> 'v series pydict \<Rightarrow> 'v series pydict option" where
  "remap_kwargs m [] = Some []"
| "remap_kwargs m ((k, s) # kw) =
     (case remap_series m s of
        None \<Rightarrow> None
      | Some s' \<Rightarrow> map_option (\<lambda>r. (k, s') # r) (remap_kwargs m kw))"

text \<open>
  \<^verbatim>\<open>
  def __init__(self, data=None, roles=None, task=None, index_ok=False, **kwargs):
      if roles is None:
          roles = {}
      for f in roles:
          for k, r in zip(valid_array_attributes, array_attr_roles):
              if roles[f].name == r:
                  kwargs[k] = data[f]
                  roles[f] = DropRole()
      if not index_ok:
          ... (the re-keying above; len(data.index) fails on None) ...
      self._initialize(task, **kwargs)
      if data is not None:
          self.set_data(data, data.columns, roles)
  \<close>
\<close>

definition DaskCudfDataset_init ::
  "(string \<times> string) list \<Rightarrow> (dtype \<Rightarrow> 'v column \<Rightarrow> 'v column option)
     \<Rightarrow> (string \<Rightarrow> 'v column \<Rightarrow> 'v column option)
     \<Rightarrow> heap \<Rightarrow> 'v frame option \<Rightarrow> addr option \<Rightarrow> string option \<Rightarrow> bool \<Rightarrow> 'v series pydict
     \<Rightarrow> heap \<times> (py_error + 'v table_dataset)" where
  "DaskCudfDataset_init pairs cast to_datetime h data roles task index_ok kwargs =
     (case extract_attrs (\<lambda>s. s) data pairs kwargs (read_roles h roles) of
        Inl (e, rs) \<Rightarrow> (write_roles h roles rs, Inl e)
      | Inr (kwargs1, rs) \<Rightarrow>
          (write_roles h roles rs,
           (case (if index_ok then Inr (data, kwargs1)
                  else (case data of
                          None \<Rightarrow> Inl AttributeError
                        | Some fr \<Rightarrow>
                            (case remap_kwargs (index_mapping (fr_index fr)) kwargs1 of
                               None \<Rightarrow> Inl KeyError
                             | Some kwargs2 \<Rightarrow>
                                 Inr (Some (remap_frame (index_mapping (fr_index fr)) fr),
                                      kwargs2)))) of
              Inl e \<Rightarrow> Inl e
            | Inr (data', kwargs') \<Rightarrow>
                (case data' of
                   None \<Rightarrow> Inr (initialize task kwargs')
                 | Some fr \<Rightarrow>
                     (case table_set_data (DaskCudfDataset_check_dtype cast to_datetime)
                             (initialize task kwargs') data' (RolesDict rs) of
                        Inl (e, s) \<Rightarrow> Inl e
                      | Inr ds \<Rightarrow> Inr ds)))))"

text \<open>
  A stand-in for the library's cast, used to run the model on examples: a column of
  strings casts to a numeric dtype when every value is a non-empty string of digits,
  and to any other dtype always.
\<close>

definition cast_strings :: "dtype \<Rightarrow> string column \<Rightarrow> string column option" where
  "cast_strings d c =
     (if is_number d \<and> \<not> list_all (\<lambda>v. v \<noteq> [] \<and> list_all (\<lambda>ch. ch \<in> set ''0123456789'') v) (col_vals c)
      then None
      else Some (c\<lparr>col_dtype := d\<rparr>))"

text \<open>
  For the statements below: a role is special when its name is one of the role names of
  the pairs; \<open>drop_special\<close> is a role dict with every special role replaced by
  \<^verbatim>\<open>DropRole()\<close>.
\<close>

definition is_special :: "(string \<times> string) list \<Rightarrow> role \<Rightarrow> bool" where
  "is_special pairs r = (role_name r \<in> set (map snd pairs))"

definition drop_special :: "(string \<times> string) list \<Rightarrow> role pydict \<Rightarrow> role pydict" where
  "drop_special pairs roles =
     map (\<lambda>(f, r). if is_special pairs r then (f, DropRole) else (f, r)) roles"

section \<open>Sequential datasets: SeqCudfDataset\<close>

text \<open>
  A sequential dataset is a table dataset with \<open>idx\<close>: row \<open>j\<close> of \<open>idx\<close> lists the
  physical rows of the table that make up logical row (group) \<open>j\<close>.  \<open>idx\<close> is an
  ndarray: an integer matrix (the default \<^verbatim>\<open>np.arange(len(data)).reshape(-1, 1)\<close>), or an
  array of dtype object, which is what \<^verbatim>\<open>np.array(idx_new, dtype=object)\<close> of
  \<^verbatim>\<open>__getitem__\<close> builds and the only ndarray that can hold groups of different sizes.
  Float matrices padded with NaN are not covered.  \<^verbatim>\<open>_initialize\<close> sets \<open>idx\<close> to
  \<^verbatim>\<open>None\<close>.
\<close>

datatype idx_array = IntIdx "int list list" | ObjIdx "int list list"

fun idx_rows :: "idx_array \<Rightarrow> int list list" where
  "idx_rows (IntIdx g) = g"
| "idx_rows (ObjIdx g) = g"

record 'v seq_dataset =
  sq_table :: "'v table_dataset"
  sq_idx :: "idx_array option"

text \<open>
  Indexing by one integer as Python and numpy do it: a negative position counts from the
  end, a position out of range raises \<^verbatim>\<open>IndexError\<close> (\<open>None\<close>).  \<open>take_rows xs ks\<close> is
  \<^verbatim>\<open>xs[ks]\<close> for a sequence of integers \<open>ks\<close> (numpy fancy indexing, \<^verbatim>\<open>iloc\<close>).
\<close>

definition py_index :: "'a list \<Rightarrow> int \<Rightarrow> 'a option" where
  "py_index xs k =
     (if 0 \<le> k \<and> k < int (length xs) then Some (xs ! nat k)
      else if - int (length xs) \<le> k \<and> k < 0 then Some (xs ! nat (k + int (length xs)))
      else None)"

fun take_rows :: "'a list \<Rightarrow> int list \<Rightarrow> 'a list option" where
  "take_rows xs [] = Some []"
| "take_rows xs (k # ks) =
     (case py_index xs k of
        None \<Rightarrow> None
      | Some x \<Rightarrow> map_option (\<lambda>r. x # r) (take_rows xs ks))"

text \<open>\<^verbatim>\<open>data.iloc[rows]\<close> (\<^verbatim>\<open>CudfDataset._get_rows\<close>) on a frame and on a series: the rows
  at the given positions, with their index labels, in the order given.\<close>

fun iloc_cols :: "'v column pydict \<Rightarrow> int list \<Rightarrow> 'v column pydict option" where
  "iloc_cols [] ks = Some []"
| "iloc_cols ((n, c) # cs) ks =
     (case take_rows (col_vals c) ks of
        None \<Rightarrow> None
      | Some vs \<Rightarrow> map_option (\<lambda>r. (n, c\<lparr>col_vals := vs\<rparr>) # r) (iloc_cols cs ks))"

definition iloc_rows :: "'v frame \<Rightarrow> int list \<Rightarrow> 'v frame option" where
  "iloc_rows fr ks =
     (case take_rows (fr_index fr) ks of
        None \<Rightarrow> None
      | Some ix \<Rightarrow> map_option (\<lambda>cs. \<lparr>fr_index = ix, fr_cols = cs\<rparr>) (iloc_cols (fr_cols fr) ks))"




text \<open>
  The row selector of \<^verbatim>\<open>__getitem__\<close> and \<^verbatim>\<open>get_first_frame\<close>: an \<^verbatim>\<open>int\<close>, a
  \<^verbatim>\<open>slice\<close>, or a sequence of integers.
  \<^verbatim>\<open>
  rows = [rows] if isinstance(rows, int) else np.arange(self.__len__()) if isinstance(rows, slice) else rows
  \<close>
  Whatever its bounds, a slice selects every logical row.
\<close>

datatype row_sel = RowInt int | RowSlice | RowList "int list"

definition logical_rows :: "idx_array \<Rightarrow> row_sel \<Rightarrow> int list" where
  "logical_rows ia sel =
     (case sel of
        RowInt r \<Rightarrow> [r]
      | RowSlice \<Rightarrow> map int [0..<length (idx_rows ia)]
      | RowList rs \<Rightarrow> rs)"





text \<open>
  \<^verbatim>\<open>SeqCudfDataset.get_first_frame(k)\<close> for \<open>k\<close> \<^verbatim>\<open>None\<close> or a row selector
  (\<^verbatim>\<open>cols = None\<close>):
  \<^verbatim>\<open>
  self._check_dtype()
  if k is None:
      k = slice(None, None, None)
  rows = [rows] if isinstance(rows, int) else np.arange(self.__len__()) if isinstance(rows, slice) else rows
  roles = self.roles
  idx = self._get_cols_idx(self.data.columns)
  data = self.data
  if type(self.idx == np.ndarray) and (np.isnan(self.idx).any()):
      data = cudf.concat([data, cudf.DataFrame([cp.nan])])
      self.idx = np.nan_to_num(self.idx, nan=[-1])
  first_frame_idx = [self.idx[i][0] for i in rows]
  data = self._get_slice(data, (first_frame_idx, idx))
  dataset = CudfDataset(data, deepcopy(roles), task=self.task)
  return dataset
  \<close>
  \<^verbatim>\<open>type(self.idx == np.ndarray)\<close> is the type of the result of a comparison: a class
  object, which is true whatever \<open>idx\<close> is, so \<^verbatim>\<open>np.isnan(self.idx)\<close> is always
  evaluated.  On an array of dtype object \<^verbatim>\<open>np.isnan\<close> raises \<^verbatim>\<open>TypeError\<close> (the ufunc
  is not defined for that dtype), and on \<^verbatim>\<open>None\<close> too; an integer matrix has no NaN.
  With \<open>idx\<close> \<^verbatim>\<open>None\<close> a slice fails before, in \<^verbatim>\<open>len(self.idx)\<close>; without data
  \<^verbatim>\<open>self.data.columns\<close> raises \<^verbatim>\<open>AttributeError\<close>.
  \<^verbatim>\<open>_get_slice\<close> is \<^verbatim>\<open>data.iloc[rows, cols]\<close> with every column.  The method changes
  \<^verbatim>\<open>self\<close> through \<^verbatim>\<open>_check_dtype\<close>: the result is the dataset as the call leaves it and
  the error raised or the dataset returned.  \<open>deepcopy(roles)\<close> is a fresh dict: the
  constructor runs on a heap of its own.
\<close>

fun first_frame_idx :: "int list list \<Rightarrow> int list \<Rightarrow> int list option" where
  "first_frame_idx g [] = Some []"
| "first_frame_idx g (i # rows) =
     (case py_index g i of
        None \<Rightarrow> None
      | Some grp \<Rightarrow>
          (case py_index grp 0 of
             None \<Rightarrow> None
           | Some r \<Rightarrow> map_option (\<lambda>rs. r # rs) (first_frame_idx g rows)))"

definition SeqCudfDataset_get_first_frame ::
  "(string \<times> string) list \<Rightarrow> (dtype \<Rightarrow> 'v column \<Rightarrow> 'v column option)
     \<Rightarrow> (string \<Rightarrow> 'v column \<Rightarrow> 'v column option)
     \<Rightarrow> 'v seq_dataset \<Rightarrow> row_sel option \<Rightarrow> 'v seq_dataset \<times> (py_error + 'v table_dataset)" where
  "SeqCudfDataset_get_first_frame pairs cast to_datetime sd k =
     (case CudfDataset_check_dtype cast to_datetime (sq_table sd) of
        Inl (e, t) \<Rightarrow> (sd\<lparr>sq_table := t\<rparr>, Inl e)
      | Inr t \<Rightarrow>
          (let sel = (case k of None \<Rightarrow> RowSlice | Some s \<Rightarrow> s)
           in (sd\<lparr>sq_table := t\<rparr>,
               (if sq_idx sd = None \<and> sel = RowSlice then Inl TypeError
                else
                  (case td_data t of
                     None \<Rightarrow> Inl AttributeError
                   | Some fr \<Rightarrow>
                       (case sq_idx sd of
                          None \<Rightarrow> Inl TypeError
                        | Some (ObjIdx g) \<Rightarrow> Inl TypeError
                        | Some (IntIdx g) \<Rightarrow>
                            (case first_frame_idx g (logical_rows (IntIdx g) sel) of
                               None \<Rightarrow> Inl IndexError
                             | Some ffi \<Rightarrow>
                                 (case iloc_rows fr ffi of
                                    None \<Rightarrow> Inl IndexError
                                  | Some data \<Rightarrow>
                                      snd (CudfDataset_init pairs cast to_datetime
                                             ((\<lambda>a. None)(0 := Some (td_roles t)))
                                             (Some data) (Some 0) (td_task t) [])))))))))"

section \<open>Theorems\<close>




text \<open>
  C8.  The identity conversions return the instance they are called on and allocate
  nothing: \<^verbatim>\<open>to_cupy\<close> on a CupyDataset, \<^verbatim>\<open>to_cudf\<close> on a CudfDataset and
  \<^verbatim>\<open>to_daskcudf\<close> on a DaskCudfDataset resolve to the bodies of these classes, and each
  body returns the address of \<^verbatim>\<open>self\<close> with the store unchanged.
\<close>

theorem identity_conversions_same_instance:
  "resolve CupyDataset ''to_cupy'' = Some CupyDataset
   \<and> CupyDataset_to_cupy s self = (s, self)
   \<and> resolve CudfDataset ''to_cudf'' = Some CudfDataset
   \<and> CudfDataset_to_cudf s self = (s, self)
   \<and> resolve DaskCudfDataset ''to_daskcudf'' = Some DaskCudfDataset
   \<and> DaskCudfDataset_to_daskcudf s self npartitions index_ok = (s, self)"
  by (simp add: resolve_def CupyDataset_to_cupy_def CudfDataset_to_cudf_def
      DaskCudfDataset_to_daskcudf_def)

section \<open>The dense backend: lemmas\<close>

lemma find_takeWhile_not:
  "find P xs = Some d \<Longrightarrow> t \<in> set (takeWhile (\<lambda>t. t \<noteq> d) xs) \<Longrightarrow> \<not> P t"
  by (induction xs) (auto split: if_splits)

lemma single_narrowest:
  "is_number d \<Longrightarrow> t \<in> set (takeWhile (\<lambda>t. t \<noteq> d) test_types) \<Longrightarrow> \<not> can_cast d t"
  by (cases d; cases t; simp add: is_number_def test_types_def can_cast_def)

lemma can_cast_refl [simp]: "can_cast d d"
  by (simp add: can_cast_def)

lemma can_cast_Object [simp]: "can_cast d Object"
  by (simp add: can_cast_def)

lemma Object_in_test_types: "Object \<in> set test_types"
  by (simp add: test_types_def)

lemma can_coerce_all_Some:
  "ds \<noteq> [] \<Longrightarrow> \<exists>d. can_coerce_all ds = Some d"
proof (cases ds rule: can_coerce_all.cases)
  case (3 a b cs)
  have "list_all (\<lambda>x. can_cast x Object) ds" by (simp add: list_all_iff)
  with Object_in_test_types have "find (\<lambda>t. list_all (\<lambda>x. can_cast x t) ds) test_types \<noteq> None"
    by (auto simp: find_None_iff)
  with 3 show ?thesis by auto
qed auto

lemma can_coerce_all_common:
  "can_coerce_all ds = Some d \<Longrightarrow> list_all (\<lambda>x. can_cast x d) ds"
  by (cases ds rule: can_coerce_all.cases) (auto simp: find_Some_iff)

lemma can_coerce_all_first:
  assumes "can_coerce_all ds = Some d" "is_number d"
  shows "list_all (\<lambda>t. \<not> list_all (\<lambda>x. can_cast x t) ds) (takeWhile (\<lambda>t. t \<noteq> d) test_types)"
proof (cases ds rule: can_coerce_all.cases)
  case 1
  with assms show ?thesis by simp
next
  case (2 x)
  with assms have "x = d" by simp
  with 2 assms(2) show ?thesis
    by (auto simp: list_all_iff dest: single_narrowest)
next
  case (3 a b cs)
  with assms(1) have "find (\<lambda>t. list_all (\<lambda>x. can_cast x t) ds) test_types = Some d" by simp
  then show ?thesis
    unfolding list_all_iff [of _ "takeWhile _ _"] using find_takeWhile_not by fast
qed

lemma can_coerce_all_narrowest:
  "can_coerce_all ds = Some d \<Longrightarrow> is_number d \<Longrightarrow> narrowest_common ds d"
  by (simp add: narrowest_common_def can_coerce_all_common can_coerce_all_first)

lemma non_numeric_source:
  "x \<in> {Object, Str, Datetime64} \<Longrightarrow> can_cast x d \<Longrightarrow> \<not> is_number d"
  by (cases d) (auto simp: can_cast_def is_number_def)

lemma can_coerce_all_non_numeric:
  assumes "x \<in> set ds" "x \<in> {Object, Str, Datetime64}" "can_coerce_all ds = Some d"
  shows "\<not> is_number d"
proof -
  from assms(3) have "list_all (\<lambda>x. can_cast x d) ds" by (rule can_coerce_all_common)
  with assms(1) have "can_cast x d" by (simp add: list_all_iff)
  with assms(2) show ?thesis by (rule non_numeric_source)
qed

lemma role_dtypes_Nil [simp]: "role_dtypes rs = [] \<longleftrightarrow> rs = []"
  by (simp add: role_dtypes_def)

lemma set_role_dtypes_keys: "map fst (set_role_dtypes dt rs) = map fst rs"
  by (cases dt) (auto simp: set_role_dtypes_def)

lemma set_role_dtypes_all:
  "list_all (\<lambda>(f, r). role_dtype r = d) (set_role_dtypes (Some d) rs)"
  by (auto simp: set_role_dtypes_def list_all_iff)

lemma check_dtype_fail:
  "\<not> issubdtype_number (find_common_type (role_dtypes (cd_roles ds)))
   \<Longrightarrow> CupyDataset_check_dtype astype ds =
       Inl (AssertionError,
            ds\<lparr>cd_dtype := find_common_type (role_dtypes (cd_roles ds)),
                cd_roles := set_role_dtypes (find_common_type (role_dtypes (cd_roles ds))) (cd_roles ds)\<rparr>)"
  by (simp add: CupyDataset_check_dtype_def Let_def)

lemma check_dtype_ok:
  assumes "CupyDataset_check_dtype astype ds = Inr ds'" "cd_roles ds \<noteq> []"
  shows "\<exists>d. find_common_type (role_dtypes (cd_roles ds)) = Some d \<and> is_number d
           \<and> cd_dtype ds' = Some d
           \<and> cd_roles ds' = set_role_dtypes (Some d) (cd_roles ds)
           \<and> cd_features ds' = cd_features ds
           \<and> (\<exists>a. cd_data ds' = Some a \<and> nd_dtype a = d)"
proof -
  from assms(2) obtain d where d: "find_common_type (role_dtypes (cd_roles ds)) = Some d"
    using can_coerce_all_Some [of "role_dtypes (cd_roles ds)"] by (auto simp: find_common_type_def)
  with assms(1) show ?thesis
    by (auto simp: CupyDataset_check_dtype_def Let_def split: if_splits option.splits)
qed

lemma common_int32_float32: "find_common_type [Int32, Float32] = Some Float64"
  by (simp add: find_common_type_def test_types_def can_cast_def)

lemma common_float32_int32: "find_common_type [Float32, Int32] = Some Float64"
  by (simp add: find_common_type_def test_types_def can_cast_def)

lemma set_data_unfold:
  "data \<noteq> DataOther \<Longrightarrow> LAMLDataset_set_data ds (data_of data) features roles = Inr ds1
   \<Longrightarrow> CupyDataset_set_data astype ds data features roles = CupyDataset_check_dtype astype ds1"
  by (cases data) (simp_all add: CupyDataset_set_data_def)

text \<open>
  C2.  When the base class has stored data, features and roles (\<open>ds1\<close>) for a dataset
  with at least one column: if \<^verbatim>\<open>set_data\<close> succeeds, the dataset's dtype is the
  common type \<open>d\<close> of the role dtypes, \<open>d\<close> is numeric and is the narrowest common type
  (every role dtype casts safely to it and no earlier candidate takes them all), every
  role's dtype is \<open>d\<close> and the backing array's dtype is \<open>d\<close>; for role dtypes
  {int32, float32} the common type is float64.  The call fails with an
  \<^verbatim>\<open>AssertionError\<close> whenever the common type is not numeric, which is the case as soon
  as one role's dtype is object, str or datetime64.
\<close>

theorem CupyDataset_set_data_unifies_dtype:
  assumes "data \<noteq> DataOther"
    and "LAMLDataset_set_data ds (data_of data) features roles = Inr ds1"
    and "cd_roles ds1 \<noteq> []"
  shows "(CupyDataset_set_data astype ds data features roles = Inr ds' \<longrightarrow>
           (\<exists>d. find_common_type (role_dtypes (cd_roles ds1)) = Some d
              \<and> cd_dtype ds' = Some d \<and> is_number d
              \<and> narrowest_common (role_dtypes (cd_roles ds1)) d
              \<and> map fst (cd_roles ds') = map fst (cd_roles ds1)
              \<and> list_all (\<lambda>(f, r). role_dtype r = d) (cd_roles ds')
              \<and> (\<exists>a. cd_data ds' = Some a \<and> nd_dtype a = d)))
       \<and> (\<not> issubdtype_number (find_common_type (role_dtypes (cd_roles ds1))) \<longrightarrow>
           (\<exists>s. CupyDataset_set_data astype ds data features roles = Inl (AssertionError, s)))
       \<and> ((\<exists>x \<in> set (role_dtypes (cd_roles ds1)). x \<in> {Object, Str, Datetime64}) \<longrightarrow>
           (\<exists>s. CupyDataset_set_data astype ds data features roles = Inl (AssertionError, s)))
       \<and> (set (role_dtypes (cd_roles ds1)) = {Int32, Float32} \<longrightarrow>
           find_common_type (role_dtypes (cd_roles ds1)) = Some Float64)"
proof -
  let ?dts = "role_dtypes (cd_roles ds1)"
  have eq: "CupyDataset_set_data astype ds data features roles = CupyDataset_check_dtype astype ds1"
    using assms(1,2) by (rule set_data_unfold)
  have p1: "CupyDataset_set_data astype ds data features roles = Inr ds' \<longrightarrow>
           (\<exists>d. find_common_type ?dts = Some d
              \<and> cd_dtype ds' = Some d \<and> is_number d
              \<and> narrowest_common ?dts d
              \<and> map fst (cd_roles ds') = map fst (cd_roles ds1)
              \<and> list_all (\<lambda>(f, r). role_dtype r = d) (cd_roles ds')
              \<and> (\<exists>a. cd_data ds' = Some a \<and> nd_dtype a = d))"
  proof
    assume "CupyDataset_set_data astype ds data features roles = Inr ds'"
    with eq have "CupyDataset_check_dtype astype ds1 = Inr ds'" by simp
    from check_dtype_ok [OF this assms(3)] obtain d where
      d: "find_common_type ?dts = Some d" "is_number d" "cd_dtype ds' = Some d"
         "cd_roles ds' = set_role_dtypes (Some d) (cd_roles ds1)"
         "\<exists>a. cd_data ds' = Some a \<and> nd_dtype a = d"
      by blast
    from d(1,2) have "narrowest_common ?dts d"
      by (simp add: find_common_type_def can_coerce_all_narrowest)
    with d show "\<exists>d. find_common_type ?dts = Some d
              \<and> cd_dtype ds' = Some d \<and> is_number d
              \<and> narrowest_common ?dts d
              \<and> map fst (cd_roles ds') = map fst (cd_roles ds1)
              \<and> list_all (\<lambda>(f, r). role_dtype r = d) (cd_roles ds')
              \<and> (\<exists>a. cd_data ds' = Some a \<and> nd_dtype a = d)"
      by (simp add: set_role_dtypes_keys set_role_dtypes_all)
  qed
  have p2: "\<not> issubdtype_number (find_common_type ?dts) \<longrightarrow>
           (\<exists>s. CupyDataset_set_data astype ds data features roles = Inl (AssertionError, s))"
    using eq by (simp add: check_dtype_fail)
  have p3: "(\<exists>x \<in> set ?dts. x \<in> {Object, Str, Datetime64}) \<longrightarrow>
           (\<exists>s. CupyDataset_set_data astype ds data features roles = Inl (AssertionError, s))"
  proof
    assume "\<exists>x \<in> set ?dts. x \<in> {Object, Str, Datetime64}"
    then obtain x where x: "x \<in> set ?dts" "x \<in> {Object, Str, Datetime64}" by blast
    from assms(3) obtain d where d: "can_coerce_all ?dts = Some d"
      using can_coerce_all_Some [of ?dts] by auto
    from can_coerce_all_non_numeric [OF x d] d
    have "\<not> issubdtype_number (find_common_type ?dts)"
      by (simp add: find_common_type_def)
    with p2 show "\<exists>s. CupyDataset_set_data astype ds data features roles = Inl (AssertionError, s)"
      by blast
  qed
  have p4: "set ?dts = {Int32, Float32} \<longrightarrow> find_common_type ?dts = Some Float64"
  proof
    assume s: "set ?dts = {Int32, Float32}"
    have dist: "distinct ?dts" by (simp add: role_dtypes_def)
    from s dist have "length ?dts = 2"
      using distinct_card [of ?dts] by simp
    then obtain a b where ab: "?dts = [a, b]"
      by (cases ?dts; cases "tl ?dts") auto
    with s have "(a = Int32 \<and> b = Float32) \<or> (a = Float32 \<and> b = Int32)"
      by (auto simp: doubleton_eq_iff)
    then show "find_common_type ?dts = Some Float64"
    proof
      assume "a = Int32 \<and> b = Float32"
      with ab show ?thesis by (simp add: common_int32_float32)
    next
      assume "a = Float32 \<and> b = Int32"
      with ab show ?thesis by (simp add: common_float32_int32)
    qed
  qed
  from p1 p2 p3 p4 show ?thesis by blast
qed

theorem CupyDataset_set_data_unifies_dtype_witness:
  "LAMLDataset_set_data
      \<lparr>cd_data = None, cd_features = [], cd_roles = [], cd_dtype = None\<rparr>
      (data_of (DataCupy \<lparr>nd_dtype = Int32, nd_ncols = 2, nd_vals = (7::nat)\<rparr>))
      (FeatList [''a'', ''b''])
      (RolesList [\<lparr>role_name = ''Numeric'', role_dtype = Int32\<rparr>,
                  \<lparr>role_name = ''Numeric'', role_dtype = Float32\<rparr>])
     = Inr \<lparr>cd_data = Some \<lparr>nd_dtype = Int32, nd_ncols = 2, nd_vals = 7\<rparr>,
            cd_features = [''a'', ''b''],
            cd_roles = [(''a'', \<lparr>role_name = ''Numeric'', role_dtype = Int32\<rparr>),
                        (''b'', \<lparr>role_name = ''Numeric'', role_dtype = Float32\<rparr>)],
            cd_dtype = None\<rparr>
   \<and> CupyDataset_set_data (\<lambda>d v. v)
      \<lparr>cd_data = None, cd_features = [], cd_roles = [], cd_dtype = None\<rparr>
      (DataCupy \<lparr>nd_dtype = Int32, nd_ncols = 2, nd_vals = (7::nat)\<rparr>)
      (FeatList [''a'', ''b''])
      (RolesList [\<lparr>role_name = ''Numeric'', role_dtype = Int32\<rparr>,
                  \<lparr>role_name = ''Numeric'', role_dtype = Float32\<rparr>])
     = Inr \<lparr>cd_data = Some \<lparr>nd_dtype = Float64, nd_ncols = 2, nd_vals = 7\<rparr>,
            cd_features = [''a'', ''b''],
            cd_roles = [(''a'', \<lparr>role_name = ''Numeric'', role_dtype = Float64\<rparr>),
                        (''b'', \<lparr>role_name = ''Numeric'', role_dtype = Float64\<rparr>)],
            cd_dtype = Some Float64\<rparr>
   \<and> narrowest_common [Int32, Float32] Float64"
proof -
  let ?ds = "\<lparr>cd_data = None, cd_features = [], cd_roles = [], cd_dtype = None\<rparr> :: nat cupy_dataset"
  let ?data = "DataCupy \<lparr>nd_dtype = Int32, nd_ncols = 2, nd_vals = (7::nat)\<rparr>"
  let ?roles = "RolesList [\<lparr>role_name = ''Numeric'', role_dtype = Int32\<rparr>,
                  \<lparr>role_name = ''Numeric'', role_dtype = Float32\<rparr>]"
  let ?ds1 = "\<lparr>cd_data = Some \<lparr>nd_dtype = Int32, nd_ncols = 2, nd_vals = (7::nat)\<rparr>,
            cd_features = [''a'', ''b''],
            cd_roles = [(''a'', \<lparr>role_name = ''Numeric'', role_dtype = Int32\<rparr>),
                        (''b'', \<lparr>role_name = ''Numeric'', role_dtype = Float32\<rparr>)],
            cd_dtype = None\<rparr>"
  let ?ds' = "\<lparr>cd_data = Some \<lparr>nd_dtype = Float64, nd_ncols = 2, nd_vals = (7::nat)\<rparr>,
            cd_features = [''a'', ''b''],
            cd_roles = [(''a'', \<lparr>role_name = ''Numeric'', role_dtype = Float64\<rparr>),
                        (''b'', \<lparr>role_name = ''Numeric'', role_dtype = Float64\<rparr>)],
            cd_dtype = Some Float64\<rparr>"
  have h1: "?data \<noteq> DataOther" by simp
  have h2: "LAMLDataset_set_data ?ds (data_of ?data) (FeatList [''a'', ''b'']) ?roles = Inr ?ds1"
    by (simp add: LAMLDataset_set_data_def set_features_def roles_for_def dict_of_def)
  have h3: "cd_roles ?ds1 \<noteq> []" by simp
  have run: "CupyDataset_set_data (\<lambda>d v. v) ?ds ?data (FeatList [''a'', ''b'']) ?roles = Inr ?ds'"
    by (simp add: CupyDataset_set_data_def h2 [simplified] CupyDataset_check_dtype_def Let_def
        role_dtypes_def find_common_type_def test_types_def can_cast_def set_role_dtypes_def
        is_number_def)
  have rd: "role_dtypes (cd_roles ?ds1) = [Int32, Float32]"
    by (simp add: role_dtypes_def)
  from CupyDataset_set_data_unifies_dtype [OF h1 h2 h3, of "\<lambda>d v. v" ?ds'] run rd
  have "narrowest_common [Int32, Float32] Float64"
    by (simp add: find_common_type_def test_types_def can_cast_def)
  with h2 run show ?thesis by simp
qed

text \<open>
  A role whose dtype is bool (not a number for \<^verbatim>\<open>issubdtype\<close>) next to an int32 role:
  the common type is int32, the assertion passes, and the bool role is coerced.
\<close>

theorem CupyDataset_set_data_bool_role_counterexample:
  "\<not> is_number Bool
   \<and> CupyDataset_set_data (\<lambda>d v. v)
      \<lparr>cd_data = None, cd_features = [], cd_roles = [], cd_dtype = None\<rparr>
      (DataCupy \<lparr>nd_dtype = Int32, nd_ncols = 2, nd_vals = (7::nat)\<rparr>)
      (FeatList [''a'', ''b''])
      (RolesList [\<lparr>role_name = ''Numeric'', role_dtype = Int32\<rparr>,
                  \<lparr>role_name = ''Category'', role_dtype = Bool\<rparr>])
     = Inr \<lparr>cd_data = Some \<lparr>nd_dtype = Int32, nd_ncols = 2, nd_vals = 7\<rparr>,
            cd_features = [''a'', ''b''],
            cd_roles = [(''a'', \<lparr>role_name = ''Numeric'', role_dtype = Int32\<rparr>),
                        (''b'', \<lparr>role_name = ''Category'', role_dtype = Int32\<rparr>)],
            cd_dtype = Some Int32\<rparr>"
  by (simp add: CupyDataset_set_data_def LAMLDataset_set_data_def set_features_def
      roles_for_def dict_of_def CupyDataset_check_dtype_def Let_def
      role_dtypes_def find_common_type_def test_types_def can_cast_def set_role_dtypes_def
      is_number_def)

lemma LAMLDataset_set_data_stores:
  "LAMLDataset_set_data ds data features roles = Inr ds1
   \<Longrightarrow> cd_data ds1 = data \<and> cd_dtype ds1 = cd_dtype ds
       \<and> roles_for (cd_features ds1) roles = Inr (cd_roles ds1)"
  by (auto simp: LAMLDataset_set_data_def set_features_def Let_def
      split: sum.splits features_arg.splits option.splits)

text \<open>
  C7 (as the code has it).  A \<open>data\<close> argument that is not a \<^verbatim>\<open>cp.ndarray\<close> fails the
  first assertion and leaves the dataset as it was.  A failure of the dtype check comes
  after the stores: when the base class stored the arguments (\<open>ds1\<close>) and the common
  type of the role dtypes is not numeric, the call raises \<^verbatim>\<open>AssertionError\<close> and the
  dataset the caller holds has the new data, the new features, the new roles with every
  dtype overwritten by the common type, and that common type as its dtype.
\<close>

theorem CupyDataset_set_data_failure_state:
  "CupyDataset_set_data astype ds DataOther features roles = Inl (AssertionError, ds)
   \<and> (data \<noteq> DataOther
        \<and> LAMLDataset_set_data ds (data_of data) features roles = Inr ds1
        \<and> \<not> issubdtype_number (find_common_type (role_dtypes (cd_roles ds1)))
      \<longrightarrow> CupyDataset_set_data astype ds data features roles =
            Inl (AssertionError,
                 ds1\<lparr>cd_dtype := find_common_type (role_dtypes (cd_roles ds1)),
                      cd_roles := set_role_dtypes (find_common_type (role_dtypes (cd_roles ds1)))
                                    (cd_roles ds1)\<rparr>)
          \<and> cd_data ds1 = data_of data
          \<and> roles_for (cd_features ds1) roles = Inr (cd_roles ds1))"
proof -
  have a: "CupyDataset_set_data astype ds DataOther features roles = Inl (AssertionError, ds)"
    by (simp add: CupyDataset_set_data_def)
  have b: "data \<noteq> DataOther
        \<and> LAMLDataset_set_data ds (data_of data) features roles = Inr ds1
        \<and> \<not> issubdtype_number (find_common_type (role_dtypes (cd_roles ds1)))
      \<longrightarrow> CupyDataset_set_data astype ds data features roles =
            Inl (AssertionError,
                 ds1\<lparr>cd_dtype := find_common_type (role_dtypes (cd_roles ds1)),
                      cd_roles := set_role_dtypes (find_common_type (role_dtypes (cd_roles ds1)))
                                    (cd_roles ds1)\<rparr>)
          \<and> cd_data ds1 = data_of data
          \<and> roles_for (cd_features ds1) roles = Inr (cd_roles ds1)"
    by (auto simp: set_data_unfold check_dtype_fail dest: LAMLDataset_set_data_stores)
  from a b show ?thesis by (rule conjI)
qed

theorem CupyDataset_set_data_failure_state_witness:
  "CupyDataset_set_data (\<lambda>d v. v)
      \<lparr>cd_data = Some \<lparr>nd_dtype = Float32, nd_ncols = 1, nd_vals = (0::nat)\<rparr>,
       cd_features = [''a''],
       cd_roles = [(''a'', \<lparr>role_name = ''Numeric'', role_dtype = Float32\<rparr>)],
       cd_dtype = Some Float32\<rparr>
      (DataCupy \<lparr>nd_dtype = Float32, nd_ncols = 1, nd_vals = 1\<rparr>)
      (FeatList [''b''])
      (RolesDict [(''b'', \<lparr>role_name = ''Category'', role_dtype = Object\<rparr>)])
     = Inl (AssertionError,
        \<lparr>cd_data = Some \<lparr>nd_dtype = Float32, nd_ncols = 1, nd_vals = 1\<rparr>,
         cd_features = [''b''],
         cd_roles = [(''b'', \<lparr>role_name = ''Category'', role_dtype = Object\<rparr>)],
         cd_dtype = Some Object\<rparr>)"
proof -
  let ?ds = "\<lparr>cd_data = Some \<lparr>nd_dtype = Float32, nd_ncols = 1, nd_vals = (0::nat)\<rparr>,
       cd_features = [''a''],
       cd_roles = [(''a'', \<lparr>role_name = ''Numeric'', role_dtype = Float32\<rparr>)],
       cd_dtype = Some Float32\<rparr>"
  let ?data = "DataCupy \<lparr>nd_dtype = Float32, nd_ncols = 1, nd_vals = (1::nat)\<rparr>"
  let ?roles = "RolesDict [(''b'', \<lparr>role_name = ''Category'', role_dtype = Object\<rparr>)]"
  let ?ds1 = "\<lparr>cd_data = Some \<lparr>nd_dtype = Float32, nd_ncols = 1, nd_vals = (1::nat)\<rparr>,
         cd_features = [''b''],
         cd_roles = [(''b'', \<lparr>role_name = ''Category'', role_dtype = Object\<rparr>)],
         cd_dtype = Some Float32\<rparr>"
  have h1: "?data \<noteq> DataOther" by simp
  have h2: "LAMLDataset_set_data ?ds (data_of ?data) (FeatList [''b'']) ?roles = Inr ?ds1"
    by (simp add: LAMLDataset_set_data_def set_features_def roles_for_def dict_of_def)
  have h3: "\<not> issubdtype_number (find_common_type (role_dtypes (cd_roles ?ds1)))"
    by (simp add: role_dtypes_def find_common_type_def is_number_def)
  from CupyDataset_set_data_failure_state [of "\<lambda>d v. v" ?ds "FeatList [''b'']" ?roles ?data ?ds1]
    h1 h2 h3
  show ?thesis
    by (simp add: role_dtypes_def find_common_type_def set_role_dtypes_def)
qed

text \<open>
  The claim as stated fails: after the failed call the dataset's data, features, roles
  and dtype are those of the failed call, not the ones it had before.
\<close>

theorem CupyDataset_set_data_not_atomic_counterexample:
  "CupyDataset_set_data (\<lambda>d v. v)
      \<lparr>cd_data = Some \<lparr>nd_dtype = Float32, nd_ncols = 1, nd_vals = (0::nat)\<rparr>,
       cd_features = [''a''],
       cd_roles = [(''a'', \<lparr>role_name = ''Numeric'', role_dtype = Float32\<rparr>)],
       cd_dtype = Some Float32\<rparr>
      (DataCupy \<lparr>nd_dtype = Float32, nd_ncols = 1, nd_vals = 1\<rparr>)
      (FeatList [''b''])
      (RolesDict [(''b'', \<lparr>role_name = ''Category'', role_dtype = Object\<rparr>)])
     = Inl (AssertionError,
        \<lparr>cd_data = Some \<lparr>nd_dtype = Float32, nd_ncols = 1, nd_vals = 1\<rparr>,
         cd_features = [''b''],
         cd_roles = [(''b'', \<lparr>role_name = ''Category'', role_dtype = Object\<rparr>)],
         cd_dtype = Some Object\<rparr>)
   \<and> \<lparr>cd_data = Some \<lparr>nd_dtype = Float32, nd_ncols = 1, nd_vals = 1\<rparr>,
         cd_features = [''b''],
         cd_roles = [(''b'', \<lparr>role_name = ''Category'', role_dtype = Object\<rparr>)],
         cd_dtype = Some Object\<rparr>
     \<noteq> \<lparr>cd_data = Some \<lparr>nd_dtype = Float32, nd_ncols = 1, nd_vals = (0::nat)\<rparr>,
       cd_features = [''a''],
       cd_roles = [(''a'', \<lparr>role_name = ''Numeric'', role_dtype = Float32\<rparr>)],
       cd_dtype = Some Float32\<rparr>"
  by (simp add: CupyDataset_set_data_def LAMLDataset_set_data_def set_features_def
      roles_for_def dict_of_def CupyDataset_check_dtype_def Let_def
      role_dtypes_def find_common_type_def set_role_dtypes_def is_number_def)


section \<open>Dtype coercion of a table: lemmas\<close>

lemma astype_cols_fail:
  "(n, c) \<in> set cols \<Longrightarrow> map_of dtypes n = Some d \<Longrightarrow> cast d c = None
   \<Longrightarrow> astype_cols cast dtypes cols = None"
  by (induction cols) (auto split: option.splits)

lemma astype_cols_ok:
  "list_all (\<lambda>(n, c). case map_of dtypes n of None \<Rightarrow> True | Some d \<Rightarrow> cast d c \<noteq> None) cols
   \<Longrightarrow> astype_cols cast dtypes cols =
       Some (map (\<lambda>(n, c). case map_of dtypes n of None \<Rightarrow> (n, c)
                            | Some d \<Rightarrow> (n, the (cast d c))) cols)"
  by (induction cols) (auto split: option.splits)

lemma cast_step_total: "\<exists>fr'. cast_step cast dtypes (Some fr) = Some fr'"
  by (simp add: cast_step_def split: option.splits)

lemma cast_step_fail:
  "(n, c) \<in> set (fr_cols fr) \<Longrightarrow> map_of dtypes n = Some d \<Longrightarrow> cast d c = None
   \<Longrightarrow> cast_step cast dtypes (Some fr) = Some fr"
  by (simp add: cast_step_def astype_frame_def astype_cols_fail)

lemma cast_step_ok:
  "list_all (\<lambda>k. k \<in> set (map fst (fr_cols fr))) (map fst dtypes)
   \<Longrightarrow> list_all (\<lambda>(n, c). case map_of dtypes n of None \<Rightarrow> True | Some d \<Rightarrow> cast d c \<noteq> None)
         (fr_cols fr)
   \<Longrightarrow> cast_step cast dtypes (Some fr) =
       Some (fr\<lparr>fr_cols := map (\<lambda>(n, c). case map_of dtypes n of None \<Rightarrow> (n, c)
                            | Some d \<Rightarrow> (n, the (cast d c))) (fr_cols fr)\<rparr>)"
  by (simp add: cast_step_def astype_frame_def astype_cols_ok)


lemma convert_datetime_other_columns:
  "convert_datetime to_datetime (Some fr1) dates = Inr data2
   \<Longrightarrow> \<exists>fr2. data2 = Some fr2
         \<and> (\<forall>n. n \<notin> set dates \<longrightarrow> map_of (fr_cols fr2) n = map_of (fr_cols fr1) n)"
proof (induction dates arbitrary: fr1)
  case Nil
  then show ?case by auto
next
  case (Cons i dates)
  from Cons.prems obtain c c' where
    c: "map_of (fr_cols fr1) i = Some c" "to_datetime i c = Some c'" and
    rec: "convert_datetime to_datetime
            (Some (fr1\<lparr>fr_cols := AList.update i c' (fr_cols fr1)\<rparr>)) dates = Inr data2"
    by (auto split: option.splits)
  from Cons.IH [OF rec] obtain fr2 where
    fr2: "data2 = Some fr2"
      "\<forall>n. n \<notin> set dates \<longrightarrow>
         map_of (fr_cols fr2) n = map_of (AList.update i c' (fr_cols fr1)) n"
    by auto
  have "\<forall>n. n \<notin> set (i # dates) \<longrightarrow> map_of (fr_cols fr2) n = map_of (fr_cols fr1) n"
    using fr2(2) by (simp add: update_conv')
  with fr2(1) show ?case by blast
qed

lemma check_dtype_success_data:
  "CudfDataset_check_dtype cast to_datetime ds = Inr ds'
     \<or> DaskCudfDataset_check_dtype cast to_datetime ds = Inr ds'
   \<Longrightarrow> convert_datetime to_datetime
         (cast_step cast (cast_dtypes (td_roles ds)) (td_data ds)) (date_columns (td_roles ds))
       = Inr (td_data ds')"
  by (auto simp: CudfDataset_check_dtype_def DaskCudfDataset_check_dtype_def Let_def
      split: sum.splits option.splits prod.splits)

lemma map_of_cast_cols:
  "map_of (map (\<lambda>(n, c). case map_of dtypes n of None \<Rightarrow> (n, c)
                            | Some d \<Rightarrow> (n, the (cast d c))) cols) n'
   = map_option (\<lambda>c. case map_of dtypes n' of None \<Rightarrow> c | Some d \<Rightarrow> the (cast d c))
       (map_of cols n')"
  by (induction cols) (auto split: option.splits)

lemma cast_dtypes_lookup:
  "map_of roles n = Some r \<Longrightarrow> role_name r \<noteq> ''Datetime''
   \<Longrightarrow> map_of (cast_dtypes roles) n = Some (role_dtype r)"
  unfolding cast_dtypes_def by (induction roles) (auto split: if_splits)

lemma date_columns_lookup:
  "map_of roles n = Some r \<Longrightarrow> role_name r \<noteq> ''Datetime'' \<Longrightarrow> distinct (map fst roles)
   \<Longrightarrow> n \<notin> set (date_columns roles)"
proof
  assume a: "map_of roles n = Some r" "role_name r \<noteq> ''Datetime''" "distinct (map fst roles)"
    and "n \<in> set (date_columns roles)"
  then obtain r' where "(n, r') \<in> set roles" "role_name r' = ''Datetime''"
    by (auto simp: date_columns_def)
  with a(3) have "map_of roles n = Some r'" by simp
  with a(1,2) \<open>role_name r' = ''Datetime''\<close> show False by simp
qed

lemma all_casts_present:
  "list_all (\<lambda>(n, c). case map_of dtypes n of None \<Rightarrow> True | Some d \<Rightarrow> cast d c \<noteq> None) cols
   \<Longrightarrow> map_of cols n = Some c \<Longrightarrow> map_of dtypes n = Some d \<Longrightarrow> \<exists>c'. cast d c = Some c'"
  by (induction cols) (auto split: if_splits)

lemma check_dtype_no_dates:
  "date_columns (td_roles ds) = [] \<longrightarrow>
     CudfDataset_check_dtype cast to_datetime ds =
         Inr (ds\<lparr>td_data := cast_step cast (cast_dtypes (td_roles ds)) (td_data ds),
                 td_dtypes := cast_dtypes (td_roles ds)\<rparr>)
     \<and> (td_data ds \<noteq> None \<longrightarrow>
          DaskCudfDataset_check_dtype cast to_datetime ds =
            Inr (ds\<lparr>td_data := cast_step cast (cast_dtypes (td_roles ds)) (td_data ds),
                    td_dtypes := cast_dtypes (td_roles ds)\<rparr>))"
  by (auto simp: CudfDataset_check_dtype_def DaskCudfDataset_check_dtype_def Let_def
      cast_step_def split: option.splits)

lemma dask_check_dtype_no_data:
  "td_data ds = None \<longrightarrow>
     DaskCudfDataset_check_dtype cast to_datetime ds =
       Inl (AttributeError, ds\<lparr>td_dtypes := cast_dtypes (td_roles ds), td_data := None\<rparr>)"
  by (simp add: DaskCudfDataset_check_dtype_def Let_def cast_step_def)

lemma check_dtype_error_sources:
  "(CudfDataset_check_dtype cast to_datetime ds = Inl es
      \<longrightarrow> date_columns (td_roles ds) \<noteq> [])
   \<and> (DaskCudfDataset_check_dtype cast to_datetime ds = Inl es
      \<longrightarrow> date_columns (td_roles ds) \<noteq> [] \<or> td_data ds = None)"
  by (auto simp: CudfDataset_check_dtype_def DaskCudfDataset_check_dtype_def Let_def
      cast_step_def split: option.splits)

lemma check_dtype_failure_keeps_columns:
  "td_data ds = Some fr \<and> (n, c) \<in> set (fr_cols fr)
     \<and> map_of (cast_dtypes (td_roles ds)) n = Some d \<and> cast d c = None
     \<and> (CudfDataset_check_dtype cast to_datetime ds = Inr ds'
          \<or> DaskCudfDataset_check_dtype cast to_datetime ds = Inr ds')
   \<longrightarrow> (\<exists>fr'. td_data ds' = Some fr'
          \<and> (\<forall>n'. n' \<notin> set (date_columns (td_roles ds))
                 \<longrightarrow> map_of (fr_cols fr') n' = map_of (fr_cols fr) n'))"
proof
  assume a: "td_data ds = Some fr \<and> (n, c) \<in> set (fr_cols fr)
     \<and> map_of (cast_dtypes (td_roles ds)) n = Some d \<and> cast d c = None
     \<and> (CudfDataset_check_dtype cast to_datetime ds = Inr ds'
          \<or> DaskCudfDataset_check_dtype cast to_datetime ds = Inr ds')"
  then have cs: "cast_step cast (cast_dtypes (td_roles ds)) (Some fr) = Some fr"
    using cast_step_fail [where n = n and c = c and fr = fr
        and dtypes = "cast_dtypes (td_roles ds)" and d = d and cast = cast] by blast
  from a have "convert_datetime to_datetime
         (cast_step cast (cast_dtypes (td_roles ds)) (td_data ds)) (date_columns (td_roles ds))
       = Inr (td_data ds')"
    by (intro check_dtype_success_data) simp
  with a cs have "convert_datetime to_datetime (Some fr) (date_columns (td_roles ds))
       = Inr (td_data ds')"
    by simp
  from convert_datetime_other_columns [OF this]
  show "\<exists>fr'. td_data ds' = Some fr'
          \<and> (\<forall>n'. n' \<notin> set (date_columns (td_roles ds))
                 \<longrightarrow> map_of (fr_cols fr') n' = map_of (fr_cols fr) n')"
    by simp
qed

lemma check_dtype_success_dtypes:
  "td_data ds = Some fr
     \<and> list_all (\<lambda>k. k \<in> set (map fst (fr_cols fr))) (map fst (cast_dtypes (td_roles ds)))
     \<and> list_all (\<lambda>(n, c). case map_of (cast_dtypes (td_roles ds)) n of None \<Rightarrow> True
                           | Some d \<Rightarrow> cast d c \<noteq> None) (fr_cols fr)
     \<and> (\<forall>d c c'. cast d c = Some c' \<longrightarrow> col_dtype c' = d)
     \<and> distinct (map fst (td_roles ds))
     \<and> (CudfDataset_check_dtype cast to_datetime ds = Inr ds'
          \<or> DaskCudfDataset_check_dtype cast to_datetime ds = Inr ds')
   \<longrightarrow> (\<exists>fr'. td_data ds' = Some fr'
          \<and> (\<forall>n' r c'. map_of (td_roles ds) n' = Some r \<and> role_name r \<noteq> ''Datetime''
                        \<and> map_of (fr_cols fr') n' = Some c'
                 \<longrightarrow> col_dtype c' = role_dtype r))"
proof
  let ?dts = "cast_dtypes (td_roles ds)"
  let ?F = "\<lambda>(n, c). case map_of ?dts n of None \<Rightarrow> (n, c) | Some d \<Rightarrow> (n, the (cast d c))"
  assume a: "td_data ds = Some fr
     \<and> list_all (\<lambda>k. k \<in> set (map fst (fr_cols fr))) (map fst ?dts)
     \<and> list_all (\<lambda>(n, c). case map_of ?dts n of None \<Rightarrow> True
                           | Some d \<Rightarrow> cast d c \<noteq> None) (fr_cols fr)
     \<and> (\<forall>d c c'. cast d c = Some c' \<longrightarrow> col_dtype c' = d)
     \<and> distinct (map fst (td_roles ds))
     \<and> (CudfDataset_check_dtype cast to_datetime ds = Inr ds'
          \<or> DaskCudfDataset_check_dtype cast to_datetime ds = Inr ds')"
  then have cs: "cast_step cast ?dts (Some fr) = Some (fr\<lparr>fr_cols := map ?F (fr_cols fr)\<rparr>)"
    using cast_step_ok [where fr = fr and dtypes = ?dts and cast = cast] by blast
  from a have "convert_datetime to_datetime (cast_step cast ?dts (td_data ds))
                 (date_columns (td_roles ds)) = Inr (td_data ds')"
    by (intro check_dtype_success_data) simp
  with a cs have "convert_datetime to_datetime (Some (fr\<lparr>fr_cols := map ?F (fr_cols fr)\<rparr>))
                 (date_columns (td_roles ds)) = Inr (td_data ds')"
    by simp
  from convert_datetime_other_columns [OF this] obtain fr' where
    fr': "td_data ds' = Some fr'"
      "\<forall>n'. n' \<notin> set (date_columns (td_roles ds))
           \<longrightarrow> map_of (fr_cols fr') n' = map_of (map ?F (fr_cols fr)) n'"
    by auto
  have "\<forall>n' r c'. map_of (td_roles ds) n' = Some r \<and> role_name r \<noteq> ''Datetime''
                        \<and> map_of (fr_cols fr') n' = Some c'
                 \<longrightarrow> col_dtype c' = role_dtype r"
  proof (intro allI impI)
    fix n' r c'
    assume b: "map_of (td_roles ds) n' = Some r \<and> role_name r \<noteq> ''Datetime''
                        \<and> map_of (fr_cols fr') n' = Some c'"
    with a have nd: "n' \<notin> set (date_columns (td_roles ds))"
      using date_columns_lookup [of "td_roles ds" n' r] by blast
    from b have dl: "map_of ?dts n' = Some (role_dtype r)"
      by (simp add: cast_dtypes_lookup)
    from fr'(2) nd b have "map_of (map ?F (fr_cols fr)) n' = Some c'" by simp
    then obtain c where c: "map_of (fr_cols fr) n' = Some c" "c' = the (cast (role_dtype r) c)"
      using dl by (auto simp: map_of_cast_cols)
    from a c(1) dl obtain c2 where "cast (role_dtype r) c = Some c2"
      using all_casts_present [where dtypes = ?dts and cast = cast and cols = "fr_cols fr"
          and n = n' and c = c and d = "role_dtype r"] by blast
    with a c(2) show "col_dtype c' = role_dtype r" by simp
  qed
  with fr'(1) show "\<exists>fr'. td_data ds' = Some fr'
          \<and> (\<forall>n' r c'. map_of (td_roles ds) n' = Some r \<and> role_name r \<noteq> ''Datetime''
                        \<and> map_of (fr_cols fr') n' = Some c'
                 \<longrightarrow> col_dtype c' = role_dtype r)"
    by blast
qed

text \<open>
  C5 (as the code has it).  In \<^verbatim>\<open>_check_dtype\<close> of both table backends the
  non-datetime columns are cast by one \<^verbatim>\<open>astype\<close> call inside one \<^verbatim>\<open>try\<close>.
  \<^item> The cast step never raises.
  \<^item> When the cast of one listed column fails, the failure is swallowed and the whole
    frame is kept as it was: no column is cast.
  \<^item> When every listed column casts, each is replaced by its cast and the columns
    without an entry (the datetime columns) are kept.
  \<^item> Without datetime roles \<^verbatim>\<open>CudfDataset._check_dtype\<close> is exactly this step, and so is
    \<^verbatim>\<open>DaskCudfDataset._check_dtype\<close> on a dataset that has data; on \<^verbatim>\<open>None\<close> data the
    latter raises \<^verbatim>\<open>AttributeError\<close> at \<^verbatim>\<open>map_partitions\<close>.
  \<^item> An error of \<^verbatim>\<open>_check_dtype\<close> comes from outside the \<^verbatim>\<open>try\<close> only: from the datetime
    conversion, or for the distributed backend from \<^verbatim>\<open>None\<close> data.
  \<^item> With any role table, datetime roles included: when \<^verbatim>\<open>_check_dtype\<close> returns and
    the cast of one listed column fails, every non-datetime column of the result is the
    column the dataset had; when it returns and every listed column casts (the cast
    giving a column of the dtype asked for), every non-datetime column of the result
    has the dtype of its role.
\<close>

theorem table_check_dtype_cast_all_or_nothing:
  "(\<exists>fr'. cast_step cast dtypes (Some fr) = Some fr')
   \<and> ((n, c) \<in> set (fr_cols fr) \<and> map_of dtypes n = Some d \<and> cast d c = None
        \<longrightarrow> cast_step cast dtypes (Some fr) = Some fr)
   \<and> (list_all (\<lambda>k. k \<in> set (map fst (fr_cols fr))) (map fst dtypes)
        \<and> list_all (\<lambda>(n, c). case map_of dtypes n of None \<Rightarrow> True | Some d \<Rightarrow> cast d c \<noteq> None)
             (fr_cols fr)
        \<longrightarrow> cast_step cast dtypes (Some fr) =
             Some (fr\<lparr>fr_cols := map (\<lambda>(n, c). case map_of dtypes n of None \<Rightarrow> (n, c)
                                  | Some d \<Rightarrow> (n, the (cast d c))) (fr_cols fr)\<rparr>))
   \<and> (date_columns (td_roles ds) = [] \<longrightarrow>
        CudfDataset_check_dtype cast to_datetime ds =
          Inr (ds\<lparr>td_data := cast_step cast (cast_dtypes (td_roles ds)) (td_data ds),
                  td_dtypes := cast_dtypes (td_roles ds)\<rparr>)
        \<and> (td_data ds \<noteq> None \<longrightarrow>
             DaskCudfDataset_check_dtype cast to_datetime ds =
               Inr (ds\<lparr>td_data := cast_step cast (cast_dtypes (td_roles ds)) (td_data ds),
                       td_dtypes := cast_dtypes (td_roles ds)\<rparr>)))
   \<and> (td_data ds = None \<longrightarrow>
        DaskCudfDataset_check_dtype cast to_datetime ds =
          Inl (AttributeError, ds\<lparr>td_dtypes := cast_dtypes (td_roles ds), td_data := None\<rparr>))
   \<and> (CudfDataset_check_dtype cast to_datetime ds = Inl es
        \<longrightarrow> date_columns (td_roles ds) \<noteq> [])
   \<and> (DaskCudfDataset_check_dtype cast to_datetime ds = Inl es
        \<longrightarrow> date_columns (td_roles ds) \<noteq> [] \<or> td_data ds = None)
   \<and> (td_data ds = Some dfr \<and> (m, mc) \<in> set (fr_cols dfr)
        \<and> map_of (cast_dtypes (td_roles ds)) m = Some md \<and> cast md mc = None
        \<and> (CudfDataset_check_dtype cast to_datetime ds = Inr ds'
             \<or> DaskCudfDataset_check_dtype cast to_datetime ds = Inr ds')
        \<longrightarrow> (\<exists>fr'. td_data ds' = Some fr'
               \<and> (\<forall>n'. n' \<notin> set (date_columns (td_roles ds))
                      \<longrightarrow> map_of (fr_cols fr') n' = map_of (fr_cols dfr) n')))
   \<and> (td_data ds = Some dfr
        \<and> list_all (\<lambda>k. k \<in> set (map fst (fr_cols dfr))) (map fst (cast_dtypes (td_roles ds)))
        \<and> list_all (\<lambda>(n, c). case map_of (cast_dtypes (td_roles ds)) n of None \<Rightarrow> True
                              | Some d \<Rightarrow> cast d c \<noteq> None) (fr_cols dfr)
        \<and> (\<forall>d c c'. cast d c = Some c' \<longrightarrow> col_dtype c' = d)
        \<and> distinct (map fst (td_roles ds))
        \<and> (CudfDataset_check_dtype cast to_datetime ds = Inr ds'
             \<or> DaskCudfDataset_check_dtype cast to_datetime ds = Inr ds')
        \<longrightarrow> (\<exists>fr'. td_data ds' = Some fr'
               \<and> (\<forall>n' r c'. map_of (td_roles ds) n' = Some r \<and> role_name r \<noteq> ''Datetime''
                             \<and> map_of (fr_cols fr') n' = Some c'
                      \<longrightarrow> col_dtype c' = role_dtype r)))"
proof (intro conjI)
  show "\<exists>fr'. cast_step cast dtypes (Some fr) = Some fr'"
    by (rule cast_step_total)
  show "(n, c) \<in> set (fr_cols fr) \<and> map_of dtypes n = Some d \<and> cast d c = None
        \<longrightarrow> cast_step cast dtypes (Some fr) = Some fr"
    using cast_step_fail [where n = n and c = c and fr = fr and dtypes = dtypes and d = d
        and cast = cast] by blast
  show "list_all (\<lambda>k. k \<in> set (map fst (fr_cols fr))) (map fst dtypes)
        \<and> list_all (\<lambda>(n, c). case map_of dtypes n of None \<Rightarrow> True | Some d \<Rightarrow> cast d c \<noteq> None)
             (fr_cols fr)
        \<longrightarrow> cast_step cast dtypes (Some fr) =
             Some (fr\<lparr>fr_cols := map (\<lambda>(n, c). case map_of dtypes n of None \<Rightarrow> (n, c)
                                  | Some d \<Rightarrow> (n, the (cast d c))) (fr_cols fr)\<rparr>)"
    using cast_step_ok [where fr = fr and dtypes = dtypes and cast = cast] by blast
  show "date_columns (td_roles ds) = [] \<longrightarrow>
        CudfDataset_check_dtype cast to_datetime ds =
          Inr (ds\<lparr>td_data := cast_step cast (cast_dtypes (td_roles ds)) (td_data ds),
                  td_dtypes := cast_dtypes (td_roles ds)\<rparr>)
        \<and> (td_data ds \<noteq> None \<longrightarrow>
             DaskCudfDataset_check_dtype cast to_datetime ds =
               Inr (ds\<lparr>td_data := cast_step cast (cast_dtypes (td_roles ds)) (td_data ds),
                       td_dtypes := cast_dtypes (td_roles ds)\<rparr>))"
    by (rule check_dtype_no_dates)
  show "td_data ds = None \<longrightarrow>
        DaskCudfDataset_check_dtype cast to_datetime ds =
          Inl (AttributeError, ds\<lparr>td_dtypes := cast_dtypes (td_roles ds), td_data := None\<rparr>)"
    by (rule dask_check_dtype_no_data)
  show "CudfDataset_check_dtype cast to_datetime ds = Inl es
        \<longrightarrow> date_columns (td_roles ds) \<noteq> []"
    by (rule check_dtype_error_sources [THEN conjunct1])
  show "DaskCudfDataset_check_dtype cast to_datetime ds = Inl es
        \<longrightarrow> date_columns (td_roles ds) \<noteq> [] \<or> td_data ds = None"
    by (rule check_dtype_error_sources [THEN conjunct2])
  show "td_data ds = Some dfr \<and> (m, mc) \<in> set (fr_cols dfr)
        \<and> map_of (cast_dtypes (td_roles ds)) m = Some md \<and> cast md mc = None
        \<and> (CudfDataset_check_dtype cast to_datetime ds = Inr ds'
             \<or> DaskCudfDataset_check_dtype cast to_datetime ds = Inr ds')
        \<longrightarrow> (\<exists>fr'. td_data ds' = Some fr'
               \<and> (\<forall>n'. n' \<notin> set (date_columns (td_roles ds))
                      \<longrightarrow> map_of (fr_cols fr') n' = map_of (fr_cols dfr) n'))"
    by (rule check_dtype_failure_keeps_columns)
  show "td_data ds = Some dfr
        \<and> list_all (\<lambda>k. k \<in> set (map fst (fr_cols dfr))) (map fst (cast_dtypes (td_roles ds)))
        \<and> list_all (\<lambda>(n, c). case map_of (cast_dtypes (td_roles ds)) n of None \<Rightarrow> True
                              | Some d \<Rightarrow> cast d c \<noteq> None) (fr_cols dfr)
        \<and> (\<forall>d c c'. cast d c = Some c' \<longrightarrow> col_dtype c' = d)
        \<and> distinct (map fst (td_roles ds))
        \<and> (CudfDataset_check_dtype cast to_datetime ds = Inr ds'
             \<or> DaskCudfDataset_check_dtype cast to_datetime ds = Inr ds')
        \<longrightarrow> (\<exists>fr'. td_data ds' = Some fr'
               \<and> (\<forall>n' r c'. map_of (td_roles ds) n' = Some r \<and> role_name r \<noteq> ''Datetime''
                             \<and> map_of (fr_cols fr') n' = Some c'
                      \<longrightarrow> col_dtype c' = role_dtype r))"
    by (rule check_dtype_success_dtypes)
qed

theorem table_check_dtype_cast_all_or_nothing_witness:
  "CudfDataset_check_dtype cast_strings (\<lambda>n c. Some (c\<lparr>col_dtype := Datetime64\<rparr>))
      \<lparr>td_task = None, td_attrs = [],
       td_data = Some \<lparr>fr_index = [Lab 0, Lab 1],
          fr_cols = [(''x'', \<lparr>col_dtype = Object, col_vals = [''1'', ''2'']\<rparr>),
                     (''y'', \<lparr>col_dtype = Object, col_vals = [''7'', ''abc'']\<rparr>),
                     (''t'', \<lparr>col_dtype = Object, col_vals = [''2020'', ''2021'']\<rparr>)]\<rparr>,
       td_roles = [(''x'', \<lparr>role_name = ''Numeric'', role_dtype = Float32\<rparr>),
                   (''y'', \<lparr>role_name = ''Numeric'', role_dtype = Float32\<rparr>),
                   (''t'', \<lparr>role_name = ''Datetime'', role_dtype = Datetime64\<rparr>)],
       td_dtypes = []\<rparr>
     = Inr \<lparr>td_task = None, td_attrs = [],
       td_data = Some \<lparr>fr_index = [Lab 0, Lab 1],
          fr_cols = [(''x'', \<lparr>col_dtype = Object, col_vals = [''1'', ''2'']\<rparr>),
                     (''y'', \<lparr>col_dtype = Object, col_vals = [''7'', ''abc'']\<rparr>),
                     (''t'', \<lparr>col_dtype = Datetime64, col_vals = [''2020'', ''2021'']\<rparr>)]\<rparr>,
       td_roles = [(''x'', \<lparr>role_name = ''Numeric'', role_dtype = Float32\<rparr>),
                   (''y'', \<lparr>role_name = ''Numeric'', role_dtype = Float32\<rparr>),
                   (''t'', \<lparr>role_name = ''Datetime'', role_dtype = Datetime64\<rparr>)],
       td_dtypes = [(''x'', Float32), (''y'', Float32), (''t'', Datetime64)]\<rparr>
   \<and> DaskCudfDataset_check_dtype cast_strings (\<lambda>n c. Some (c\<lparr>col_dtype := Datetime64\<rparr>))
      \<lparr>td_task = None, td_attrs = [],
       td_data = Some \<lparr>fr_index = [Lab 0, Lab 1],
          fr_cols = [(''x'', \<lparr>col_dtype = Object, col_vals = [''1'', ''2'']\<rparr>),
                     (''y'', \<lparr>col_dtype = Object, col_vals = [''7'', ''8'']\<rparr>),
                     (''t'', \<lparr>col_dtype = Object, col_vals = [''2020'', ''2021'']\<rparr>)]\<rparr>,
       td_roles = [(''x'', \<lparr>role_name = ''Numeric'', role_dtype = Float32\<rparr>),
                   (''y'', \<lparr>role_name = ''Numeric'', role_dtype = Float32\<rparr>),
                   (''t'', \<lparr>role_name = ''Datetime'', role_dtype = Datetime64\<rparr>)],
       td_dtypes = []\<rparr>
     = Inr \<lparr>td_task = None, td_attrs = [],
       td_data = Some \<lparr>fr_index = [Lab 0, Lab 1],
          fr_cols = [(''x'', \<lparr>col_dtype = Float32, col_vals = [''1'', ''2'']\<rparr>),
                     (''y'', \<lparr>col_dtype = Float32, col_vals = [''7'', ''8'']\<rparr>),
                     (''t'', \<lparr>col_dtype = Datetime64, col_vals = [''2020'', ''2021'']\<rparr>)]\<rparr>,
       td_roles = [(''x'', \<lparr>role_name = ''Numeric'', role_dtype = Float32\<rparr>),
                   (''y'', \<lparr>role_name = ''Numeric'', role_dtype = Float32\<rparr>),
                   (''t'', \<lparr>role_name = ''Datetime'', role_dtype = Datetime64\<rparr>)],
       td_dtypes = [(''x'', Float32), (''y'', Float32), (''t'', Datetime64)]\<rparr>
   \<and> cast_strings Float32 \<lparr>col_dtype = Object, col_vals = [''7'', ''abc'']\<rparr> = None
   \<and> cast_step cast_strings [(''x'', Float32), (''y'', Float32)]
        (Some \<lparr>fr_index = [Lab 0, Lab 1],
          fr_cols = [(''x'', \<lparr>col_dtype = Object, col_vals = [''1'', ''2'']\<rparr>),
                     (''y'', \<lparr>col_dtype = Object, col_vals = [''7'', ''abc'']\<rparr>),
                     (''t'', \<lparr>col_dtype = Object, col_vals = [''2020'', ''2021'']\<rparr>)]\<rparr>)
      = Some \<lparr>fr_index = [Lab 0, Lab 1],
          fr_cols = [(''x'', \<lparr>col_dtype = Object, col_vals = [''1'', ''2'']\<rparr>),
                     (''y'', \<lparr>col_dtype = Object, col_vals = [''7'', ''abc'']\<rparr>),
                     (''t'', \<lparr>col_dtype = Object, col_vals = [''2020'', ''2021'']\<rparr>)]\<rparr>"
proof -
  let ?td = "\<lambda>(n::string) (c::string column). Some (c\<lparr>col_dtype := Datetime64\<rparr>)"
  let ?x = "\<lparr>col_dtype = Object, col_vals = [''1'', ''2'']\<rparr>"
  let ?y = "\<lparr>col_dtype = Object, col_vals = [''7'', ''abc'']\<rparr>"
  let ?t = "\<lparr>col_dtype = Object, col_vals = [''2020'', ''2021'']\<rparr>"
  let ?fr = "\<lparr>fr_index = [Lab 0, Lab 1], fr_cols = [(''x'', ?x), (''y'', ?y), (''t'', ?t)]\<rparr>"
  let ?roles = "[(''x'', \<lparr>role_name = ''Numeric'', role_dtype = Float32\<rparr>),
                   (''y'', \<lparr>role_name = ''Numeric'', role_dtype = Float32\<rparr>),
                   (''t'', \<lparr>role_name = ''Datetime'', role_dtype = Datetime64\<rparr>)]"
  let ?ds = "\<lparr>td_task = None, td_attrs = [], td_data = Some ?fr, td_roles = ?roles,
              td_dtypes = []\<rparr>"
  let ?ds' = "?ds\<lparr>td_data := Some (?fr\<lparr>fr_cols := [(''x'', ?x), (''y'', ?y),
                    (''t'', \<lparr>col_dtype = Datetime64, col_vals = [''2020'', ''2021'']\<rparr>)]\<rparr>),
               td_dtypes := [(''x'', Float32), (''y'', Float32), (''t'', Datetime64)]\<rparr>"
  let ?frb = "\<lparr>fr_index = [Lab 0, Lab 1],
          fr_cols = [(''x'', ?x),
                     (''y'', \<lparr>col_dtype = Object, col_vals = [''7'', ''8'']\<rparr>),
                     (''t'', ?t)]\<rparr>"
  let ?dsb = "\<lparr>td_task = None, td_attrs = [], td_data = Some ?frb, td_roles = ?roles,
               td_dtypes = []\<rparr>"
  let ?dsb' = "\<lparr>td_task = None, td_attrs = [],
       td_data = Some \<lparr>fr_index = [Lab 0, Lab 1],
          fr_cols = [(''x'', \<lparr>col_dtype = Float32, col_vals = [''1'', ''2'']\<rparr>),
                     (''y'', \<lparr>col_dtype = Float32, col_vals = [''7'', ''8'']\<rparr>),
                     (''t'', \<lparr>col_dtype = Datetime64, col_vals = [''2020'', ''2021'']\<rparr>)]\<rparr>,
       td_roles = ?roles,
       td_dtypes = [(''x'', Float32), (''y'', Float32), (''t'', Datetime64)]\<rparr>"
  have f: "cast_strings Float32 ?y = None"
    by (simp add: cast_strings_def is_number_def)
  have m: "(''y'', ?y) \<in> set (fr_cols ?fr)
           \<and> map_of [(''x'', Float32), (''y'', Float32)] ''y'' = Some Float32"
    by simp
  have step: "cast_step cast_strings [(''x'', Float32), (''y'', Float32)] (Some ?fr) = Some ?fr"
    using table_check_dtype_cast_all_or_nothing
         [where cast = cast_strings and dtypes = "[(''x'', Float32), (''y'', Float32)]"
            and fr = ?fr and n = "''y''" and c = ?y and d = Float32] f m
    by blast
  have a: "CudfDataset_check_dtype cast_strings ?td ?ds = Inr ?ds'"
    by (simp add: CudfDataset_check_dtype_def Let_def date_columns_def cast_dtypes_def step)
  have b: "DaskCudfDataset_check_dtype cast_strings ?td ?dsb = Inr ?dsb'"
    by (simp add: DaskCudfDataset_check_dtype_def Let_def date_columns_def cast_dtypes_def
        cast_step_def astype_frame_def cast_strings_def is_number_def)
  have kept: "\<exists>fr'. td_data ?ds' = Some fr'
               \<and> (\<forall>n'. n' \<notin> set (date_columns (td_roles ?ds))
                      \<longrightarrow> map_of (fr_cols fr') n' = map_of (fr_cols ?fr) n')"
    by (rule table_check_dtype_cast_all_or_nothing
          [where cast = cast_strings and to_datetime = ?td and ds = ?ds and dfr = ?fr
             and m = "''y''" and mc = ?y and md = Float32 and ds' = ?ds',
           THEN conjunct2, THEN conjunct2, THEN conjunct2, THEN conjunct2, THEN conjunct2,
           THEN conjunct2, THEN conjunct2, THEN conjunct1, THEN mp])
      (simp add: a f cast_dtypes_def)
  have typed: "\<exists>fr'. td_data ?dsb' = Some fr'
               \<and> (\<forall>n' r c'. map_of (td_roles ?dsb) n' = Some r \<and> role_name r \<noteq> ''Datetime''
                             \<and> map_of (fr_cols fr') n' = Some c'
                      \<longrightarrow> col_dtype c' = role_dtype r)"
    by (rule table_check_dtype_cast_all_or_nothing
          [where cast = cast_strings and to_datetime = ?td and ds = ?dsb and dfr = ?frb
             and ds' = ?dsb',
           THEN conjunct2, THEN conjunct2, THEN conjunct2, THEN conjunct2, THEN conjunct2,
           THEN conjunct2, THEN conjunct2, THEN conjunct2, THEN mp])
      (auto simp: b cast_dtypes_def cast_strings_def is_number_def split: if_splits)
  from a b f step kept typed show ?thesis by simp
qed

theorem table_check_dtype_cast_counterexample:
  "cast_strings Float32 \<lparr>col_dtype = Object, col_vals = [''1'', ''2'']\<rparr>
     = Some \<lparr>col_dtype = Float32, col_vals = [''1'', ''2'']\<rparr>
   \<and> cast_strings Float32 \<lparr>col_dtype = Object, col_vals = [''7'', ''abc'']\<rparr> = None
   \<and> CudfDataset_check_dtype cast_strings (\<lambda>n c. Some c)
        \<lparr>td_task = None, td_attrs = [],
         td_data = Some \<lparr>fr_index = [Lab 0, Lab 1],
               fr_cols = [(''x'', \<lparr>col_dtype = Object, col_vals = [''1'', ''2'']\<rparr>),
                          (''y'', \<lparr>col_dtype = Object, col_vals = [''7'', ''abc'']\<rparr>)]\<rparr>,
         td_roles = [(''x'', \<lparr>role_name = ''Numeric'', role_dtype = Float32\<rparr>),
                     (''y'', \<lparr>role_name = ''Numeric'', role_dtype = Float32\<rparr>)],
         td_dtypes = []\<rparr>
      = Inr \<lparr>td_task = None, td_attrs = [],
         td_data = Some \<lparr>fr_index = [Lab 0, Lab 1],
               fr_cols = [(''x'', \<lparr>col_dtype = Object, col_vals = [''1'', ''2'']\<rparr>),
                          (''y'', \<lparr>col_dtype = Object, col_vals = [''7'', ''abc'']\<rparr>)]\<rparr>,
         td_roles = [(''x'', \<lparr>role_name = ''Numeric'', role_dtype = Float32\<rparr>),
                     (''y'', \<lparr>role_name = ''Numeric'', role_dtype = Float32\<rparr>)],
         td_dtypes = [(''x'', Float32), (''y'', Float32)]\<rparr>
   \<and> DaskCudfDataset_check_dtype cast_strings (\<lambda>n c. Some c)
        \<lparr>td_task = None, td_attrs = [],
         td_data = Some \<lparr>fr_index = [Lab 0, Lab 1],
               fr_cols = [(''x'', \<lparr>col_dtype = Object, col_vals = [''1'', ''2'']\<rparr>),
                          (''y'', \<lparr>col_dtype = Object, col_vals = [''7'', ''abc'']\<rparr>)]\<rparr>,
         td_roles = [(''x'', \<lparr>role_name = ''Numeric'', role_dtype = Float32\<rparr>),
                     (''y'', \<lparr>role_name = ''Numeric'', role_dtype = Float32\<rparr>)],
         td_dtypes = []\<rparr>
      = Inr \<lparr>td_task = None, td_attrs = [],
         td_data = Some \<lparr>fr_index = [Lab 0, Lab 1],
               fr_cols = [(''x'', \<lparr>col_dtype = Object, col_vals = [''1'', ''2'']\<rparr>),
                          (''y'', \<lparr>col_dtype = Object, col_vals = [''7'', ''abc'']\<rparr>)]\<rparr>,
         td_roles = [(''x'', \<lparr>role_name = ''Numeric'', role_dtype = Float32\<rparr>),
                     (''y'', \<lparr>role_name = ''Numeric'', role_dtype = Float32\<rparr>)],
         td_dtypes = [(''x'', Float32), (''y'', Float32)]\<rparr>"
  by (simp add: CudfDataset_check_dtype_def DaskCudfDataset_check_dtype_def Let_def
      date_columns_def cast_dtypes_def cast_step_def astype_frame_def cast_strings_def
      is_number_def)


section \<open>The extraction loop of the table constructors: lemmas\<close>

lemma map_other_keys:
  "k \<notin> fst ` set al \<Longrightarrow> map (\<lambda>(g, r). if g = k then (g, v) else (g, r)) al = al"
  by (induction al) auto

lemma update_as_map:
  "distinct (map fst al) \<Longrightarrow> k \<in> set (map fst al)
   \<Longrightarrow> AList.update k v al = map (\<lambda>(g, r). if g = k then (g, v) else (g, r)) al"
  by (induction al) (auto simp: map_other_keys)

lemma extract_inner_roles:
  "extract_inner post data f ps (kw, roles) = Inr (kw', roles') \<Longrightarrow> map_of roles f = Some rl
   \<Longrightarrow> roles' = (if role_name rl \<in> set (map snd ps) then AList.update f DropRole roles else roles)"
proof (induction ps arbitrary: kw roles rl)
  case Nil
  then show ?case by simp
next
  case (Cons p ps)
  obtain k r where p: "p = (k, r)" by (cases p)
  show ?case
  proof (cases "role_name rl = r")
    case True
    with Cons.prems p obtain fr s where
      d: "data = Some fr" "get_col fr f = Some s" and
      rec: "extract_inner post data f ps
              (AList.update k (post s) kw, AList.update f DropRole roles) = Inr (kw', roles')"
      by (auto split: option.splits)
    have "map_of (AList.update f DropRole roles) f = Some DropRole"
      by (simp add: update_conv')
    from Cons.IH [OF rec this] have "roles' = AList.update f DropRole roles"
      by (simp split: if_splits)
    with True p show ?thesis by simp
  next
    case False
    with Cons.prems p have
      rec: "extract_inner post data f ps (kw, roles) = Inr (kw', roles')"
      by simp
    from Cons.IH [OF rec Cons.prems(2)] False p show ?thesis by simp
  qed
qed

lemma extract_inner_kwargs:
  assumes "extract_inner post data f ps (kw, roles) = Inr (kw', roles')"
    and "map_of roles f = Some rl"
    and "role_name DropRole \<notin> set (map snd ps)"
    and "distinct (map snd ps)"
  shows "map_of kw' k' =
           (if (k', role_name rl) \<in> set ps
            then map_option post (case data of None \<Rightarrow> None | Some fr \<Rightarrow> get_col fr f)
            else map_of kw k')"
  using assms
proof (induction ps arbitrary: kw roles rl)
  case Nil
  then show ?case by simp
next
  case (Cons p ps)
  obtain k r where p: "p = (k, r)" by (cases p)
  from Cons.prems(3,4) p have
    nd: "role_name DropRole \<notin> set (map snd ps)" and dist: "distinct (map snd ps)"
    and rn: "r \<notin> set (map snd ps)"
    by auto
  show ?case
  proof (cases "role_name rl = r")
    case True
    with Cons.prems(1,2) p obtain fr s where
      d: "data = Some fr" "get_col fr f = Some s" and
      rec: "extract_inner post data f ps
              (AList.update k (post s) kw, AList.update f DropRole roles) = Inr (kw', roles')"
      by (auto split: option.splits)
    have m: "map_of (AList.update f DropRole roles) f = Some DropRole"
      by (simp add: update_conv')
    have no: "(k', role_name DropRole) \<notin> set ps"
      using nd by force
    from Cons.IH [OF rec m nd dist] no
    have e: "map_of kw' k' = map_of (AList.update k (post s) kw) k'"
      by simp
    have no2: "(k', r) \<notin> set ps" using rn by force
    from e True p d no2 show ?thesis
      by (auto simp: update_conv')
  next
    case False
    with Cons.prems(1,2) p have
      rec: "extract_inner post data f ps (kw, roles) = Inr (kw', roles')"
      by simp
    from Cons.IH [OF rec Cons.prems(2) nd dist] False p show ?thesis by auto
  qed
qed

lemma extract_inner_keys:
  "extract_inner post data f ps (kw, roles) = Inr (kw', roles')
   \<Longrightarrow> map fst roles' = map fst roles"
proof (induction ps arbitrary: kw roles)
  case Nil
  then show ?case by simp
next
  case (Cons p ps)
  obtain k r where p: "p = (k, r)" by (cases p)
  from Cons.prems p obtain rl where rl: "map_of roles f = Some rl"
    by (auto split: option.splits)
  show ?case
  proof (cases "role_name rl = r")
    case True
    with Cons.prems p rl obtain fr s where
      rec: "extract_inner post data f ps
              (AList.update k (post s) kw, AList.update f DropRole roles) = Inr (kw', roles')"
      by (auto split: option.splits)
    from rl have "f \<in> set (map fst roles)"
      by (metis map_of_eq_None_iff option.distinct(1) set_map)
    with Cons.IH [OF rec] show ?thesis by (simp add: update_keys)
  next
    case False
    with Cons.prems p rl have "extract_inner post data f ps (kw, roles) = Inr (kw', roles')"
      by simp
    from Cons.IH [OF this] show ?thesis .
  qed
qed

lemma key_has_role:
  "f \<in> set (map fst roles) \<Longrightarrow> \<exists>rl. map_of roles f = Some rl"
  by (induction roles) auto

lemma map_pairs_ident:
  "map (\<lambda>(g, r). (g, r)) roles = roles"
  by (induction roles) auto

lemma extract_inner_roles_map:
  assumes inner: "extract_inner post data f pairs (kw, roles) = Inr (kw1, roles1)"
    and dist: "distinct (map fst roles)"
    and mem: "f \<in> set (map fst roles)"
  shows "roles1 =
           map (\<lambda>(g, r). if g = f \<and> is_special pairs r then (g, DropRole) else (g, r)) roles"
proof -
  from key_has_role [OF mem] obtain rl where rl: "map_of roles f = Some rl" ..
  have r1: "roles1 = (if is_special pairs rl then AList.update f DropRole roles else roles)"
    using extract_inner_roles [OF inner rl] by (simp add: is_special_def)
  have same: "r = rl" if "(f, r) \<in> set roles" for r
  proof -
    from map_of_is_SomeI [OF dist that] rl show ?thesis by simp
  qed
  show ?thesis
  proof (cases "is_special pairs rl")
    case True
    with r1 have "roles1 = AList.update f DropRole roles" by simp
    also have "\<dots> = map (\<lambda>(g, r). if g = f then (g, DropRole) else (g, r)) roles"
      by (rule update_as_map [OF dist mem])
    also have "\<dots> =
            map (\<lambda>(g, r). if g = f \<and> is_special pairs r then (g, DropRole) else (g, r)) roles"
    proof (rule map_cong [OF refl])
      fix x
      assume x: "x \<in> set roles"
      obtain g r where gr: "x = (g, r)" by (cases x)
      have "is_special pairs r" if "g = f"
        using same [of r] x gr that True by simp
      then show "(case x of (g, r) \<Rightarrow> if g = f then (g, DropRole) else (g, r)) =
            (case x of (g, r) \<Rightarrow> if g = f \<and> is_special pairs r then (g, DropRole) else (g, r))"
        unfolding gr by simp
    qed
    finally show ?thesis .
  next
    case False
    with r1 have "roles1 = roles" by simp
    also have "roles = map (\<lambda>(g, r). (g, r)) roles"
      by (rule map_pairs_ident [symmetric])
    also have "\<dots> =
            map (\<lambda>(g, r). if g = f \<and> is_special pairs r then (g, DropRole) else (g, r)) roles"
    proof (rule map_cong [OF refl])
      fix x
      assume x: "x \<in> set roles"
      obtain g r where gr: "x = (g, r)" by (cases x)
      have "\<not> is_special pairs r" if "g = f"
        using same [of r] x gr that False by simp
      then show "(case x of (g, r) \<Rightarrow> (g, r)) =
            (case x of (g, r) \<Rightarrow> if g = f \<and> is_special pairs r then (g, DropRole) else (g, r))"
        unfolding gr by auto
    qed
    finally show ?thesis .
  qed
qed

lemma extract_outer_roles:
  "extract_outer post data pairs fs (kw, roles) = Inr (kw', roles')
   \<Longrightarrow> distinct (map fst roles) \<Longrightarrow> set fs \<subseteq> set (map fst roles) \<Longrightarrow> distinct fs
   \<Longrightarrow> roles' =
         map (\<lambda>(g, r). if g \<in> set fs \<and> is_special pairs r then (g, DropRole) else (g, r)) roles"
proof (induction fs arbitrary: kw roles)
  case Nil
  then show ?case by (simp add: map_pairs_ident)
next
  case (Cons f fs)
  from Cons.prems(1) obtain kw1 roles1 where
    inner: "extract_inner post data f pairs (kw, roles) = Inr (kw1, roles1)" and
    rec: "extract_outer post data pairs fs (kw1, roles1) = Inr (kw', roles')"
    by (auto split: sum.splits)
  from Cons.prems(3) have mem: "f \<in> set (map fst roles)" by simp
  have keys: "map fst roles1 = map fst roles"
    by (rule extract_inner_keys [OF inner])
  have r1: "roles1 =
      map (\<lambda>(g, r). if g = f \<and> is_special pairs r then (g, DropRole) else (g, r)) roles"
    by (rule extract_inner_roles_map [OF inner Cons.prems(2) mem])
  from Cons.prems(2) keys have d1: "distinct (map fst roles1)" by simp
  from Cons.prems(3) keys have s1: "set fs \<subseteq> set (map fst roles1)" by simp
  from Cons.prems(4) have dfs: "distinct fs" and nf: "f \<notin> set fs" by simp_all
  have "roles' =
      map (\<lambda>(g, r). if g \<in> set fs \<and> is_special pairs r then (g, DropRole) else (g, r)) roles1"
    by (rule Cons.IH [OF rec d1 s1 dfs])
  also have "\<dots> =
      map ((\<lambda>(g, r). if g \<in> set fs \<and> is_special pairs r then (g, DropRole) else (g, r))
           \<circ> (\<lambda>(g, r). if g = f \<and> is_special pairs r then (g, DropRole) else (g, r))) roles"
    by (simp only: r1 map_map)
  also have "\<dots> =
      map (\<lambda>(g, r). if g \<in> set (f # fs) \<and> is_special pairs r then (g, DropRole) else (g, r))
        roles"
  proof (rule map_cong [OF refl])
    fix x
    assume "x \<in> set roles"
    obtain g r where gr: "x = (g, r)" by (cases x)
    from nf gr
    show "((\<lambda>(g, r). if g \<in> set fs \<and> is_special pairs r then (g, DropRole) else (g, r))
           \<circ> (\<lambda>(g, r). if g = f \<and> is_special pairs r then (g, DropRole) else (g, r))) x =
          (case x of (g, r) \<Rightarrow>
             if g \<in> set (f # fs) \<and> is_special pairs r then (g, DropRole) else (g, r))"
      by auto
  qed
  finally show ?case .
qed

lemma extract_attrs_roles:
  assumes "extract_attrs post data pairs kwargs roles = Inr (kw', roles')"
    and "distinct (map fst roles)"
  shows "roles' = drop_special pairs roles"
proof -
  from assms(1) have
    "extract_outer post data pairs (map fst roles) (kwargs, roles) = Inr (kw', roles')"
    by (simp add: extract_attrs_def)
  from extract_outer_roles [OF this assms(2) subset_refl assms(2)]
  have "roles' =
      map (\<lambda>(g, r). if g \<in> set (map fst roles) \<and> is_special pairs r then (g, DropRole)
                     else (g, r)) roles" .
  also have "\<dots> = map (\<lambda>(f, r). if is_special pairs r then (f, DropRole) else (f, r)) roles"
  proof (rule map_cong [OF refl])
    fix x
    assume x: "x \<in> set roles"
    obtain g r where gr: "x = (g, r)" by (cases x)
    with x have "g \<in> set (map fst roles)" by force
    with gr
    show "(case x of (g, r) \<Rightarrow>
             if g \<in> set (map fst roles) \<and> is_special pairs r then (g, DropRole) else (g, r)) =
          (case x of (f, r) \<Rightarrow> if is_special pairs r then (f, DropRole) else (f, r))"
      by simp
  qed
  finally show ?thesis by (simp add: drop_special_def)
qed

lemma map_of_drop_special:
  "map_of (drop_special pairs roles) f =
     map_option (\<lambda>r. if is_special pairs r then DropRole else r) (map_of roles f)"
  by (induction roles) (auto simp: drop_special_def)

lemma CudfDataset_init_heap:
  assumes "CudfDataset_init pairs cast to_datetime h data ro task kwargs = (h', Inr ds)"
  shows "\<exists>kw' rs. extract_attrs reset_index_drop data pairs kwargs (read_roles h ro) = Inr (kw', rs)
           \<and> h' = write_roles h ro rs"
  using assms
  by (auto simp: CudfDataset_init_def split: sum.splits option.splits)

lemma DaskCudfDataset_init_heap:
  assumes "DaskCudfDataset_init pairs cast to_datetime h data ro task index_ok kwargs
            = (h', Inr ds)"
  shows "\<exists>kw' rs. extract_attrs (\<lambda>s. s) data pairs kwargs (read_roles h ro) = Inr (kw', rs)
           \<and> h' = write_roles h ro rs"
  using assms
  by (auto simp: DaskCudfDataset_init_def split: sum.splits option.splits)

lemma drop_special_keys:
  "map fst (drop_special pairs roles) = map fst roles"
  by (induction roles) (auto simp: drop_special_def)

lemma loop_overwrites_roles:
  assumes ex: "extract_attrs post data pairs kwargs (read_roles h (Some a)) = Inr (kw', rs)"
    and ha: "h a = Some roles"
    and dist: "distinct (map fst roles)"
    and h': "h' = write_roles h (Some a) rs"
  shows "h' a = Some (drop_special pairs roles)
         \<and> map fst (drop_special pairs roles) = map fst roles
         \<and> (\<forall>f r. map_of roles f = Some r \<longrightarrow>
               map_of (drop_special pairs roles) f
                 = Some (if is_special pairs r then DropRole else r))
         \<and> (\<forall>b. b \<noteq> a \<longrightarrow> h' b = h b)"
proof -
  from ha have rr: "read_roles h (Some a) = roles"
    by (simp add: read_roles_def)
  from ex rr have "extract_attrs post data pairs kwargs roles = Inr (kw', rs)"
    by simp
  from extract_attrs_roles [OF this dist] have rs: "rs = drop_special pairs roles" .
  from h' rs have 1: "h' a = Some (drop_special pairs roles)"
    by (simp add: write_roles_def)
  from h' have 2: "\<forall>b. b \<noteq> a \<longrightarrow> h' b = h b"
    by (simp add: write_roles_def)
  have 3: "\<forall>f r. map_of roles f = Some r \<longrightarrow>
               map_of (drop_special pairs roles) f
                 = Some (if is_special pairs r then DropRole else r)"
    by (simp add: map_of_drop_special)
  from 1 2 3 drop_special_keys show ?thesis by blast
qed

text \<open>
  C10.  Both table constructors overwrite entries of the caller's own \<open>roles\<close> dict.
  The dict lives at the address \<open>a\<close> that the caller passes; \<open>h\<close> is the heap before the
  call and \<open>h'\<close> the heap when the constructor has returned a dataset.  (The keys of a
  Python dict are distinct; that is the only assumption on \<open>roles\<close>.)  Then the dict at
  \<open>a\<close> is the caller's dict with the role of every column whose role name is one of
  \<^verbatim>\<open>array_attr_roles\<close> replaced by \<^verbatim>\<open>DropRole()\<close>: same keys in the same order, every
  other entry as it was, and no other dict of the heap is touched.
\<close>

theorem constructors_overwrite_caller_roles:
  "h a = Some roles \<and> distinct (map fst roles)
   \<and> (CudfDataset_init pairs cast to_datetime h data (Some a) task kwargs = (h', Inr ds)
        \<or> DaskCudfDataset_init pairs cast to_datetime h data (Some a) task index_ok kwargs
             = (h', Inr ds))
   \<longrightarrow> h' a = Some (drop_special pairs roles)
        \<and> map fst (drop_special pairs roles) = map fst roles
        \<and> (\<forall>f r. map_of roles f = Some r \<longrightarrow>
               map_of (drop_special pairs roles) f
                 = Some (if is_special pairs r then DropRole else r))
        \<and> (\<forall>b. b \<noteq> a \<longrightarrow> h' b = h b)"
proof (intro impI)
  assume A: "h a = Some roles \<and> distinct (map fst roles)
   \<and> (CudfDataset_init pairs cast to_datetime h data (Some a) task kwargs = (h', Inr ds)
        \<or> DaskCudfDataset_init pairs cast to_datetime h data (Some a) task index_ok kwargs
             = (h', Inr ds))"
  then have ha: "h a = Some roles" and dist: "distinct (map fst roles)"
    by simp_all
  from A consider
    (cudf) "CudfDataset_init pairs cast to_datetime h data (Some a) task kwargs = (h', Inr ds)"
    | (dask) "DaskCudfDataset_init pairs cast to_datetime h data (Some a) task index_ok kwargs
             = (h', Inr ds)"
    by blast
  then show "h' a = Some (drop_special pairs roles)
        \<and> map fst (drop_special pairs roles) = map fst roles
        \<and> (\<forall>f r. map_of roles f = Some r \<longrightarrow>
               map_of (drop_special pairs roles) f
                 = Some (if is_special pairs r then DropRole else r))
        \<and> (\<forall>b. b \<noteq> a \<longrightarrow> h' b = h b)"
  proof cases
    case cudf
    from CudfDataset_init_heap [OF cudf] obtain kw' rs where
      ex: "extract_attrs reset_index_drop data pairs kwargs (read_roles h (Some a)) = Inr (kw', rs)"
      and h': "h' = write_roles h (Some a) rs"
      by blast
    show ?thesis by (rule loop_overwrites_roles [OF ex ha dist h'])
  next
    case dask
    from DaskCudfDataset_init_heap [OF dask] obtain kw' rs where
      ex: "extract_attrs (\<lambda>s. s) data pairs kwargs (read_roles h (Some a)) = Inr (kw', rs)"
      and h': "h' = write_roles h (Some a) rs"
      by blast
    show ?thesis by (rule loop_overwrites_roles [OF ex ha dist h'])
  qed
qed

theorem constructors_overwrite_caller_roles_witness:
  "fst (CudfDataset_init [(''target'', ''Target''), (''group'', ''Group'')] cast_strings
          (\<lambda>n c. Some (c\<lparr>col_dtype := Datetime64\<rparr>))
          ((\<lambda>b. None)(0 := Some [(''x'', \<lparr>role_name = ''Numeric'', role_dtype = Float32\<rparr>),
                                 (''y'', \<lparr>role_name = ''Target'', role_dtype = Float32\<rparr>)]))
          (Some \<lparr>fr_index = [Lab 5, Lab 3],
                 fr_cols = [(''x'', \<lparr>col_dtype = Object, col_vals = [''1'', ''2'']\<rparr>),
                            (''y'', \<lparr>col_dtype = Object, col_vals = [''7'', ''8'']\<rparr>)]\<rparr>)
          (Some 0) None []) 0
     = Some [(''x'', \<lparr>role_name = ''Numeric'', role_dtype = Float32\<rparr>), (''y'', DropRole)]
   \<and> fst (DaskCudfDataset_init [(''target'', ''Target''), (''group'', ''Group'')] cast_strings
          (\<lambda>n c. Some (c\<lparr>col_dtype := Datetime64\<rparr>))
          ((\<lambda>b. None)(0 := Some [(''x'', \<lparr>role_name = ''Numeric'', role_dtype = Float32\<rparr>),
                                 (''y'', \<lparr>role_name = ''Target'', role_dtype = Float32\<rparr>)]))
          (Some \<lparr>fr_index = [Lab 5, Lab 3],
                 fr_cols = [(''x'', \<lparr>col_dtype = Object, col_vals = [''1'', ''2'']\<rparr>),
                            (''y'', \<lparr>col_dtype = Object, col_vals = [''7'', ''8'']\<rparr>)]\<rparr>)
          (Some 0) None False []) 0
     = Some [(''x'', \<lparr>role_name = ''Numeric'', role_dtype = Float32\<rparr>), (''y'', DropRole)]"
proof -
  let ?pairs = "[(''target'', ''Target''), (''group'', ''Group'')]"
  let ?td = "\<lambda>(n::string) (c::string column). Some (c\<lparr>col_dtype := Datetime64\<rparr>)"
  let ?roles = "[(''x'', \<lparr>role_name = ''Numeric'', role_dtype = Float32\<rparr>),
                 (''y'', \<lparr>role_name = ''Target'', role_dtype = Float32\<rparr>)]"
  let ?h = "(\<lambda>b::addr. None)(0 := Some ?roles)"
  let ?fr = "\<lparr>fr_index = [Lab 5, Lab 3],
                 fr_cols = [(''x'', \<lparr>col_dtype = Object, col_vals = [''1'', ''2'']\<rparr>),
                            (''y'', \<lparr>col_dtype = Object, col_vals = [''7'', ''8'']\<rparr>)]\<rparr>"
  have c: "\<exists>h' ds. CudfDataset_init ?pairs cast_strings ?td ?h (Some ?fr) (Some 0) None []
              = (h', Inr ds)"
    by (simp add: CudfDataset_init_def extract_attrs_def read_roles_def write_roles_def
        get_col_def table_set_data_def table_features_def roles_for_def dict_of_def
        initialize_def CudfDataset_check_dtype_def Let_def date_columns_def cast_dtypes_def
        cast_step_def astype_frame_def cast_strings_def is_number_def DropRole_def)
  have d: "\<exists>h' ds. DaskCudfDataset_init ?pairs cast_strings ?td ?h (Some ?fr) (Some 0) None False []
              = (h', Inr ds)"
    by (simp add: DaskCudfDataset_init_def extract_attrs_def read_roles_def write_roles_def
        get_col_def table_set_data_def table_features_def roles_for_def dict_of_def
        initialize_def DaskCudfDataset_check_dtype_def Let_def date_columns_def cast_dtypes_def
        cast_step_def astype_frame_def cast_strings_def is_number_def DropRole_def
        index_mapping_def remap_frame_def remap_series_def map_label_def)
  from c obtain h1 ds1 where
    c1: "CudfDataset_init ?pairs cast_strings ?td ?h (Some ?fr) (Some 0) None [] = (h1, Inr ds1)"
    by blast
  from d obtain h2 ds2 where
    d1: "DaskCudfDataset_init ?pairs cast_strings ?td ?h (Some ?fr) (Some 0) None False []
           = (h2, Inr ds2)"
    by blast
  have "h1 0 = Some (drop_special ?pairs ?roles)"
    using constructors_overwrite_caller_roles [where h = ?h and a = 0 and roles = ?roles
        and pairs = ?pairs and cast = cast_strings and to_datetime = ?td and data = "Some ?fr"
        and task = None and kwargs = "[]" and h' = h1 and ds = ds1] c1
    by simp
  moreover have "h2 0 = Some (drop_special ?pairs ?roles)"
    using constructors_overwrite_caller_roles [where h = ?h and a = 0 and roles = ?roles
        and pairs = ?pairs and cast = cast_strings and to_datetime = ?td and data = "Some ?fr"
        and task = None and kwargs = "[]" and h' = h2 and ds = ds2 and index_ok = False] d1
    by simp
  ultimately show ?thesis
    using c1 d1 by (simp add: drop_special_def is_special_def)
qed

section \<open>The re-keying of the distributed table constructor\<close>

lemma map_of_fold_update:
  "map_of (fold (\<lambda>(k, v) d. AList.update k v d) ps d) = map_of d ++ map_of (rev ps)"
proof (induction ps arbitrary: d)
  case Nil
  then show ?case by simp
next
  case (Cons p ps)
  obtain k v where p: "p = (k, v)" by (cases p)
  have "map_of (fold (\<lambda>(k, v) d. AList.update k v d) (p # ps) d) =
        map_of (AList.update k v d) ++ map_of (rev ps)"
    by (simp add: p Cons.IH)
  also have "\<dots> = map_of d ++ map_of (rev (p # ps))"
    by (auto simp: p update_conv' map_add_def fun_eq_iff split: option.splits)
  finally show ?case .
qed

lemma map_of_dict_of:
  "map_of (dict_of ps) = map_of (rev ps)"
  by (simp add: dict_of_def map_of_fold_update)

lemma index_mapping_nth:
  assumes "distinct idx" and "i < length idx"
  shows "map_of (index_mapping idx) (idx ! i) = Some i"
proof -
  let ?n = "length idx"
  have r: "rev (zip idx [0..<?n]) = zip (rev idx) (rev [0..<?n])"
    by (simp add: zip_rev)
  from assms(2) have j: "?n - 1 - i < length (rev [0..<?n])" by simp
  from assms(2) have e: "rev idx ! (?n - 1 - i) = idx ! i"
    by (simp add: rev_nth)
  from assms(2) have e2: "rev [0..<?n] ! (?n - 1 - i) = i"
    by (simp add: rev_nth)
  have "map_of (zip (rev idx) (rev [0..<?n])) (rev idx ! (?n - 1 - i))
          = Some (rev [0..<?n] ! (?n - 1 - i))"
    by (rule map_of_zip_nth) (use assms j in simp_all)
  with e e2 r show ?thesis
    by (simp add: index_mapping_def map_of_dict_of)
qed

lemma remap_distinct_index:
  assumes "distinct idx"
  shows "map (map_label (index_mapping idx)) idx = map (\<lambda>i. Lab (int i)) [0..<length idx]"
proof (rule nth_equalityI)
  show "length (map (map_label (index_mapping idx)) idx)
          = length (map (\<lambda>i. Lab (int i)) [0..<length idx])"
    by simp
next
  fix i
  assume "i < length (map (map_label (index_mapping idx)) idx)"
  then have i: "i < length idx" by simp
  from index_mapping_nth [OF assms i] i
  show "map (map_label (index_mapping idx)) idx ! i
          = map (\<lambda>i. Lab (int i)) [0..<length idx] ! i"
    by (simp add: map_label_def)
qed

text \<open>
  C1.  The re-keying of \<^verbatim>\<open>DaskCudfDataset.__init__\<close> (\<^verbatim>\<open>index_ok=False\<close>) builds
  \<^verbatim>\<open>mapping = dict(zip(index values, arange(size)))\<close> and maps the index of the table
  and of every auxiliary attribute through it.

  \<^item> When the labels of the index are distinct, the new index of the table is
    \<open>0, 1, ..., N-1\<close> in this order, and a row of an auxiliary attribute that carries
    the original label of row \<open>i\<close> of the table gets the label \<open>i\<close>.
  \<^item> When a label occurs twice, \<^verbatim>\<open>dict\<close> keeps the last position of each label: the
    map is not a bijection onto \<open>0..N-1\<close> and the new index is not \<open>0..N-1\<close>.  For the
    index \<open>[0, 1, 0, 1]\<close> the mapping is \<open>{0: 2, 1: 3}\<close> and the constructed dataset
    (column \<open>y\<close> is the target) has the index \<open>[2, 3, 2, 3]\<close>, for the table and for
    the target.
\<close>

theorem DaskCudfDataset_init_rekeying:
  "(distinct (fr_index fr) \<longrightarrow>
      fr_index (remap_frame (index_mapping (fr_index fr)) fr)
        = map (\<lambda>i. Lab (int i)) [0..<length (fr_index fr)])
   \<and> (distinct (fr_index fr) \<and> i < length (fr_index fr) \<longrightarrow>
        map_label (index_mapping (fr_index fr)) (fr_index fr ! i) = Lab (int i))
   \<and> index_mapping [Lab 0, Lab 1, Lab 0, Lab 1] = [(Lab 0, 2), (Lab 1, 3)]
   \<and> snd (DaskCudfDataset_init [(''target'', ''Target''), (''group'', ''Group'')] cast_strings
          (\<lambda>n c. Some (c\<lparr>col_dtype := Datetime64\<rparr>))
          ((\<lambda>b. None)(0 := Some [(''x'', \<lparr>role_name = ''Numeric'', role_dtype = Float32\<rparr>),
                                 (''y'', \<lparr>role_name = ''Target'', role_dtype = Float32\<rparr>)]))
          (Some \<lparr>fr_index = [Lab 0, Lab 1, Lab 0, Lab 1],
                 fr_cols = [(''x'', \<lparr>col_dtype = Object, col_vals = [''1'', ''2'', ''3'', ''4'']\<rparr>),
                            (''y'', \<lparr>col_dtype = Object, col_vals = [''5'', ''6'', ''7'', ''8'']\<rparr>)]\<rparr>)
          (Some 0) None False [])
      = Inr \<lparr>td_task = None,
          td_attrs = [(''target'', \<lparr>sr_name = ''y'', sr_index = [Lab 2, Lab 3, Lab 2, Lab 3],
                         sr_dtype = Object, sr_vals = [''5'', ''6'', ''7'', ''8'']\<rparr>)],
          td_data = Some \<lparr>fr_index = [Lab 2, Lab 3, Lab 2, Lab 3],
                 fr_cols = [(''x'', \<lparr>col_dtype = Float32, col_vals = [''1'', ''2'', ''3'', ''4'']\<rparr>),
                            (''y'', \<lparr>col_dtype = role_dtype DropRole,
                                     col_vals = [''5'', ''6'', ''7'', ''8'']\<rparr>)]\<rparr>,
          td_roles = [(''x'', \<lparr>role_name = ''Numeric'', role_dtype = Float32\<rparr>), (''y'', DropRole)],
          td_dtypes = [(''x'', Float32), (''y'', role_dtype DropRole)]\<rparr>"
proof (intro conjI impI)
  assume "distinct (fr_index fr)"
  then show "fr_index (remap_frame (index_mapping (fr_index fr)) fr)
        = map (\<lambda>i. Lab (int i)) [0..<length (fr_index fr)]"
    by (simp add: remap_frame_def remap_distinct_index)
next
  assume "distinct (fr_index fr) \<and> i < length (fr_index fr)"
  then have "map_of (index_mapping (fr_index fr)) (fr_index fr ! i) = Some i"
    by (simp add: index_mapping_nth)
  then show "map_label (index_mapping (fr_index fr)) (fr_index fr ! i) = Lab (int i)"
    by (simp add: map_label_def)
next
  show "index_mapping [Lab 0, Lab 1, Lab 0, Lab 1] = [(Lab 0, 2), (Lab 1, 3)]"
    by (simp add: index_mapping_def dict_of_def upt_rec)
next
  have m: "index_mapping [Lab 0, Lab 1, Lab 0, Lab 1] = [(Lab 0, 2), (Lab 1, 3)]"
    by (simp add: index_mapping_def dict_of_def upt_rec)
  show "snd (DaskCudfDataset_init [(''target'', ''Target''), (''group'', ''Group'')] cast_strings
          (\<lambda>n c. Some (c\<lparr>col_dtype := Datetime64\<rparr>))
          ((\<lambda>b. None)(0 := Some [(''x'', \<lparr>role_name = ''Numeric'', role_dtype = Float32\<rparr>),
                                 (''y'', \<lparr>role_name = ''Target'', role_dtype = Float32\<rparr>)]))
          (Some \<lparr>fr_index = [Lab 0, Lab 1, Lab 0, Lab 1],
                 fr_cols = [(''x'', \<lparr>col_dtype = Object, col_vals = [''1'', ''2'', ''3'', ''4'']\<rparr>),
                            (''y'', \<lparr>col_dtype = Object, col_vals = [''5'', ''6'', ''7'', ''8'']\<rparr>)]\<rparr>)
          (Some 0) None False [])
      = Inr \<lparr>td_task = None,
          td_attrs = [(''target'', \<lparr>sr_name = ''y'', sr_index = [Lab 2, Lab 3, Lab 2, Lab 3],
                         sr_dtype = Object, sr_vals = [''5'', ''6'', ''7'', ''8'']\<rparr>)],
          td_data = Some \<lparr>fr_index = [Lab 2, Lab 3, Lab 2, Lab 3],
                 fr_cols = [(''x'', \<lparr>col_dtype = Float32, col_vals = [''1'', ''2'', ''3'', ''4'']\<rparr>),
                            (''y'', \<lparr>col_dtype = role_dtype DropRole,
                                     col_vals = [''5'', ''6'', ''7'', ''8'']\<rparr>)]\<rparr>,
          td_roles = [(''x'', \<lparr>role_name = ''Numeric'', role_dtype = Float32\<rparr>), (''y'', DropRole)],
          td_dtypes = [(''x'', Float32), (''y'', role_dtype DropRole)]\<rparr>"
    by (simp add: DaskCudfDataset_init_def extract_attrs_def read_roles_def write_roles_def
        get_col_def table_set_data_def table_features_def roles_for_def dict_of_def
        initialize_def DaskCudfDataset_check_dtype_def Let_def date_columns_def cast_dtypes_def
        cast_step_def astype_frame_def cast_strings_def is_number_def DropRole_def
        m remap_frame_def remap_series_def map_label_def)
qed

theorem DaskCudfDataset_init_rekeying_witness:
  "fr_index (remap_frame (index_mapping [Lab 5, Lab 3, Lab 9])
       \<lparr>fr_index = [Lab 5, Lab 3, Lab 9],
        fr_cols = [(''x'', \<lparr>col_dtype = Object, col_vals = [''1'', ''2'', ''3'']\<rparr>)]\<rparr>)
     = [Lab 0, Lab 1, Lab 2]
   \<and> map_label (index_mapping [Lab 5, Lab 3, Lab 9]) (Lab 9) = Lab 2"
proof -
  let ?fr = "\<lparr>fr_index = [Lab 5, Lab 3, Lab 9],
        fr_cols = [(''x'', \<lparr>col_dtype = Object, col_vals = [''1'', ''2'', ''3'']\<rparr>)]\<rparr>"
  have u: "[0..<3] = [0, 1, 2]" by (simp add: upt_rec)
  from DaskCudfDataset_init_rekeying [where fr = ?fr and i = 2]
  have "fr_index (remap_frame (index_mapping (fr_index ?fr)) ?fr)
          = map (\<lambda>i. Lab (int i)) [0..<length (fr_index ?fr)]
        \<and> map_label (index_mapping (fr_index ?fr)) (fr_index ?fr ! 2) = Lab (int 2)"
    by simp
  then show ?thesis by (simp add: u)
qed

section \<open>Sequential datasets: lemmas\<close>












lemma take_rows_length:
  "take_rows xs ks = Some ys \<Longrightarrow> length ys = length ks"
  by (induction ks arbitrary: ys) (auto split: option.splits)

lemma take_rows_nth:
  "take_rows xs ks = Some ys \<Longrightarrow> q < length ks \<Longrightarrow> 0 \<le> ks ! q
   \<Longrightarrow> ys ! q = xs ! nat (ks ! q)"
proof (induction ks arbitrary: ys q)
  case Nil
  then show ?case by simp
next
  case (Cons k ks)
  from Cons.prems(1) obtain x r where
    x: "py_index xs k = Some x" and r: "take_rows xs ks = Some r" and ys: "ys = x # r"
    by (auto split: option.splits)
  show ?case
  proof (cases q)
    case 0
    with Cons.prems(3) have "0 \<le> k" by simp
    with x have "x = xs ! nat k"
      by (auto simp: py_index_def split: if_splits)
    with 0 ys show ?thesis by simp
  next
    case (Suc q')
    with Cons.prems(2,3) have "q' < length ks" and "0 \<le> ks ! q'" by simp_all
    from Cons.IH [OF r this] Suc ys show ?thesis by simp
  qed
qed

lemma iloc_rows_index:
  "iloc_rows fr ks = Some fr' \<Longrightarrow> take_rows (fr_index fr) ks = Some (fr_index fr')"
  by (auto simp: iloc_rows_def split: option.splits)

lemma astype_frame_index:
  "astype_frame cast dtypes fr = Some fr' \<Longrightarrow> fr_index fr' = fr_index fr"
  by (auto simp: astype_frame_def split: if_splits)

lemma cast_step_index:
  "map_option fr_index (cast_step cast dtypes data) = map_option fr_index data"
  by (auto simp: cast_step_def astype_frame_index split: option.splits)

lemma convert_datetime_index:
  "convert_datetime to_datetime data cols = Inr data'
   \<Longrightarrow> map_option fr_index data' = map_option fr_index data"
proof (induction cols arbitrary: data)
  case Nil
  then show ?case by simp
next
  case (Cons i cols)
  from Cons.prems obtain fr c c' where
    d: "data = Some fr" and
    rec: "convert_datetime to_datetime
            (Some (fr\<lparr>fr_cols := AList.update i c' (fr_cols fr)\<rparr>)) cols = Inr data'"
    by (auto split: option.splits)
  from Cons.IH [OF rec] d show ?case by simp
qed

lemma CudfDataset_check_dtype_index:
  assumes "CudfDataset_check_dtype cast to_datetime ds = Inr ds'"
  shows "map_option fr_index (td_data ds') = map_option fr_index (td_data ds)"
proof -
  from assms obtain data2 where
    c: "convert_datetime to_datetime
          (cast_step cast (cast_dtypes (td_roles ds)) (td_data ds))
          (date_columns (td_roles ds)) = Inr data2"
    and d: "td_data ds' = data2"
    by (auto simp: CudfDataset_check_dtype_def Let_def split: sum.splits)
  from convert_datetime_index [OF c] d show ?thesis
    by (simp add: cast_step_index)
qed

lemma table_set_data_index:
  assumes "table_set_data (CudfDataset_check_dtype cast to_datetime) t0 data roles = Inr t"
  shows "map_option fr_index (td_data t) = map_option fr_index data"
proof -
  from assms obtain rs where
    "CudfDataset_check_dtype cast to_datetime (t0\<lparr>td_data := data, td_roles := rs\<rparr>) = Inr t"
    by (auto simp: table_set_data_def Let_def split: sum.splits)
  from CudfDataset_check_dtype_index [OF this] show ?thesis by simp
qed








lemma first_frame_idx_length:
  "first_frame_idx g ks = Some ffi \<Longrightarrow> length ffi = length ks"
  by (induction ks arbitrary: ffi) (auto split: option.splits)

lemma py_index_first:
  "py_index grp 0 = Some r \<Longrightarrow> r = hd grp"
  by (cases grp) (auto simp: py_index_def split: if_splits)

lemma first_frame_idx_nth:
  "first_frame_idx g ks = Some ffi \<Longrightarrow> q < length ks \<Longrightarrow> 0 \<le> ks ! q
   \<Longrightarrow> ffi ! q = hd (g ! nat (ks ! q))"
proof (induction ks arbitrary: ffi q)
  case Nil
  then show ?case by simp
next
  case (Cons k ks)
  from Cons.prems(1) obtain grp r rs where
    grp: "py_index g k = Some grp" and r: "py_index grp 0 = Some r" and
    rs: "first_frame_idx g ks = Some rs" and ffi: "ffi = r # rs"
    by (auto split: option.splits)
  show ?case
  proof (cases q)
    case 0
    with Cons.prems(3) have "0 \<le> k" by simp
    with grp have "grp = g ! nat k"
      by (auto simp: py_index_def split: if_splits)
    with py_index_first [OF r] 0 ffi show ?thesis by simp
  next
    case (Suc q')
    with Cons.prems(2,3) have "q' < length ks" and "0 \<le> ks ! q'" by simp_all
    from Cons.IH [OF rs this] Suc ffi show ?thesis by simp
  qed
qed

lemma CudfDataset_init_index:
  assumes "snd (CudfDataset_init pairs cast to_datetime h (Some data) ro task kwargs) = Inr ds"
  shows "map_option fr_index (td_data ds) = Some (fr_index data)"
proof -
  from assms obtain kw' rs where
    "table_set_data (CudfDataset_check_dtype cast to_datetime) (initialize task kw') (Some data)
       (RolesDict rs) = Inr ds"
    by (auto simp: CudfDataset_init_def split: sum.splits prod.splits)
  from table_set_data_index [OF this] show ?thesis by simp
qed

lemma get_first_frame_object_idx:
  assumes "sq_idx sd = Some (ObjIdx g)"
  shows "isl (snd (SeqCudfDataset_get_first_frame pairs cast to_datetime sd k))"
  using assms
  by (auto simp: SeqCudfDataset_get_first_frame_def Let_def split: sum.splits option.splits)

lemma get_first_frame_object_idx_error:
  assumes "sq_idx sd = Some (ObjIdx g)"
    and "CudfDataset_check_dtype cast to_datetime (sq_table sd) = Inr t"
    and "td_data t \<noteq> None"
  shows "SeqCudfDataset_get_first_frame pairs cast to_datetime sd k
           = (sd\<lparr>sq_table := t\<rparr>, Inl TypeError)"
  using assms
  by (auto simp: SeqCudfDataset_get_first_frame_def Let_def split: sum.splits option.splits)

lemma get_first_frame_labels:
  assumes r: "SeqCudfDataset_get_first_frame pairs cast to_datetime sd None = (sd', Inr ds)"
    and ia: "sq_idx sd = Some (IntIdx g)"
    and q: "q < length g" and pos: "0 \<le> hd (g ! q)"
  shows "\<exists>fr fr'. td_data (sq_table sd') = Some fr \<and> td_data ds = Some fr'
           \<and> length (fr_index fr') = length g
           \<and> fr_index fr' ! q = fr_index fr ! nat (hd (g ! q))"
proof -
  from r ia obtain t fr ffi data where
    sd': "sd' = sd\<lparr>sq_table := t\<rparr>" and
    fr: "td_data t = Some fr" and
    ffi: "first_frame_idx g (map int [0..<length g]) = Some ffi" and
    d: "iloc_rows fr ffi = Some data" and
    c: "snd (CudfDataset_init pairs cast to_datetime ((\<lambda>a. None)(0 := Some (td_roles t)))
              (Some data) (Some 0) (td_task t) []) = Inr ds"
    by (auto simp: SeqCudfDataset_get_first_frame_def Let_def logical_rows_def
        split: sum.splits option.splits if_splits)
  from CudfDataset_init_index [OF c] obtain fr' where
    fr': "td_data ds = Some fr'" and e: "fr_index fr' = fr_index data"
    by auto
  from iloc_rows_index [OF d] e have tr: "take_rows (fr_index fr) ffi = Some (fr_index fr')"
    by simp
  from first_frame_idx_length [OF ffi] have len: "length ffi = length g" by simp
  from q have q': "q < length (map int [0..<length g])" by simp
  from q have nn: "0 \<le> map int [0..<length g] ! q" by simp
  from first_frame_idx_nth [OF ffi q' nn] q have v: "ffi ! q = hd (g ! q)" by simp
  from q len have ql: "q < length ffi" by simp
  from pos v have vp: "0 \<le> ffi ! q" by simp
  from take_rows_nth [OF tr ql vp] v have
    "fr_index fr' ! q = fr_index fr ! nat (hd (g ! q))" by simp
  moreover from take_rows_length [OF tr] len have "length (fr_index fr') = length g" by simp
  ultimately show ?thesis using sd' fr fr' by simp
qed

text \<open>
  C6.  \<^verbatim>\<open>get_first_frame\<close> evaluates \<^verbatim>\<open>np.isnan(self.idx)\<close> whatever \<open>idx\<close> is, because
  \<^verbatim>\<open>type(self.idx == np.ndarray)\<close> is always true.
  \<^item> On an \<open>idx\<close> of dtype object, which is every \<open>idx\<close> whose groups differ in size and
    every \<open>idx\<close> that \<^verbatim>\<open>__getitem__\<close> has built, the method never returns a dataset; when
    \<^verbatim>\<open>_check_dtype\<close> passes and there is data it raises \<^verbatim>\<open>TypeError\<close>.
  \<^item> For the groups \<open>[[0,1,2],[3],[4,5]]\<close> over a table of two columns it raises
    \<^verbatim>\<open>TypeError\<close>.
  \<^item> On an integer matrix, when the method returns a dataset for \<^verbatim>\<open>k = None\<close>, the
    table of that dataset has one row for each group, and row \<open>q\<close> carries the index
    label of the first physical row of group \<open>q\<close>.  For the matrix
    \<open>[[0,1],[2,3],[4,5]]\<close> the rows are the rows 0, 2, 4.
\<close>

theorem SeqCudfDataset_get_first_frame_object_idx:
  "(sq_idx sd = Some (ObjIdx g) \<longrightarrow>
      isl (snd (SeqCudfDataset_get_first_frame pairs cast to_datetime sd k)))
   \<and> (sq_idx sd = Some (ObjIdx g)
        \<and> CudfDataset_check_dtype cast to_datetime (sq_table sd) = Inr t \<and> td_data t \<noteq> None
        \<longrightarrow> SeqCudfDataset_get_first_frame pairs cast to_datetime sd k
              = (sd\<lparr>sq_table := t\<rparr>, Inl TypeError))
   \<and> (SeqCudfDataset_get_first_frame pairs cast to_datetime sd None = (sd', Inr ds)
        \<and> sq_idx sd = Some (IntIdx g) \<and> q < length g \<and> 0 \<le> hd (g ! q)
        \<longrightarrow> (\<exists>fr fr'. td_data (sq_table sd') = Some fr \<and> td_data ds = Some fr'
               \<and> length (fr_index fr') = length g
               \<and> fr_index fr' ! q = fr_index fr ! nat (hd (g ! q))))
   \<and> snd (SeqCudfDataset_get_first_frame [(''target'', ''Target'')] cast_strings (\<lambda>n c. Some c)
        \<lparr>sq_table = \<lparr>td_task = None, td_attrs = [],
           td_data = Some \<lparr>fr_index = [Lab 10, Lab 11, Lab 12, Lab 13, Lab 14, Lab 15],
              fr_cols = [(''a'', \<lparr>col_dtype = Float32,
                                  col_vals = [''0'', ''1'', ''2'', ''3'', ''4'', ''5'']\<rparr>),
                         (''b'', \<lparr>col_dtype = Float32,
                                  col_vals = [''10'', ''11'', ''12'', ''13'', ''14'', ''15'']\<rparr>)]\<rparr>,
           td_roles = [(''a'', \<lparr>role_name = ''Numeric'', role_dtype = Float32\<rparr>),
                       (''b'', \<lparr>role_name = ''Numeric'', role_dtype = Float32\<rparr>)],
           td_dtypes = [(''a'', Float32), (''b'', Float32)]\<rparr>,
         sq_idx = Some (ObjIdx [[0, 1, 2], [3], [4, 5]])\<rparr> None)
      = Inl TypeError
   \<and> snd (SeqCudfDataset_get_first_frame [(''target'', ''Target'')] cast_strings (\<lambda>n c. Some c)
        \<lparr>sq_table = \<lparr>td_task = None, td_attrs = [],
           td_data = Some \<lparr>fr_index = [Lab 10, Lab 11, Lab 12, Lab 13, Lab 14, Lab 15],
              fr_cols = [(''a'', \<lparr>col_dtype = Float32,
                                  col_vals = [''0'', ''1'', ''2'', ''3'', ''4'', ''5'']\<rparr>),
                         (''b'', \<lparr>col_dtype = Float32,
                                  col_vals = [''10'', ''11'', ''12'', ''13'', ''14'', ''15'']\<rparr>)]\<rparr>,
           td_roles = [(''a'', \<lparr>role_name = ''Numeric'', role_dtype = Float32\<rparr>),
                       (''b'', \<lparr>role_name = ''Numeric'', role_dtype = Float32\<rparr>)],
           td_dtypes = [(''a'', Float32), (''b'', Float32)]\<rparr>,
         sq_idx = Some (IntIdx [[0, 1], [2, 3], [4, 5]])\<rparr> None)
      = Inr \<lparr>td_task = None, td_attrs = [],
           td_data = Some \<lparr>fr_index = [Lab 10, Lab 12, Lab 14],
              fr_cols = [(''a'', \<lparr>col_dtype = Float32, col_vals = [''0'', ''2'', ''4'']\<rparr>),
                         (''b'', \<lparr>col_dtype = Float32, col_vals = [''10'', ''12'', ''14'']\<rparr>)]\<rparr>,
           td_roles = [(''a'', \<lparr>role_name = ''Numeric'', role_dtype = Float32\<rparr>),
                       (''b'', \<lparr>role_name = ''Numeric'', role_dtype = Float32\<rparr>)],
           td_dtypes = [(''a'', Float32), (''b'', Float32)]\<rparr>"
proof (intro conjI impI)
  assume "sq_idx sd = Some (ObjIdx g)"
  then show "isl (snd (SeqCudfDataset_get_first_frame pairs cast to_datetime sd k))"
    by (rule get_first_frame_object_idx)
next
  assume "sq_idx sd = Some (ObjIdx g)
        \<and> CudfDataset_check_dtype cast to_datetime (sq_table sd) = Inr t \<and> td_data t \<noteq> None"
  then show "SeqCudfDataset_get_first_frame pairs cast to_datetime sd k
              = (sd\<lparr>sq_table := t\<rparr>, Inl TypeError)"
    using get_first_frame_object_idx_error [where sd = sd and g = g and cast = cast
        and to_datetime = to_datetime and t = t and pairs = pairs and k = k]
    by blast
next
  assume "SeqCudfDataset_get_first_frame pairs cast to_datetime sd None = (sd', Inr ds)
        \<and> sq_idx sd = Some (IntIdx g) \<and> q < length g \<and> 0 \<le> hd (g ! q)"
  then show "\<exists>fr fr'. td_data (sq_table sd') = Some fr \<and> td_data ds = Some fr'
               \<and> length (fr_index fr') = length g
               \<and> fr_index fr' ! q = fr_index fr ! nat (hd (g ! q))"
    using get_first_frame_labels [where pairs = pairs and cast = cast
        and to_datetime = to_datetime and sd = sd and sd' = sd' and ds = ds and g = g and q = q]
    by blast
next
  show "snd (SeqCudfDataset_get_first_frame [(''target'', ''Target'')] cast_strings (\<lambda>n c. Some c)
        \<lparr>sq_table = \<lparr>td_task = None, td_attrs = [],
           td_data = Some \<lparr>fr_index = [Lab 10, Lab 11, Lab 12, Lab 13, Lab 14, Lab 15],
              fr_cols = [(''a'', \<lparr>col_dtype = Float32,
                                  col_vals = [''0'', ''1'', ''2'', ''3'', ''4'', ''5'']\<rparr>),
                         (''b'', \<lparr>col_dtype = Float32,
                                  col_vals = [''10'', ''11'', ''12'', ''13'', ''14'', ''15'']\<rparr>)]\<rparr>,
           td_roles = [(''a'', \<lparr>role_name = ''Numeric'', role_dtype = Float32\<rparr>),
                       (''b'', \<lparr>role_name = ''Numeric'', role_dtype = Float32\<rparr>)],
           td_dtypes = [(''a'', Float32), (''b'', Float32)]\<rparr>,
         sq_idx = Some (ObjIdx [[0, 1, 2], [3], [4, 5]])\<rparr> None)
      = Inl TypeError"
    by (simp add: SeqCudfDataset_get_first_frame_def CudfDataset_check_dtype_def Let_def
        date_columns_def cast_dtypes_def cast_step_def astype_frame_def cast_strings_def
        is_number_def)
next
  show "snd (SeqCudfDataset_get_first_frame [(''target'', ''Target'')] cast_strings (\<lambda>n c. Some c)
        \<lparr>sq_table = \<lparr>td_task = None, td_attrs = [],
           td_data = Some \<lparr>fr_index = [Lab 10, Lab 11, Lab 12, Lab 13, Lab 14, Lab 15],
              fr_cols = [(''a'', \<lparr>col_dtype = Float32,
                                  col_vals = [''0'', ''1'', ''2'', ''3'', ''4'', ''5'']\<rparr>),
                         (''b'', \<lparr>col_dtype = Float32,
                                  col_vals = [''10'', ''11'', ''12'', ''13'', ''14'', ''15'']\<rparr>)]\<rparr>,
           td_roles = [(''a'', \<lparr>role_name = ''Numeric'', role_dtype = Float32\<rparr>),
                       (''b'', \<lparr>role_name = ''Numeric'', role_dtype = Float32\<rparr>)],
           td_dtypes = [(''a'', Float32), (''b'', Float32)]\<rparr>,
         sq_idx = Some (IntIdx [[0, 1], [2, 3], [4, 5]])\<rparr> None)
      = Inr \<lparr>td_task = None, td_attrs = [],
           td_data = Some \<lparr>fr_index = [Lab 10, Lab 12, Lab 14],
              fr_cols = [(''a'', \<lparr>col_dtype = Float32, col_vals = [''0'', ''2'', ''4'']\<rparr>),
                         (''b'', \<lparr>col_dtype = Float32, col_vals = [''10'', ''12'', ''14'']\<rparr>)]\<rparr>,
           td_roles = [(''a'', \<lparr>role_name = ''Numeric'', role_dtype = Float32\<rparr>),
                       (''b'', \<lparr>role_name = ''Numeric'', role_dtype = Float32\<rparr>)],
           td_dtypes = [(''a'', Float32), (''b'', Float32)]\<rparr>"
    by (simp add: SeqCudfDataset_get_first_frame_def CudfDataset_check_dtype_def Let_def
        date_columns_def cast_dtypes_def cast_step_def astype_frame_def cast_strings_def
        is_number_def logical_rows_def py_index_def iloc_rows_def CudfDataset_init_def
        extract_attrs_def read_roles_def write_roles_def table_set_data_def
        table_features_def roles_for_def dict_of_def initialize_def)
qed

theorem SeqCudfDataset_get_first_frame_object_idx_witness:
  "isl (snd (SeqCudfDataset_get_first_frame [(''target'', ''Target'')] cast_strings
        (\<lambda>n c. Some c)
        \<lparr>sq_table = \<lparr>td_task = None, td_attrs = [],
           td_data = Some \<lparr>fr_index = [Lab 10, Lab 11, Lab 12],
              fr_cols = [(''a'', \<lparr>col_dtype = Float32, col_vals = [''0'', ''1'', ''2'']\<rparr>)]\<rparr>,
           td_roles = [(''a'', \<lparr>role_name = ''Numeric'', role_dtype = Float32\<rparr>)],
           td_dtypes = [(''a'', Float32)]\<rparr>,
         sq_idx = Some (ObjIdx [[0, 1], [2]])\<rparr> (Some (RowList [1]))))
   \<and> CudfDataset_check_dtype cast_strings (\<lambda>n c. Some c)
         \<lparr>td_task = None, td_attrs = [],
           td_data = Some \<lparr>fr_index = [Lab 10, Lab 11, Lab 12],
              fr_cols = [(''a'', \<lparr>col_dtype = Float32, col_vals = [''0'', ''1'', ''2'']\<rparr>)]\<rparr>,
           td_roles = [(''a'', \<lparr>role_name = ''Numeric'', role_dtype = Float32\<rparr>)],
           td_dtypes = [(''a'', Float32)]\<rparr>
       = Inr \<lparr>td_task = None, td_attrs = [],
           td_data = Some \<lparr>fr_index = [Lab 10, Lab 11, Lab 12],
              fr_cols = [(''a'', \<lparr>col_dtype = Float32, col_vals = [''0'', ''1'', ''2'']\<rparr>)]\<rparr>,
           td_roles = [(''a'', \<lparr>role_name = ''Numeric'', role_dtype = Float32\<rparr>)],
           td_dtypes = [(''a'', Float32)]\<rparr>
   \<and> snd (SeqCudfDataset_get_first_frame [(''target'', ''Target'')] cast_strings
        (\<lambda>n c. Some c)
        \<lparr>sq_table = \<lparr>td_task = None, td_attrs = [],
           td_data = Some \<lparr>fr_index = [Lab 10, Lab 11, Lab 12],
              fr_cols = [(''a'', \<lparr>col_dtype = Float32, col_vals = [''0'', ''1'', ''2'']\<rparr>)]\<rparr>,
           td_roles = [(''a'', \<lparr>role_name = ''Numeric'', role_dtype = Float32\<rparr>)],
           td_dtypes = [(''a'', Float32)]\<rparr>,
         sq_idx = Some (ObjIdx [[0, 1], [2]])\<rparr> (Some (RowList [1])))
       = Inl TypeError"
proof -
  let ?t = "\<lparr>td_task = None, td_attrs = [],
           td_data = Some \<lparr>fr_index = [Lab 10, Lab 11, Lab 12],
              fr_cols = [(''a'', \<lparr>col_dtype = Float32, col_vals = [''0'', ''1'', ''2'']\<rparr>)]\<rparr>,
           td_roles = [(''a'', \<lparr>role_name = ''Numeric'', role_dtype = Float32\<rparr>)],
           td_dtypes = [(''a'', Float32)]\<rparr> :: string table_dataset"
  let ?sd = "\<lparr>sq_table = ?t, sq_idx = Some (ObjIdx [[0, 1], [2]])\<rparr>"
  let ?td = "\<lambda>(n::string) (c::string column). Some c"
  note T = SeqCudfDataset_get_first_frame_object_idx [where sd = ?sd and g = "[[0, 1], [2]]"
      and pairs = "[(''target'', ''Target'')]" and cast = cast_strings and to_datetime = ?td
      and k = "Some (RowList [1])" and t = ?t]
  have c: "CudfDataset_check_dtype cast_strings ?td ?t = Inr ?t"
    by (simp add: CudfDataset_check_dtype_def Let_def date_columns_def cast_dtypes_def
        cast_step_def astype_frame_def cast_strings_def is_number_def)
  have a: "isl (snd (SeqCudfDataset_get_first_frame [(''target'', ''Target'')] cast_strings ?td
                  ?sd (Some (RowList [1]))))"
    by (rule T [THEN conjunct1, THEN mp]) simp
  have b: "SeqCudfDataset_get_first_frame [(''target'', ''Target'')] cast_strings ?td
                  ?sd (Some (RowList [1])) = (?sd\<lparr>sq_table := ?t\<rparr>, Inl TypeError)"
    by (rule T [THEN conjunct2, THEN conjunct1, THEN mp]) (simp add: c)
  from a b c show ?thesis by simp
qed

section \<open>The auxiliary attributes of the table constructors: lemmas\<close>

lemma extract_inner_success:
  "extract_inner post data f ps (kw, roles) = Inr (kw', roles') \<Longrightarrow> map_of roles f = Some rl
   \<Longrightarrow> role_name rl \<in> set (map snd ps)
   \<Longrightarrow> \<exists>fr s. data = Some fr \<and> get_col fr f = Some s"
proof (induction ps arbitrary: kw roles)
  case Nil
  then show ?case by simp
next
  case (Cons p ps)
  obtain k r where p: "p = (k, r)" by (cases p)
  show ?case
  proof (cases "role_name rl = r")
    case True
    with Cons.prems(1,2) p show ?thesis
      by (auto split: option.splits)
  next
    case False
    with Cons.prems(1,2) p have
      rec: "extract_inner post data f ps (kw, roles) = Inr (kw', roles')"
      by simp
    from Cons.prems(3) p False have "role_name rl \<in> set (map snd ps)" by auto
    from Cons.IH [OF rec Cons.prems(2) this] show ?thesis .
  qed
qed

lemma extract_inner_other_roles:
  assumes "extract_inner post data f ps (kw, roles) = Inr (kw', roles')"
    and "map_of roles f = Some rl" and "g \<noteq> f"
  shows "map_of roles' g = map_of roles g"
  using extract_inner_roles [OF assms(1,2)] assms(3)
  by (simp add: update_conv')

lemma extract_outer_untouched:
  "extract_outer post data pairs fs (kw, roles) = Inr (kw', roles')
   \<Longrightarrow> distinct fs \<Longrightarrow> set fs \<subseteq> set (map fst roles)
   \<Longrightarrow> role_name DropRole \<notin> set (map snd pairs) \<Longrightarrow> distinct (map snd pairs)
   \<Longrightarrow> \<forall>g \<in> set fs. \<forall>r. map_of roles g = Some r \<longrightarrow> (k, role_name r) \<notin> set pairs
   \<Longrightarrow> map_of kw' k = map_of kw k"
proof (induction fs arbitrary: kw roles)
  case Nil
  then show ?case by simp
next
  case (Cons f fs)
  from Cons.prems(1) obtain kw1 roles1 where
    inner: "extract_inner post data f pairs (kw, roles) = Inr (kw1, roles1)" and
    rec: "extract_outer post data pairs fs (kw1, roles1) = Inr (kw', roles')"
    by (auto split: sum.splits)
  from Cons.prems(3) have mem: "f \<in> set (map fst roles)" by simp
  from key_has_role [OF mem] obtain rl where rl: "map_of roles f = Some rl" ..
  from Cons.prems(6) rl have nk: "(k, role_name rl) \<notin> set pairs" by simp
  from extract_inner_kwargs [OF inner rl Cons.prems(4,5)] nk
  have k1: "map_of kw1 k = map_of kw k" by simp
  have keys: "map fst roles1 = map fst roles"
    by (rule extract_inner_keys [OF inner])
  from Cons.prems(2) have dfs: "distinct fs" and nf: "f \<notin> set fs" by simp_all
  from Cons.prems(3) keys have s1: "set fs \<subseteq> set (map fst roles1)" by simp
  have h1: "\<forall>g \<in> set fs. \<forall>r. map_of roles1 g = Some r \<longrightarrow> (k, role_name r) \<notin> set pairs"
  proof (intro ballI allI impI)
    fix g r
    assume g: "g \<in> set fs" and r: "map_of roles1 g = Some r"
    from g nf have "g \<noteq> f" by auto
    from extract_inner_other_roles [OF inner rl this] r have "map_of roles g = Some r" by simp
    with Cons.prems(6) g show "(k, role_name r) \<notin> set pairs" by simp
  qed
  from Cons.IH [OF rec dfs s1 Cons.prems(4,5) h1] k1 show ?case by simp
qed

lemma extract_outer_attribute:
  "extract_outer post data pairs fs (kw, roles) = Inr (kw', roles')
   \<Longrightarrow> distinct fs \<Longrightarrow> set fs \<subseteq> set (map fst roles)
   \<Longrightarrow> role_name DropRole \<notin> set (map snd pairs) \<Longrightarrow> distinct (map snd pairs)
   \<Longrightarrow> f \<in> set fs \<Longrightarrow> map_of roles f = Some r \<Longrightarrow> (k, role_name r) \<in> set pairs
   \<Longrightarrow> \<forall>g \<in> set fs. g \<noteq> f \<longrightarrow>
         (\<forall>r'. map_of roles g = Some r' \<longrightarrow> (k, role_name r') \<notin> set pairs)
   \<Longrightarrow> \<exists>fr s. data = Some fr \<and> get_col fr f = Some s \<and> map_of kw' k = Some (post s)"
proof (induction fs arbitrary: kw roles)
  case Nil
  then show ?case by simp
next
  case (Cons f0 fs)
  from Cons.prems(1) obtain kw1 roles1 where
    inner: "extract_inner post data f0 pairs (kw, roles) = Inr (kw1, roles1)" and
    rec: "extract_outer post data pairs fs (kw1, roles1) = Inr (kw', roles')"
    by (auto split: sum.splits)
  from Cons.prems(3) have mem: "f0 \<in> set (map fst roles)" by simp
  from key_has_role [OF mem] obtain rl where rl: "map_of roles f0 = Some rl" ..
  have keys: "map fst roles1 = map fst roles"
    by (rule extract_inner_keys [OF inner])
  from Cons.prems(2) have dfs: "distinct fs" and nf: "f0 \<notin> set fs" by simp_all
  from Cons.prems(3) keys have s1: "set fs \<subseteq> set (map fst roles1)" by simp
  have other: "\<And>g. g \<in> set fs \<Longrightarrow> map_of roles1 g = map_of roles g"
  proof -
    fix g
    assume "g \<in> set fs"
    with nf have "g \<noteq> f0" by auto
    from extract_inner_other_roles [OF inner rl this] show "map_of roles1 g = map_of roles g" .
  qed
  show ?case
  proof (cases "f0 = f")
    case True
    with rl Cons.prems(7) have rr: "rl = r" by simp
    from Cons.prems(8) have "role_name r \<in> set (map snd pairs)" by force
    with extract_inner_success [OF inner rl] rr obtain fr s where
      d: "data = Some fr" and s: "get_col fr f0 = Some s"
      by blast
    from extract_inner_kwargs [OF inner rl Cons.prems(4,5)] rr Cons.prems(8) d s
    have k1: "map_of kw1 k = Some (post s)" by simp
    have h1: "\<forall>g \<in> set fs. \<forall>r'. map_of roles1 g = Some r' \<longrightarrow> (k, role_name r') \<notin> set pairs"
    proof (intro ballI allI impI)
      fix g r'
      assume g: "g \<in> set fs" and r': "map_of roles1 g = Some r'"
      from g nf True have "g \<noteq> f" by auto
      moreover from other [OF g] r' have "map_of roles g = Some r'" by simp
      ultimately show "(k, role_name r') \<notin> set pairs"
        using Cons.prems(9) g by simp
    qed
    from extract_outer_untouched [OF rec dfs s1 Cons.prems(4,5) h1] k1
    have "map_of kw' k = Some (post s)" by simp
    with d s True show ?thesis by simp
  next
    case False
    with Cons.prems(6) have fin: "f \<in> set fs" by simp
    from other [OF fin] Cons.prems(7) have r1: "map_of roles1 f = Some r" by simp
    have h1: "\<forall>g \<in> set fs. g \<noteq> f \<longrightarrow>
         (\<forall>r'. map_of roles1 g = Some r' \<longrightarrow> (k, role_name r') \<notin> set pairs)"
    proof (intro ballI allI impI)
      fix g r'
      assume g: "g \<in> set fs" and gf: "g \<noteq> f" and r': "map_of roles1 g = Some r'"
      from other [OF g] r' have "map_of roles g = Some r'" by simp
      with Cons.prems(9) g gf show "(k, role_name r') \<notin> set pairs" by simp
    qed
    from Cons.IH [OF rec dfs s1 Cons.prems(4,5) fin r1 Cons.prems(8) h1] show ?thesis .
  qed
qed

lemma astype_cols_names:
  "astype_cols cast dtypes cs = Some cs' \<Longrightarrow> map fst cs' = map fst cs"
proof (induction cs arbitrary: cs')
  case Nil
  then show ?case by simp
next
  case (Cons p cs)
  obtain n c where p: "p = (n, c)" by (cases p)
  from Cons.prems p obtain rest where
    "astype_cols cast dtypes cs = Some rest" and "map fst cs' = n # map fst rest"
    by (auto split: option.splits)
  with Cons.IH p show ?case by simp
qed

lemma cast_step_names:
  "map_option (\<lambda>fr. map fst (fr_cols fr)) (cast_step cast dtypes data)
     = map_option (\<lambda>fr. map fst (fr_cols fr)) data"
  by (auto simp: cast_step_def astype_frame_def astype_cols_names
      split: option.splits if_splits)

lemma convert_datetime_names:
  "convert_datetime to_datetime data cols = Inr data'
   \<Longrightarrow> map_option (\<lambda>fr. map fst (fr_cols fr)) data'
         = map_option (\<lambda>fr. map fst (fr_cols fr)) data"
proof (induction cols arbitrary: data)
  case Nil
  then show ?case by simp
next
  case (Cons i cols)
  from Cons.prems obtain fr c c' where
    d: "data = Some fr" and c: "map_of (fr_cols fr) i = Some c" and
    rec: "convert_datetime to_datetime
            (Some (fr\<lparr>fr_cols := AList.update i c' (fr_cols fr)\<rparr>)) cols = Inr data'"
    by (auto split: option.splits)
  from c have "i \<in> fst ` set (fr_cols fr)"
    by (metis map_of_eq_None_iff option.distinct(1))
  then have "map fst (AList.update i c' (fr_cols fr)) = map fst (fr_cols fr)"
    by (simp add: update_keys)
  with Cons.IH [OF rec] d show ?case by simp
qed

lemma CudfDataset_check_dtype_keeps:
  assumes "CudfDataset_check_dtype cast to_datetime ds = Inr ds'"
  shows "td_attrs ds' = td_attrs ds \<and> td_roles ds' = td_roles ds
         \<and> table_features ds' = table_features ds"
proof -
  from assms obtain data2 where
    c: "convert_datetime to_datetime
          (cast_step cast (cast_dtypes (td_roles ds)) (td_data ds))
          (date_columns (td_roles ds)) = Inr data2"
    and d: "ds' = ds\<lparr>td_data := data2,
               td_dtypes := fold (\<lambda>i d. AList.update i Datetime64 d) (date_columns (td_roles ds))
                              (cast_dtypes (td_roles ds))\<rparr>"
    by (auto simp: CudfDataset_check_dtype_def Let_def split: sum.splits)
  from convert_datetime_names [OF c] have
    "map_option (\<lambda>fr. map fst (fr_cols fr)) data2
       = map_option (\<lambda>fr. map fst (fr_cols fr)) (td_data ds)"
    by (simp add: cast_step_names)
  then have "table_features ds' = table_features ds"
    by (cases data2; cases "td_data ds") (simp_all add: d table_features_def)
  with d show ?thesis by simp
qed

lemma DaskCudfDataset_check_dtype_keeps:
  assumes "DaskCudfDataset_check_dtype cast to_datetime ds = Inr ds'"
  shows "td_attrs ds' = td_attrs ds \<and> td_roles ds' = td_roles ds
         \<and> table_features ds' = table_features ds"
proof -
  from assms obtain data2 where
    c: "convert_datetime to_datetime
          (cast_step cast (cast_dtypes (td_roles ds)) (td_data ds))
          (date_columns (td_roles ds)) = Inr data2"
    and d: "ds' = ds\<lparr>td_data := data2,
               td_dtypes := fold (\<lambda>i d. AList.update i Datetime64 d) (date_columns (td_roles ds))
                              (cast_dtypes (td_roles ds))\<rparr>"
    by (auto simp: DaskCudfDataset_check_dtype_def Let_def split: sum.splits option.splits)
  from convert_datetime_names [OF c] have
    "map_option (\<lambda>fr. map fst (fr_cols fr)) data2
       = map_option (\<lambda>fr. map fst (fr_cols fr)) (td_data ds)"
    by (simp add: cast_step_names)
  then have "table_features ds' = table_features ds"
    by (cases data2; cases "td_data ds") (simp_all add: d table_features_def)
  with d show ?thesis by simp
qed

lemma map_of_dict_of_keys:
  assumes "f \<in> set xs"
  shows "map_of (dict_of (map (\<lambda>x. (x, g x)) xs)) f = Some (g f)"
proof -
  have "map_of (dict_of (map (\<lambda>x. (x, g x)) xs)) f = map_of (map (\<lambda>x. (x, g x)) (rev xs)) f"
    by (simp add: map_of_dict_of rev_map)
  also have "\<dots> = Some (g f)"
    using assms by (simp add: map_of_map_restrict)
  finally show ?thesis .
qed

lemma table_set_data_result:
  assumes keeps: "\<And>d d'. check d = Inr d' \<Longrightarrow>
        td_attrs d' = td_attrs d \<and> td_roles d' = td_roles d
        \<and> table_features d' = table_features d"
    and s: "table_set_data check (initialize task kw) (Some fr) (RolesDict rs) = Inr ds"
  shows "td_attrs ds = kw"
    and "table_features ds = map fst (fr_cols fr)"
    and "td_roles ds = dict_of (map (\<lambda>x. (x, the (map_of rs x))) (map fst (fr_cols fr)))"
proof -
  let ?ds1 = "(initialize task kw)\<lparr>td_data := Some fr\<rparr>"
  have tf: "table_features ?ds1 = map fst (fr_cols fr)"
    by (simp add: table_features_def)
  from s obtain rs' where
    r: "roles_for (map fst (fr_cols fr)) (RolesDict rs) = Inr rs'" and
    c: "check (?ds1\<lparr>td_roles := rs'\<rparr>) = Inr ds"
    by (auto simp: table_set_data_def Let_def tf split: sum.splits)
  from r have rs': "rs' = dict_of (map (\<lambda>x. (x, the (map_of rs x))) (map fst (fr_cols fr)))"
    by (auto simp: roles_for_def split: if_splits)
  from keeps [OF c] show "td_attrs ds = kw"
    by (simp add: initialize_def)
  from keeps [OF c] show "table_features ds = map fst (fr_cols fr)"
    by (simp add: table_features_def)
  from keeps [OF c] rs'
  show "td_roles ds = dict_of (map (\<lambda>x. (x, the (map_of rs x))) (map fst (fr_cols fr)))"
    by simp
qed

lemma remap_kwargs_lookup:
  "remap_kwargs m kw = Some kw2 \<Longrightarrow> map_of kw k = Some s
   \<Longrightarrow> sr_name s \<noteq> ''index''
       \<and> map_of kw2 k = Some (s\<lparr>sr_index := map (map_label m) (sr_index s)\<rparr>)"
proof (induction kw arbitrary: kw2)
  case Nil
  then show ?case by simp
next
  case (Cons p kw)
  obtain a t where p: "p = (a, t)" by (cases p)
  from Cons.prems(1) p obtain t' rest where
    t': "remap_series m t = Some t'" and rest: "remap_kwargs m kw = Some rest" and
    kw2: "kw2 = (a, t') # rest"
    by (auto split: option.splits)
  show ?case
  proof (cases "a = k")
    case True
    with Cons.prems(2) p have "t = s" by simp
    with t' kw2 True show ?thesis
      by (auto simp: remap_series_def split: if_splits)
  next
    case False
    with Cons.prems(2) p have "map_of kw k = Some s" by simp
    from Cons.IH [OF rest this] kw2 False show ?thesis by simp
  qed
qed

lemma get_col_column:
  "get_col fr f = Some s
   \<Longrightarrow> \<exists>c. map_of (fr_cols fr) f = Some c \<and> sr_vals s = col_vals c \<and> sr_name s = f"
  by (auto simp: get_col_def split: option.splits)

lemma column_is_feature:
  "map_of cols f = Some c \<Longrightarrow> f \<in> set (map fst cols)"
  by (metis map_of_eq_None_iff option.distinct(1) set_map)

lemma dropped_role_of_special:
  assumes "map_of roles f = Some r" and "(k, role_name r) \<in> set pairs"
  shows "the (map_of (drop_special pairs roles) f) = DropRole"
proof -
  from assms(2) have "is_special pairs r"
    by (force simp: is_special_def)
  with assms(1) show ?thesis by (simp add: map_of_drop_special)
qed

lemma CudfDataset_init_special:
  assumes c: "CudfDataset_init pairs cast to_datetime h data ro task kwargs = (h', Inr ds)"
    and dist: "distinct (map fst (read_roles h ro))"
    and f: "map_of (read_roles h ro) f = Some r"
    and k: "(k, role_name r) \<in> set pairs"
    and nd: "role_name DropRole \<notin> set (map snd pairs)"
    and dp: "distinct (map snd pairs)"
    and uniq: "\<forall>g r'. g \<noteq> f \<and> map_of (read_roles h ro) g = Some r'
                 \<longrightarrow> (k, role_name r') \<notin> set pairs"
  shows "\<exists>fr c s. data = Some fr \<and> map_of (fr_cols fr) f = Some c
           \<and> map_of (td_attrs ds) k = Some s \<and> sr_vals s = col_vals c
           \<and> map_of (td_roles ds) f = Some DropRole
           \<and> f \<in> set (table_features ds)"
proof -
  let ?roles = "read_roles h ro"
  from c obtain kw' rs where
    ex: "extract_attrs reset_index_drop data pairs kwargs ?roles = Inr (kw', rs)"
    by (auto simp: CudfDataset_init_def split: sum.splits)
  from extract_attrs_roles [OF ex dist] have rs: "rs = drop_special pairs ?roles" .
  from ex have eo: "extract_outer reset_index_drop data pairs (map fst ?roles) (kwargs, ?roles)
                      = Inr (kw', rs)"
    by (simp add: extract_attrs_def)
  from f have fin: "f \<in> set (map fst ?roles)" by (rule column_is_feature)
  from uniq have u: "\<forall>g \<in> set (map fst ?roles). g \<noteq> f \<longrightarrow>
         (\<forall>r'. map_of ?roles g = Some r' \<longrightarrow> (k, role_name r') \<notin> set pairs)"
    by blast
  from extract_outer_attribute [OF eo dist subset_refl nd dp fin f k u] obtain fr s0 where
    d: "data = Some fr" and g: "get_col fr f = Some s0" and
    a: "map_of kw' k = Some (reset_index_drop s0)"
    by blast
  from get_col_column [OF g] obtain col where
    col: "map_of (fr_cols fr) f = Some col" and v: "sr_vals s0 = col_vals col"
    by blast
  from c ex d have
    s: "table_set_data (CudfDataset_check_dtype cast to_datetime) (initialize task kw') (Some fr)
          (RolesDict rs) = Inr ds"
    by (auto simp: CudfDataset_init_def split: sum.splits)
  note res = table_set_data_result [OF CudfDataset_check_dtype_keeps s]
  from col have cf: "f \<in> set (map fst (fr_cols fr))" by (rule column_is_feature)
  from res(3) map_of_dict_of_keys [OF cf, where g = "\<lambda>x. the (map_of rs x)"]
  have "map_of (td_roles ds) f = Some (the (map_of rs f))" by simp
  with rs dropped_role_of_special [OF f k] have ro: "map_of (td_roles ds) f = Some DropRole"
    by simp
  from res(1) a have "map_of (td_attrs ds) k = Some (reset_index_drop s0)" by simp
  moreover from v have "sr_vals (reset_index_drop s0) = col_vals col"
    by (simp add: reset_index_drop_def)
  moreover from res(2) cf have "f \<in> set (table_features ds)" by simp
  ultimately show ?thesis using d col ro by blast
qed

lemma DaskCudfDataset_init_special:
  assumes c: "DaskCudfDataset_init pairs cast to_datetime h data ro task index_ok kwargs
                = (h', Inr ds)"
    and dist: "distinct (map fst (read_roles h ro))"
    and f: "map_of (read_roles h ro) f = Some r"
    and k: "(k, role_name r) \<in> set pairs"
    and nd: "role_name DropRole \<notin> set (map snd pairs)"
    and dp: "distinct (map snd pairs)"
    and uniq: "\<forall>g r'. g \<noteq> f \<and> map_of (read_roles h ro) g = Some r'
                 \<longrightarrow> (k, role_name r') \<notin> set pairs"
  shows "\<exists>fr c s. data = Some fr \<and> map_of (fr_cols fr) f = Some c
           \<and> map_of (td_attrs ds) k = Some s \<and> sr_vals s = col_vals c
           \<and> map_of (td_roles ds) f = Some DropRole
           \<and> f \<in> set (table_features ds)"
proof -
  let ?roles = "read_roles h ro"
  from c obtain kw1 rs where
    ex: "extract_attrs (\<lambda>s. s) data pairs kwargs ?roles = Inr (kw1, rs)"
    by (auto simp: DaskCudfDataset_init_def split: sum.splits)
  from extract_attrs_roles [OF ex dist] have rs: "rs = drop_special pairs ?roles" .
  from ex have eo: "extract_outer (\<lambda>s. s) data pairs (map fst ?roles) (kwargs, ?roles)
                      = Inr (kw1, rs)"
    by (simp add: extract_attrs_def)
  from f have fin: "f \<in> set (map fst ?roles)" by (rule column_is_feature)
  from uniq have u: "\<forall>g \<in> set (map fst ?roles). g \<noteq> f \<longrightarrow>
         (\<forall>r'. map_of ?roles g = Some r' \<longrightarrow> (k, role_name r') \<notin> set pairs)"
    by blast
  from extract_outer_attribute [OF eo dist subset_refl nd dp fin f k u] obtain fr s0 where
    d: "data = Some fr" and g: "get_col fr f = Some s0" and
    a: "map_of kw1 k = Some s0"
    by blast
  from get_col_column [OF g] obtain col where
    col: "map_of (fr_cols fr) f = Some col" and v: "sr_vals s0 = col_vals col"
    and nm: "sr_name s0 = f"
    by blast
  from col have cf: "f \<in> set (map fst (fr_cols fr))" by (rule column_is_feature)
  have "\<exists>fr' kw' s. table_set_data (DaskCudfDataset_check_dtype cast to_datetime)
            (initialize task kw') (Some fr') (RolesDict rs) = Inr ds
          \<and> map_of kw' k = Some s \<and> sr_vals s = col_vals col
          \<and> f \<in> set (map fst (fr_cols fr'))"
  proof (cases index_ok)
    case True
    with c ex d have
      "table_set_data (DaskCudfDataset_check_dtype cast to_datetime) (initialize task kw1)
         (Some fr) (RolesDict rs) = Inr ds"
      by (auto simp: DaskCudfDataset_init_def split: sum.splits)
    with a v cf show ?thesis by blast
  next
    case False
    let ?m = "index_mapping (fr_index fr)"
    from False c ex d obtain kw2 where
      rk: "remap_kwargs ?m kw1 = Some kw2" and
      s: "table_set_data (DaskCudfDataset_check_dtype cast to_datetime) (initialize task kw2)
            (Some (remap_frame ?m fr)) (RolesDict rs) = Inr ds"
      by (auto simp: DaskCudfDataset_init_def split: sum.splits option.splits)
    from remap_kwargs_lookup [OF rk a] nm have
      ni: "f \<noteq> ''index''" and
      a2: "map_of kw2 k = Some (s0\<lparr>sr_index := map (map_label ?m) (sr_index s0)\<rparr>)"
      by auto
    from cf ni have "f \<in> set (map fst (fr_cols (remap_frame ?m fr)))"
      by (force simp: remap_frame_def)
    with s a2 v show ?thesis by force
  qed
  then obtain fr' kw' s where
    s: "table_set_data (DaskCudfDataset_check_dtype cast to_datetime)
            (initialize task kw') (Some fr') (RolesDict rs) = Inr ds" and
    a': "map_of kw' k = Some s" and v': "sr_vals s = col_vals col" and
    cf': "f \<in> set (map fst (fr_cols fr'))"
    by blast
  note res = table_set_data_result [OF DaskCudfDataset_check_dtype_keeps s]
  from res(3) map_of_dict_of_keys [OF cf', where g = "\<lambda>x. the (map_of rs x)"]
  have "map_of (td_roles ds) f = Some (the (map_of rs f))" by simp
  with rs dropped_role_of_special [OF f k] have ro: "map_of (td_roles ds) f = Some DropRole"
    by simp
  from res(1) a' have "map_of (td_attrs ds) k = Some s" by simp
  moreover from res(2) cf' have "f \<in> set (table_features ds)" by simp
  ultimately show ?thesis using d col ro v' by blast
qed

text \<open>
  C3 (as the code has it).  A table dataset is constructed from a table and a role
  mapping in which column \<open>f\<close> carries a special role: its role name is paired with the
  attribute \<open>k\<close> in \<^verbatim>\<open>zip(valid_array_attributes, array_attr_roles)\<close>.  The role names of
  the pairs are distinct and \<open>Drop\<close> is not one of them; no other column of the mapping
  has a role paired with \<open>k\<close> (a later one would overwrite the attribute).  When the
  constructor returns a dataset:
  \<^item> the attribute \<open>k\<close> of the dataset holds the values of column \<open>f\<close> of the table;
  \<^item> the role of \<open>f\<close> in the dataset is \<^verbatim>\<open>DropRole()\<close>;
  \<^item> \<open>f\<close> is still a column of the stored table, hence a member of \<open>features\<close>: the
    constructor passes \<open>data\<close> whole to \<^verbatim>\<open>set_data\<close> and removes no column.
\<close>

theorem table_init_special_column:
  "distinct (map fst (read_roles h ro)) \<and> map_of (read_roles h ro) f = Some r
   \<and> (k, role_name r) \<in> set pairs
   \<and> role_name DropRole \<notin> set (map snd pairs) \<and> distinct (map snd pairs)
   \<and> (\<forall>g r'. g \<noteq> f \<and> map_of (read_roles h ro) g = Some r'
          \<longrightarrow> (k, role_name r') \<notin> set pairs)
   \<and> (CudfDataset_init pairs cast to_datetime h data ro task kwargs = (h', Inr ds)
        \<or> DaskCudfDataset_init pairs cast to_datetime h data ro task index_ok kwargs
             = (h', Inr ds))
   \<longrightarrow> (\<exists>fr c s. data = Some fr \<and> map_of (fr_cols fr) f = Some c
          \<and> map_of (td_attrs ds) k = Some s \<and> sr_vals s = col_vals c
          \<and> map_of (td_roles ds) f = Some DropRole
          \<and> f \<in> set (table_features ds))"
proof (intro impI)
  assume A: "distinct (map fst (read_roles h ro)) \<and> map_of (read_roles h ro) f = Some r
   \<and> (k, role_name r) \<in> set pairs
   \<and> role_name DropRole \<notin> set (map snd pairs) \<and> distinct (map snd pairs)
   \<and> (\<forall>g r'. g \<noteq> f \<and> map_of (read_roles h ro) g = Some r'
          \<longrightarrow> (k, role_name r') \<notin> set pairs)
   \<and> (CudfDataset_init pairs cast to_datetime h data ro task kwargs = (h', Inr ds)
        \<or> DaskCudfDataset_init pairs cast to_datetime h data ro task index_ok kwargs
             = (h', Inr ds))"
  then have dist: "distinct (map fst (read_roles h ro))"
    and f: "map_of (read_roles h ro) f = Some r"
    and k: "(k, role_name r) \<in> set pairs"
    and nd: "role_name DropRole \<notin> set (map snd pairs)"
    and dp: "distinct (map snd pairs)"
    and uniq: "\<forall>g r'. g \<noteq> f \<and> map_of (read_roles h ro) g = Some r'
          \<longrightarrow> (k, role_name r') \<notin> set pairs"
    by blast+
  from A consider
    (cudf) "CudfDataset_init pairs cast to_datetime h data ro task kwargs = (h', Inr ds)"
    | (dask) "DaskCudfDataset_init pairs cast to_datetime h data ro task index_ok kwargs
             = (h', Inr ds)"
    by blast
  then show "\<exists>fr c s. data = Some fr \<and> map_of (fr_cols fr) f = Some c
          \<and> map_of (td_attrs ds) k = Some s \<and> sr_vals s = col_vals c
          \<and> map_of (td_roles ds) f = Some DropRole
          \<and> f \<in> set (table_features ds)"
  proof cases
    case cudf
    show ?thesis by (rule CudfDataset_init_special [OF cudf dist f k nd dp uniq])
  next
    case dask
    show ?thesis by (rule DaskCudfDataset_init_special [OF dask dist f k nd dp uniq])
  qed
qed

theorem table_init_special_column_witness:
  "DaskCudfDataset_init [(''target'', ''Target''), (''group'', ''Group'')] cast_strings
      (\<lambda>n c. Some (c\<lparr>col_dtype := Datetime64\<rparr>))
      ((\<lambda>b. None)(0 := Some [(''x'', \<lparr>role_name = ''Numeric'', role_dtype = Float32\<rparr>),
                             (''y'', \<lparr>role_name = ''Target'', role_dtype = Float32\<rparr>)]))
      (Some \<lparr>fr_index = [Lab 5, Lab 3],
             fr_cols = [(''x'', \<lparr>col_dtype = Object, col_vals = [''1'', ''2'']\<rparr>),
                        (''y'', \<lparr>col_dtype = Object, col_vals = [''7'', ''8'']\<rparr>)]\<rparr>)
      (Some 0) None False []
   = ((\<lambda>b. None)(0 := Some [(''x'', \<lparr>role_name = ''Numeric'', role_dtype = Float32\<rparr>),
                            (''y'', DropRole)]),
      Inr \<lparr>td_task = None,
          td_attrs = [(''target'', \<lparr>sr_name = ''y'', sr_index = [Lab 0, Lab 1],
                         sr_dtype = Object, sr_vals = [''7'', ''8'']\<rparr>)],
          td_data = Some \<lparr>fr_index = [Lab 0, Lab 1],
                 fr_cols = [(''x'', \<lparr>col_dtype = Float32, col_vals = [''1'', ''2'']\<rparr>),
                            (''y'', \<lparr>col_dtype = role_dtype DropRole,
                                     col_vals = [''7'', ''8'']\<rparr>)]\<rparr>,
          td_roles = [(''x'', \<lparr>role_name = ''Numeric'', role_dtype = Float32\<rparr>), (''y'', DropRole)],
          td_dtypes = [(''x'', Float32), (''y'', role_dtype DropRole)]\<rparr>)"
proof -
  let ?pairs = "[(''target'', ''Target''), (''group'', ''Group'')]"
  let ?td = "\<lambda>(n::string) (c::string column). Some (c\<lparr>col_dtype := Datetime64\<rparr>)"
  let ?roles = "[(''x'', \<lparr>role_name = ''Numeric'', role_dtype = Float32\<rparr>),
                 (''y'', \<lparr>role_name = ''Target'', role_dtype = Float32\<rparr>)]"
  let ?h = "(\<lambda>b::addr. None)(0 := Some ?roles)"
  let ?h' = "(\<lambda>b::addr. None)(0 := Some [(''x'', \<lparr>role_name = ''Numeric'', role_dtype = Float32\<rparr>),
                            (''y'', DropRole)])"
  let ?fr = "\<lparr>fr_index = [Lab 5, Lab 3],
             fr_cols = [(''x'', \<lparr>col_dtype = Object, col_vals = [''1'', ''2'']\<rparr>),
                        (''y'', \<lparr>col_dtype = Object, col_vals = [''7'', ''8'']\<rparr>)]\<rparr>"
  let ?ds = "\<lparr>td_task = None,
          td_attrs = [(''target'', \<lparr>sr_name = ''y'', sr_index = [Lab 0, Lab 1],
                         sr_dtype = Object, sr_vals = [''7'', ''8'']\<rparr>)],
          td_data = Some \<lparr>fr_index = [Lab 0, Lab 1],
                 fr_cols = [(''x'', \<lparr>col_dtype = Float32, col_vals = [''1'', ''2'']\<rparr>),
                            (''y'', \<lparr>col_dtype = role_dtype DropRole,
                                     col_vals = [''7'', ''8'']\<rparr>)]\<rparr>,
          td_roles = [(''x'', \<lparr>role_name = ''Numeric'', role_dtype = Float32\<rparr>), (''y'', DropRole)],
          td_dtypes = [(''x'', Float32), (''y'', role_dtype DropRole)]\<rparr>"
  have m: "index_mapping [Lab 5, Lab 3] = [(Lab 5, 0), (Lab 3, 1)]"
    by (simp add: index_mapping_def dict_of_def upt_rec)
  have e: "DaskCudfDataset_init ?pairs cast_strings ?td ?h (Some ?fr) (Some 0) None False []
             = (?h', Inr ?ds)"
    by (simp add: DaskCudfDataset_init_def extract_attrs_def read_roles_def write_roles_def
        get_col_def table_set_data_def table_features_def roles_for_def dict_of_def
        initialize_def DaskCudfDataset_check_dtype_def Let_def date_columns_def cast_dtypes_def
        cast_step_def astype_frame_def cast_strings_def is_number_def DropRole_def
        m remap_frame_def remap_series_def map_label_def)
  have u: "\<forall>g r'. g \<noteq> ''y'' \<and> map_of (read_roles ?h (Some 0)) g = Some r'
             \<longrightarrow> (''target'', role_name r') \<notin> set ?pairs"
    by (auto simp: read_roles_def split: if_splits)
  have l: "\<exists>fr c s. Some ?fr = Some fr \<and> map_of (fr_cols fr) ''y'' = Some c
          \<and> map_of (td_attrs ?ds) ''target'' = Some s \<and> sr_vals s = col_vals c
          \<and> map_of (td_roles ?ds) ''y'' = Some DropRole
          \<and> ''y'' \<in> set (table_features ?ds)"
    by (rule table_init_special_column [where h = ?h and ro = "Some 0" and f = "''y''"
          and r = "\<lparr>role_name = ''Target'', role_dtype = Float32\<rparr>" and k = "''target''"
          and pairs = ?pairs and cast = cast_strings and to_datetime = ?td
          and data = "Some ?fr" and task = None and kwargs = "[]" and h' = ?h' and ds = ?ds
          and index_ok = False, THEN mp])
      (simp add: e u read_roles_def DropRole_def)
  from e l show ?thesis by simp
qed

theorem table_init_keeps_special_column_counterexample:
  "snd (CudfDataset_init [(''target'', ''Target''), (''group'', ''Group'')] cast_strings
      (\<lambda>n c. Some (c\<lparr>col_dtype := Datetime64\<rparr>))
      ((\<lambda>b. None)(0 := Some [(''x'', \<lparr>role_name = ''Numeric'', role_dtype = Float32\<rparr>),
                             (''y'', \<lparr>role_name = ''Target'', role_dtype = Float32\<rparr>)]))
      (Some \<lparr>fr_index = [Lab 5, Lab 3],
             fr_cols = [(''x'', \<lparr>col_dtype = Object, col_vals = [''1'', ''2'']\<rparr>),
                        (''y'', \<lparr>col_dtype = Object, col_vals = [''7'', ''8'']\<rparr>)]\<rparr>)
      (Some 0) None [])
   = Inr \<lparr>td_task = None,
          td_attrs = [(''target'', \<lparr>sr_name = ''y'', sr_index = [Lab 0, Lab 1],
                         sr_dtype = Object, sr_vals = [''7'', ''8'']\<rparr>)],
          td_data = Some \<lparr>fr_index = [Lab 5, Lab 3],
                 fr_cols = [(''x'', \<lparr>col_dtype = Float32, col_vals = [''1'', ''2'']\<rparr>),
                            (''y'', \<lparr>col_dtype = role_dtype DropRole,
                                     col_vals = [''7'', ''8'']\<rparr>)]\<rparr>,
          td_roles = [(''x'', \<lparr>role_name = ''Numeric'', role_dtype = Float32\<rparr>), (''y'', DropRole)],
          td_dtypes = [(''x'', Float32), (''y'', role_dtype DropRole)]\<rparr>
   \<and> table_features \<lparr>td_task = None,
          td_attrs = [(''target'', \<lparr>sr_name = ''y'', sr_index = [Lab 0, Lab 1],
                         sr_dtype = Object, sr_vals = [''7'', ''8'']\<rparr>)],
          td_data = Some \<lparr>fr_index = [Lab 5, Lab 3],
                 fr_cols = [(''x'', \<lparr>col_dtype = Float32, col_vals = [''1'', ''2'']\<rparr>),
                            (''y'', \<lparr>col_dtype = role_dtype DropRole,
                                     col_vals = [''7'', ''8'']\<rparr>)]\<rparr>,
          td_roles = [(''x'', \<lparr>role_name = ''Numeric'', role_dtype = Float32\<rparr>), (''y'', DropRole)],
          td_dtypes = [(''x'', Float32), (''y'', role_dtype DropRole)]\<rparr>
     = [''x'', ''y'']"
  by (simp add: CudfDataset_init_def extract_attrs_def read_roles_def write_roles_def
      get_col_def table_set_data_def table_features_def roles_for_def dict_of_def
      initialize_def CudfDataset_check_dtype_def Let_def date_columns_def cast_dtypes_def
      cast_step_def astype_frame_def cast_strings_def is_number_def DropRole_def
      reset_index_drop_def)

end
